theory Spec2Isabelle
  imports Complex_Main "HOL-Library.Sublist"
begin

section \<open>Vectors of the rendering engine\<close>

text \<open>
  The program computes with the rendering engine's three-component vectors
  (\<^verbatim>\<open>THREE.Vector3\<close>). Coordinates are IEEE doubles in the program and real
  numbers here: the development reasons about the exact arithmetic the program
  approximates. Each operation below is the engine's method of the same name;
  \<^verbatim>\<open>normalize\<close> divides by \<^verbatim>\<open>length() || 1\<close>, so the zero vector stays the
  zero vector, and \<^verbatim>\<open>angleTo\<close> answers \<open>pi / 2\<close> when either vector has length zero.
\<close>

type_synonym vec3 = "real \<times> real \<times> real"

fun subVectors :: "vec3 \<Rightarrow> vec3 \<Rightarrow> vec3" where
  "subVectors (ax, ay, az) (bx, by, bz) = (ax - bx, ay - by, az - bz)"

fun addVectors :: "vec3 \<Rightarrow> vec3 \<Rightarrow> vec3" where
  "addVectors (ax, ay, az) (bx, by, bz) = (ax + bx, ay + by, az + bz)"

fun multiplyScalar :: "vec3 \<Rightarrow> real \<Rightarrow> vec3" where
  "multiplyScalar (x, y, z) s = (x * s, y * s, z * s)"

fun crossVectors :: "vec3 \<Rightarrow> vec3 \<Rightarrow> vec3" where
  "crossVectors (ax, ay, az) (bx, by, bz) =
     (ay * bz - az * by, az * bx - ax * bz, ax * by - ay * bx)"

fun dot :: "vec3 \<Rightarrow> vec3 \<Rightarrow> real" where
  "dot (ax, ay, az) (bx, by, bz) = ax * bx + ay * by + az * bz"

fun lengthSq :: "vec3 \<Rightarrow> real" where
  "lengthSq (x, y, z) = x * x + y * y + z * z"

definition vlength :: "vec3 \<Rightarrow> real" where
  "vlength v = sqrt (lengthSq v)"

definition normalizeVec :: "vec3 \<Rightarrow> vec3" where
  "normalizeVec v = multiplyScalar v (1 / (if vlength v = 0 then 1 else vlength v))"

definition clamp :: "real \<Rightarrow> real \<Rightarrow> real \<Rightarrow> real" where
  "clamp x lo hi = max lo (min hi x)"

definition angleTo :: "vec3 \<Rightarrow> vec3 \<Rightarrow> real" where
  "angleTo v w =
     (let denominator = sqrt (lengthSq v * lengthSq w)
      in if denominator = 0 then pi / 2
         else arccos (clamp (dot v w / denominator) (- 1) 1))"

section \<open>Strings\<close>

text \<open>
  \<^verbatim>\<open>String.prototype.toLowerCase\<close> and \<^verbatim>\<open>toUpperCase\<close> on the letters A to Z;
  every other character is kept. The comparisons of the program are against
  the ASCII words \<^verbatim>\<open>double\<close> and \<^verbatim>\<open>triple\<close> and the element symbols of the
  colour table.
\<close>

definition toLowerChar :: "char \<Rightarrow> char" where
  "toLowerChar c =
     (let n = (of_char c :: nat) in if 65 \<le> n \<and> n \<le> 90 then char_of (n + 32) else c)"

definition toUpperChar :: "char \<Rightarrow> char" where
  "toUpperChar c =
     (let n = (of_char c :: nat) in if 97 \<le> n \<and> n \<le> 122 then char_of (n - 32) else c)"

definition toLowerCase :: "string \<Rightarrow> string" where
  "toLowerCase s = map toLowerChar s"

definition toUpperCase :: "string \<Rightarrow> string" where
  "toUpperCase s = map toUpperChar s"

section \<open>Single-precision numbers\<close>

text \<open>
  A \<^verbatim>\<open>Float32Array\<close> holds single-precision numbers. A number stored in it
  is rounded to the nearest of them, to the one with the even mantissa when
  two are equally near, and to an infinity when the result is beyond the
  largest. \<open>binade\<close> is the binary exponent of the number, kept between
  \<open>-126\<close> and 127; the mantissa has 24 bits.
\<close>

datatype float32 = Single real | PlusInfinity | MinusInfinity

definition roundHalfEven :: "real \<Rightarrow> int" where
  "roundHalfEven q =
     (let f = \<lfloor>q\<rfloor>; d = q - of_int f
      in if d < 1 / 2 then f else if d > 1 / 2 then f + 1 else if even f then f else f + 1)"

definition binade :: "real \<Rightarrow> int" where
  "binade a =
     (case List.find (\<lambda>e. a < 2 powi (e + 1)) [- 126 .. 127] of None \<Rightarrow> 127 | Some e \<Rightarrow> e)"

definition toFloat32 :: "real \<Rightarrow> float32" where
  "toFloat32 x =
     (let ulp = 2 powi (binade \<bar>x\<bar> - 23);
          r = of_int (roundHalfEven (x / ulp)) * ulp
      in if r \<ge> 2 ^ 128 then PlusInfinity
         else if r \<le> - (2 ^ 128) then MinusInfinity
         else Single r)"

type_synonym position32 = "float32 \<times> float32 \<times> float32"

section \<open>Scene objects\<close>

text \<open>
  The structured description, as the builders read it. A field the program
  tests for presence before use is an option.
\<close>

record bond_angle =
  angle :: string
  atomsInvolved :: "string list"
  atomsInvolvedIndices :: "int list"

record atom =
  element :: string
  atom_position :: "vec3 option"
  vseprShape :: string
  bondAngles :: "bond_angle list option"

record bond =
  bond_start :: int
  bond_end :: int
  bond_type :: string
  energy :: string

text \<open>
  The \<^verbatim>\<open>userData.details\<close> payload of a scene object: the details of a face
  group, the tag of an atom mesh (\<^verbatim>\<open>element, bondAngles, vseprShape, atomIndex\<close>)
  or the tag of a bond group (\<^verbatim>\<open>name, type, energy, startAtomIndex, endAtomIndex\<close>).
\<close>

datatype details =
    FaceDetails string string
  | AtomDetails string "bond_angle list option" string nat
  | BondDetails string string string int int

datatype geometry =
    BufferGeometry position32 position32 position32
  | SphereGeometry real
  | CylinderGeometry real real

datatype rotation =
    Identity
  | FromUnitVectors vec3 vec3
  | FromBasis vec3 vec3 vec3

record mesh =
  geometry :: geometry
  color :: nat
  faceId :: "nat option"
  mesh_details :: "details option"
  mesh_position :: vec3

record sprite =
  sprite_label :: string
  sprite_position :: vec3
  sprite_scale :: vec3

record group =
  group_details :: "details option"
  group_position :: vec3
  group_quaternion :: rotation
  atomPositions :: "vec3 list option"

datatype obj3d =
    Mesh mesh
  | Sprite sprite
  | Group group "obj3d list"

definition emptyGroup :: group where
  "emptyGroup = \<lparr>group_details = None, group_position = (0, 0, 0),
                  group_quaternion = Identity, atomPositions = None\<rparr>"

text \<open>
  An object of the scene is named by its path from the root: the list of child
  positions that leads to it. \<^verbatim>\<open>Object3D.traverse\<close> visits an object and then
  its children in order; \<open>traverse\<close> lists the visited objects with their paths.
\<close>

type_synonym path = "nat list"

fun traverse :: "path \<Rightarrow> obj3d \<Rightarrow> (path \<times> obj3d) list"
  and traverseChildren :: "path \<Rightarrow> nat \<Rightarrow> obj3d list \<Rightarrow> (path \<times> obj3d) list" where
  "traverse p (Mesh m) = [(p, Mesh m)]"
| "traverse p (Sprite s) = [(p, Sprite s)]"
| "traverse p (Group g cs) = (p, Group g cs) # traverseChildren p 0 cs"
| "traverseChildren p i [] = []"
| "traverseChildren p i (c # cs) = traverse (p @ [i]) c @ traverseChildren p (Suc i) cs"

fun isMesh :: "obj3d \<Rightarrow> bool" where
  "isMesh (Mesh m) = True"
| "isMesh (Sprite s) = False"
| "isMesh (Group g cs) = False"

fun theMesh :: "obj3d \<Rightarrow> mesh option" where
  "theMesh (Mesh m) = Some m"
| "theMesh (Sprite s) = None"
| "theMesh (Group g cs) = None"

fun theSprite :: "obj3d \<Rightarrow> sprite option" where
  "theSprite (Mesh m) = None"
| "theSprite (Sprite s) = Some s"
| "theSprite (Group g cs) = None"

fun children :: "obj3d \<Rightarrow> obj3d list" where
  "children (Mesh m) = []"
| "children (Sprite s) = []"
| "children (Group g cs) = cs"

definition meshesOf :: "obj3d \<Rightarrow> mesh list" where
  "meshesOf obj = List.map_filter (\<lambda>(p, n). theMesh n) (traverse [] obj)"

definition spritesOf :: "obj3d \<Rightarrow> sprite list" where
  "spritesOf obj = List.map_filter (\<lambda>(p, n). theSprite n) (traverse [] obj)"

section \<open>Bonds\<close>

definition CHEM_MODEL_SCALE :: real where
  "CHEM_MODEL_SCALE = 3.0"

definition bondRadius :: real where
  "bondRadius = 0.05 * CHEM_MODEL_SCALE"

text \<open>The material colour \<^verbatim>\<open>0xcccccc\<close> of a bond cylinder is 13421772.\<close>

definition createCylinder :: "real \<Rightarrow> mesh" where
  "createCylinder len =
     \<lparr>geometry = CylinderGeometry bondRadius len, color = 13421772, faceId = None,
      mesh_details = None, mesh_position = (0, 0, 0)\<rparr>"

definition offsetDirection :: "vec3 \<Rightarrow> vec3" where
  "offsetDirection path =
     (let d = crossVectors path (0, 1, 0);
          d' = (if vlength d < 0.01 then crossVectors path (1, 0, 0) else d)
      in multiplyScalar (normalizeVec d') (bondRadius * 1.5))"

definition positionAdd :: "mesh \<Rightarrow> vec3 \<Rightarrow> mesh" where
  "positionAdd m v = m\<lparr>mesh_position := addVectors (mesh_position m) v\<rparr>"

definition positionSub :: "mesh \<Rightarrow> vec3 \<Rightarrow> mesh" where
  "positionSub m v = m\<lparr>mesh_position := subVectors (mesh_position m) v\<rparr>"

text \<open>
  The array \<^verbatim>\<open>cylinders\<close> of \<^verbatim>\<open>createBond\<close>, after the offsets have been
  applied: the cylinders are chosen by the lower-cased bond type, and when
  there is more than one they are moved along the offset direction.
\<close>

definition bondCylinders :: "bond \<Rightarrow> vec3 \<Rightarrow> vec3 \<Rightarrow> mesh list" where
  "bondCylinders bondData startPos endPos =
     (let path = subVectors endPos startPos;
          len = vlength path;
          bondType = toLowerCase (bond_type bondData);
          cylinders =
            (if bondType = ''double'' then [createCylinder len, createCylinder len]
             else if bondType = ''triple''
               then [createCylinder len, createCylinder len, createCylinder len]
             else [createCylinder len])
      in if length cylinders > 1 then
           (let off = offsetDirection path
            in if length cylinders = 2 then
                 cylinders[0 := positionAdd (cylinders ! 0) off,
                           1 := positionSub (cylinders ! 1) off]
               else if length cylinders = 3 then
                 cylinders[1 := positionAdd (cylinders ! 1) off,
                           2 := positionSub (cylinders ! 2) off]
               else cylinders)
         else cylinders)"

definition createBond :: "bond \<Rightarrow> vec3 \<Rightarrow> vec3 \<Rightarrow> string \<Rightarrow> obj3d" where
  "createBond bondData startPos endPos bondName =
     (let path = subVectors endPos startPos
      in Group
           (emptyGroup\<lparr>group_details :=
              Some (BondDetails bondName (bond_type bondData) (energy bondData)
                      (bond_start bondData) (bond_end bondData))\<rparr>)
           (map (\<lambda>cylinder.
                   Group
                     (emptyGroup\<lparr>group_position :=
                         addVectors startPos (multiplyScalar path 0.5),
                       group_quaternion := FromUnitVectors (0, 1, 0) (normalizeVec path)\<rparr>)
                     [Mesh cylinder])
                (bondCylinders bondData startPos endPos)))"

text \<open>
  A cylinder's axis is the Y axis of its parent group, and the parent group is
  turned so that this axis is the bond axis. The distance of a cylinder from
  the bond axis is therefore the distance of its position from the Y axis.
\<close>

fun spec_lateralDistance :: "vec3 \<Rightarrow> real" where
  "spec_lateralDistance (x, y, z) = sqrt (x * x + z * z)"

section \<open>The engine's services\<close>

text \<open>
  What the program asks of its surroundings and does not compute itself: whether
  a canvas gives a 2D drawing context, the width the canvas measures for a
  text, and the size and centre of the bounding box of an object
  (\<^verbatim>\<open>new THREE.Box3().setFromObject(o)\<close>).
\<close>

record engine =
  has_context :: bool
  measureText :: "string \<Rightarrow> real"
  boxSize :: "obj3d \<Rightarrow> vec3"
  boxCenter :: "obj3d \<Rightarrow> vec3"

definition createLabelSprite :: "engine \<Rightarrow> string \<Rightarrow> sprite option" where
  "createLabelSprite eng label =
     (if \<not> has_context eng then None
      else
        (let fontSize = 90;
             textWidth = measureText eng label
         in Some \<lparr>sprite_label = label, sprite_position = (0, 0, 0),
                   sprite_scale = (1.0 * (textWidth / fontSize), 1.0, 1.0)\<rparr>))"

section \<open>The angle overlay\<close>

text \<open>
  \<^verbatim>\<open>ArcCurve(0, 0, radius, 0, angle, false).getPoints(divisions)\<close>: the
  points of the arc at the parameters \<open>0, 1/divisions, \<dots>, 1\<close>. The end angle
  the program passes lies between 0.01 and \<open>pi\<close>, where the curve's sweep is
  the end angle itself.
\<close>

definition getPoints :: "real \<Rightarrow> real \<Rightarrow> nat \<Rightarrow> (real \<times> real) list" where
  "getPoints radius endAngle divisions =
     map (\<lambda>d. (radius * cos (real d / real divisions * endAngle),
                radius * sin (real d / real divisions * endAngle)))
         [0 ..< Suc divisions]"

text \<open>
  The children of \<^verbatim>\<open>angleVisualizationGroup\<close>: a pivot (its position, its
  rotation, the points of the arc line it carries) or a label sprite.
\<close>

datatype overlay =
    ArcPivot vec3 rotation "(real \<times> real) list"
  | AngleLabel sprite

text \<open>
  The steps of \<^verbatim>\<open>drawAngleVisualization\<close>: the normal of the plane of the two
  rays, with its replacement when the cross product is (nearly) zero; the axes
  of the pivot that carries the arc; the direction of the label, which is the
  bisector of the two rays or, when the bisector is (nearly) zero, the Y axis
  of the pivot.
\<close>

definition planeNormal :: "vec3 \<Rightarrow> vec3 \<Rightarrow> vec3" where
  "planeNormal v1 v2 =
     (let normal = crossVectors v1 v2
      in if lengthSq normal < 0.0001 then
           (let nonParallel =
                  (if \<bar>dot (normalizeVec v1) (1, 0, 0)\<bar> > 0.999 then (0, 1, 0)
                   else (1, 0, 0))
            in normalizeVec (crossVectors v1 nonParallel))
         else normalizeVec normal)"

definition pivotXAxis :: "vec3 \<Rightarrow> vec3" where
  "pivotXAxis v1 = normalizeVec v1"

definition pivotYAxis :: "vec3 \<Rightarrow> vec3 \<Rightarrow> vec3" where
  "pivotYAxis v1 v2 = normalizeVec (crossVectors (planeNormal v1 v2) (pivotXAxis v1))"

definition labelDirection :: "vec3 \<Rightarrow> vec3 \<Rightarrow> vec3" where
  "labelDirection v1 v2 =
     (let bisector = addVectors (normalizeVec v1) (normalizeVec v2)
      in normalizeVec (if lengthSq bisector < 0.0001 then pivotYAxis v1 v2 else bisector))"

definition drawAngleVisualization ::
    "engine \<Rightarrow> vec3 \<Rightarrow> vec3 \<Rightarrow> vec3 \<Rightarrow> string \<Rightarrow> overlay list \<Rightarrow> overlay list" where
  "drawAngleVisualization eng p1 pCenter p2 angleText angleVisualizationGroup =
     (let v1 = subVectors p1 pCenter;
          v2 = subVectors p2 pCenter;
          angle = angleTo v1 v2;
          normal = planeNormal v1 v2
      in if angle < 0.01 then angleVisualizationGroup
         else
           (let arcRadius = 0.4 * CHEM_MODEL_SCALE;
                points = getPoints arcRadius angle 32;
                pivot =
                  ArcPivot pCenter (FromBasis (pivotXAxis v1) (pivotYAxis v1 v2) normal) points;
                withArc = angleVisualizationGroup @ [pivot]
            in case createLabelSprite eng angleText of
                 None \<Rightarrow> withArc
               | Some labelSprite \<Rightarrow>
                   (let labelOffset = (arcRadius + 0.15) * 1.5
                    in withArc @
                       [AngleLabel
                          (labelSprite\<lparr>sprite_position :=
                              addVectors pCenter
                                (multiplyScalar (labelDirection v1 v2) labelOffset),
                            sprite_scale := (0.5, 0.5, 0.5)\<rparr>)])))"

section \<open>The solid builder\<close>

text \<open>
  A coordinate as \<^verbatim>\<open>JSON.parse\<close> delivers it: a finite number, a number that
  is not finite, or a value that is not a number. A vertex is an array of
  coordinates, or \<open>None\<close> when the entry is not an array.
\<close>

datatype jcoord = Finite real | Infinite | NonNumeric

type_synonym jvertex = "jcoord list option"

record triangle =
  indices :: "int list option"

record face_group =
  face_details :: "details option"
  triangles :: "triangle list option"

record label =
  label_name :: string
  label_position :: "vec3 option"

record model_data =
  vertices :: "jvertex list option"
  faces :: "face_group list option"
  labels :: "label list option"
  atoms :: "atom list option"
  bonds :: "bond list option"

text \<open>
  The errors the program throws, by the place that throws them. The first two
  and the two of the molecule builder report a required key that is missing
  or empty (the specification's SchemaError); \<open>NoValidShapes\<close> reports that
  no triangle could be built (its EmptyModelError).
\<close>

datatype error =
    VerticesMissing
  | FacesMissing
  | NoValidShapes
  | AtomsNotFound
  | AtomsEmpty
  | InvalidModel
  | EmptyResponse
  | ParseFailure
  | RequestFailed
  | MissingInput
  | LoadFailed

text \<open>\<^verbatim>\<open>allVertices[index]\<close>: outside the array the result is \<^verbatim>\<open>undefined\<close>.\<close>

definition vertexAt :: "jvertex list \<Rightarrow> int \<Rightarrow> jvertex" where
  "vertexAt allVertices i =
     (if 0 \<le> i \<and> i < int (length allVertices) then allVertices ! nat i else None)"

fun invalidCoord :: "jcoord \<Rightarrow> bool" where
  "invalidCoord (Finite x) = False"
| "invalidCoord Infinite = True"
| "invalidCoord NonNumeric = True"

definition invalidVertex :: "jvertex \<Rightarrow> bool" where
  "invalidVertex v =
     (case v of None \<Rightarrow> True
      | Some cs \<Rightarrow> length cs \<noteq> 3 \<or> list_ex invalidCoord cs)"

fun coordValue :: "jcoord \<Rightarrow> real" where
  "coordValue (Finite x) = x"
| "coordValue Infinite = 0"
| "coordValue NonNumeric = 0"

text \<open>
  The three coordinates of a vertex as the position array of a triangle holds
  them: \<^verbatim>\<open>new Float32Array(faceVerticesArrays.flat())\<close> rounds each to
  single precision.
\<close>

definition vertexPosition :: "jvertex \<Rightarrow> position32" where
  "vertexPosition v =
     (case v of
        Some [x, y, z] \<Rightarrow>
          (toFloat32 (coordValue x), toFloat32 (coordValue y), toFloat32 (coordValue z))
      | _ \<Rightarrow> (Single 0, Single 0, Single 0))"

text \<open>
  The body of the loop over the triangles of a face group: the mesh of the
  triangle, or \<open>None\<close> when the triangle is skipped. The material colour
  \<^verbatim>\<open>0x03dac6\<close> is 252614.
\<close>

definition buildTriangle :: "jvertex list \<Rightarrow> face_group \<Rightarrow> nat \<Rightarrow> triangle \<Rightarrow> mesh option" where
  "buildTriangle allVertices faceGroup faceIndex triangleData =
     (case indices triangleData of
        None \<Rightarrow> None
      | Some triangleIndices \<Rightarrow>
          if length triangleIndices \<noteq> 3 then None
          else
            (let faceVerticesArrays = map (vertexAt allVertices) triangleIndices;
                 hasInvalidVertex = list_ex invalidVertex faceVerticesArrays
             in if hasInvalidVertex then None
                else Some \<lparr>geometry =
                              BufferGeometry (vertexPosition (faceVerticesArrays ! 0))
                                (vertexPosition (faceVerticesArrays ! 1))
                                (vertexPosition (faceVerticesArrays ! 2)),
                            color = 252614, faceId = Some faceIndex,
                            mesh_details = face_details faceGroup,
                            mesh_position = (0, 0, 0)\<rparr>))"

definition faceMeshes :: "jvertex list \<Rightarrow> nat \<times> face_group \<Rightarrow> mesh list" where
  "faceMeshes allVertices entry =
     (case entry of (faceIndex, faceGroup) \<Rightarrow>
        (case triangles faceGroup of
           None \<Rightarrow> []
         | Some ts \<Rightarrow> List.map_filter (buildTriangle allVertices faceGroup faceIndex) ts))"

definition buildFaceMeshes :: "jvertex list \<Rightarrow> face_group list \<Rightarrow> mesh list" where
  "buildFaceMeshes allVertices fs = concat (map (faceMeshes allVertices) (enumerate 0 fs))"

definition labelSprite :: "engine \<Rightarrow> label \<Rightarrow> sprite option" where
  "labelSprite eng labelData =
     (if label_name labelData \<noteq> [] then
        (case label_position labelData of
           None \<Rightarrow> None
         | Some pos \<Rightarrow>
             (case createLabelSprite eng (label_name labelData) of
                None \<Rightarrow> None
              | Some s \<Rightarrow> Some (s\<lparr>sprite_position := pos\<rparr>)))
      else None)"

fun maxDim :: "vec3 \<Rightarrow> real" where
  "maxDim (x, y, z) = max (max x y) z"

definition multiplySpriteScale :: "real \<Rightarrow> sprite \<Rightarrow> sprite" where
  "multiplySpriteScale k s = s\<lparr>sprite_scale := multiplyScalar (sprite_scale s) k\<rparr>"

fun scaleIfSprite :: "real \<Rightarrow> obj3d \<Rightarrow> obj3d" where
  "scaleIfSprite k (Mesh m) = Mesh m"
| "scaleIfSprite k (Sprite s) = Sprite (multiplySpriteScale k s)"
| "scaleIfSprite k (Group g cs) = Group g cs"

text \<open>The label factor of the solid builder: \<^verbatim>\<open>maxDim / 15\<close>, applied when \<^verbatim>\<open>maxDim > 0.001\<close>.\<close>

definition geometryLabelScale :: "vec3 \<Rightarrow> real option" where
  "geometryLabelScale modelSize =
     (if maxDim modelSize > 0.001 then Some (maxDim modelSize / 15) else None)"

definition geometryLabels :: "engine \<Rightarrow> label list option \<Rightarrow> sprite list" where
  "geometryLabels eng ls =
     (case ls of None \<Rightarrow> [] | Some ls' \<Rightarrow> List.map_filter (labelSprite eng) ls')"

definition geometryChildren :: "engine \<Rightarrow> jvertex list \<Rightarrow> face_group list \<Rightarrow> label list option \<Rightarrow> obj3d list" where
  "geometryChildren eng allVertices fs ls =
     map Mesh (buildFaceMeshes allVertices fs) @ map Sprite (geometryLabels eng ls)"

text \<open>The group of the solid with its meshes and labels, before the labels are rescaled.\<close>

definition geometryGroup :: "engine \<Rightarrow> jvertex list \<Rightarrow> face_group list \<Rightarrow> label list option \<Rightarrow> obj3d" where
  "geometryGroup eng allVertices fs ls = Group emptyGroup (geometryChildren eng allVertices fs ls)"

definition buildGeometryModel :: "engine \<Rightarrow> model_data \<Rightarrow> error + obj3d" where
  "buildGeometryModel eng data =
     (case vertices data of
        None \<Rightarrow> Inl VerticesMissing
      | Some allVertices \<Rightarrow>
          if length allVertices = 0 then Inl VerticesMissing
          else
            (case faces data of
               None \<Rightarrow> Inl FacesMissing
             | Some fs \<Rightarrow>
                 if length fs = 0 then Inl FacesMissing
                 else if length (filter isMesh (map Mesh (buildFaceMeshes allVertices fs))) = 0
                   then Inl NoValidShapes
                 else
                   (let grp = geometryGroup eng allVertices fs (labels data)
                    in case geometryLabelScale (boxSize eng grp) of
                         None \<Rightarrow> Inr grp
                       | Some labelScale \<Rightarrow>
                           Inr (Group emptyGroup
                                  (map (scaleIfSprite labelScale) (children grp))))))"

section \<open>The molecule builder\<close>

text \<open>
  The colour and radius tables, keyed by the upper-cased element symbol. The
  colours are the table's hexadecimal values. A symbol that is not in a table
  takes the entry \<^verbatim>\<open>DEFAULT\<close>.
\<close>

definition CPK_COLORS :: "(string \<times> nat) list" where
  "CPK_COLORS =
     [(''H'', 16777215), (''C'', 8421504), (''N'', 255), (''O'', 16711680),
      (''F'', 65280), (''CL'', 65280), (''BR'', 10824234), (''I'', 8388736),
      (''P'', 16753920), (''S'', 16776960), (''B'', 16416882),
      (''DEFAULT'', 16761035)]"

definition ATOM_RADII :: "(string \<times> real) list" where
  "ATOM_RADII =
     [(''H'', 0.2 * CHEM_MODEL_SCALE), (''C'', 0.35 * CHEM_MODEL_SCALE),
      (''N'', 0.3 * CHEM_MODEL_SCALE), (''O'', 0.3 * CHEM_MODEL_SCALE),
      (''F'', 0.25 * CHEM_MODEL_SCALE), (''CL'', 0.5 * CHEM_MODEL_SCALE),
      (''BR'', 0.55 * CHEM_MODEL_SCALE), (''I'', 0.65 * CHEM_MODEL_SCALE),
      (''P'', 0.5 * CHEM_MODEL_SCALE), (''S'', 0.5 * CHEM_MODEL_SCALE),
      (''B'', 0.4 * CHEM_MODEL_SCALE), (''DEFAULT'', 0.25 * CHEM_MODEL_SCALE)]"

definition lookupOrDefault :: "(string \<times> 'a) list \<Rightarrow> string \<Rightarrow> 'a \<Rightarrow> 'a" where
  "lookupOrDefault table k dflt = (case map_of table k of None \<Rightarrow> dflt | Some v \<Rightarrow> v)"

definition createAtom :: "engine \<Rightarrow> atom \<Rightarrow> vec3 \<Rightarrow> nat \<Rightarrow> obj3d" where
  "createAtom eng atomData position index =
     (let el = toUpperCase (element atomData);
          atomColor = lookupOrDefault CPK_COLORS el 16761035;
          radius = lookupOrDefault ATOM_RADII el (0.25 * CHEM_MODEL_SCALE);
          atomMesh =
            \<lparr>geometry = SphereGeometry radius, color = atomColor, faceId = None,
             mesh_details =
               Some (AtomDetails (element atomData) (bondAngles atomData)
                       (vseprShape atomData) index),
             mesh_position = (0, 0, 0)\<rparr>
      in Group (emptyGroup\<lparr>group_position := position\<rparr>)
           (Mesh atomMesh #
            (case createLabelSprite eng (element atomData) of
               None \<Rightarrow> []
             | Some l \<Rightarrow>
                 [Sprite
                    (multiplySpriteScale (radius * 2.5)
                       (l\<lparr>sprite_position :=
                            addVectors (sprite_position l)
                              (0, radius + 0.15 * CHEM_MODEL_SCALE, 0)\<rparr>))])))"

fun scaleSprites :: "real \<Rightarrow> obj3d \<Rightarrow> obj3d" where
  "scaleSprites k (Mesh m) = Mesh m"
| "scaleSprites k (Sprite s) = Sprite (multiplySpriteScale k s)"
| "scaleSprites k (Group g cs) = Group g (map (scaleSprites k) cs)"

text \<open>The label factor of the molecule builder: \<^verbatim>\<open>maxDim / 30\<close>, applied when \<^verbatim>\<open>maxDim > 0.001\<close>.\<close>

definition chemistryLabelScale :: "vec3 \<Rightarrow> real option" where
  "chemistryLabelScale modelSize =
     (if maxDim modelSize > 0.001 then Some (maxDim modelSize / 30) else None)"

definition scaledPosition :: "atom \<Rightarrow> vec3" where
  "scaledPosition a =
     multiplyScalar (case atom_position a of None \<Rightarrow> (0, 0, 0) | Some p \<Rightarrow> p)
       CHEM_MODEL_SCALE"

definition atomGroups :: "engine \<Rightarrow> atom list \<Rightarrow> obj3d list" where
  "atomGroups eng as =
     map (\<lambda>(index, a). createAtom eng a (scaledPosition a) index) (enumerate 0 as)"

definition bondGroupOf :: "atom list \<Rightarrow> bond \<Rightarrow> obj3d option" where
  "bondGroupOf as b =
     (if 0 \<le> bond_start b \<and> bond_start b < int (length as) \<and>
         0 \<le> bond_end b \<and> bond_end b < int (length as) then
        (let startPos = scaledPosition (as ! nat (bond_start b));
             endPos = scaledPosition (as ! nat (bond_end b));
             startElement = element (as ! nat (bond_start b));
             endElement = element (as ! nat (bond_end b));
             bondName = startElement @ ''-'' @ endElement
         in Some (createBond b startPos endPos bondName))
      else None)"

definition chemistryChildren :: "engine \<Rightarrow> atom list \<Rightarrow> bond list option \<Rightarrow> obj3d list" where
  "chemistryChildren eng as bs =
     atomGroups eng as @
     (case bs of None \<Rightarrow> [] | Some bs' \<Rightarrow> List.map_filter (bondGroupOf as) bs')"

text \<open>The group of the molecule with its atoms and bonds, before the labels are rescaled.\<close>

definition chemistryGroup :: "engine \<Rightarrow> atom list \<Rightarrow> bond list option \<Rightarrow> obj3d" where
  "chemistryGroup eng as bs =
     Group (emptyGroup\<lparr>atomPositions := Some (map scaledPosition as)\<rparr>)
       (chemistryChildren eng as bs)"

definition buildChemistryModel :: "engine \<Rightarrow> model_data \<Rightarrow> error + obj3d" where
  "buildChemistryModel eng data =
     (case atoms data of
        None \<Rightarrow> Inl AtomsNotFound
      | Some as \<Rightarrow>
          if length as = 0 then Inl AtomsEmpty
          else
            (let grp = chemistryGroup eng as (bonds data)
             in case chemistryLabelScale (boxSize eng grp) of
                  None \<Rightarrow> Inr grp
                | Some labelScale \<Rightarrow> Inr (scaleSprites labelScale grp)))"

section \<open>The application state\<close>

text \<open>
  The module-level variables the selection protocol reads and writes. A
  highlighted mesh is remembered by reference. A reference is the generation
  of the model the mesh belongs to, counted up each time a model is put into
  the scene, and the path of the mesh in that model: two models never share
  a mesh, and a reference into a model that has been replaced names an object
  the scene no longer shows. Each mesh has a material of its own (the builders
  clone the base material for every mesh); \<open>materialColor\<close> is the colour
  the material of a mesh holds now.
\<close>

datatype mode = GeometryMode | ChemistryMode

text \<open>
  The value of \<^verbatim>\<open>currentSelectionDetails\<close>: the \<^verbatim>\<open>type\<close>, the \<^verbatim>\<open>id\<close> (a face
  number, an atom index, or the start and end atom of a bond) and the
  \<^verbatim>\<open>details\<close> payload.
\<close>

datatype selection =
    geometry_face nat details
  | chemistry_atom nat details
  | chemistry_bond int int details

type_synonym objref = "nat \<times> path"

record app_state =
  currentMode :: "mode option"
  selectedImage :: "(string \<times> string) option"
  highlightedObjects :: "(objref \<times> nat) list"
  generatedModelData :: "string option"
  currentSelectionDetails :: "selection option"
  generatedObject :: "obj3d option"
  sceneGeneration :: nat
  materialColor :: "objref \<Rightarrow> nat"
  angleVisualizationGroup :: "overlay list"
  errorMessage :: "error option"

text \<open>
  The clearing step that opens \<^verbatim>\<open>onCanvasClick\<close>, \<^verbatim>\<open>reHighlightSelection\<close>
  and closes \<^verbatim>\<open>resetApp\<close>: every remembered mesh gets its remembered colour
  back, in the order of the list, and the list is emptied.
\<close>

definition restoreColors :: "(objref \<times> nat) list \<Rightarrow> (objref \<Rightarrow> nat) \<Rightarrow> (objref \<Rightarrow> nat)" where
  "restoreColors hs colors = fold (\<lambda>h f. f(fst h := snd h)) hs colors"

definition clearHighlights :: "app_state \<Rightarrow> app_state" where
  "clearHighlights st =
     (if length (highlightedObjects st) > 0 then
        st\<lparr>materialColor := restoreColors (highlightedObjects st) (materialColor st),
           highlightedObjects := []\<rparr>
      else st)"

text \<open>
  One highlight: the colour of the mesh is remembered, the mesh is painted
  light yellow (\<^verbatim>\<open>0xffff99\<close>, 16777113) and the pair is pushed.
\<close>

definition highlightColor :: nat where
  "highlightColor = 16777113"

definition highlightMesh :: "objref \<Rightarrow> app_state \<Rightarrow> app_state" where
  "highlightMesh r st =
     st\<lparr>materialColor := (materialColor st)(r := highlightColor),
        highlightedObjects := highlightedObjects st @ [(r, materialColor st r)]\<rparr>"

definition highlightAll :: "objref list \<Rightarrow> app_state \<Rightarrow> app_state" where
  "highlightAll rs st = fold highlightMesh rs st"

section \<open>Resolving a selection\<close>

fun lookup :: "obj3d \<Rightarrow> path \<Rightarrow> obj3d option" where
  "lookup obj [] = Some obj"
| "lookup (Mesh m) (i # p) = None"
| "lookup (Sprite s) (i # p) = None"
| "lookup (Group g cs) (i # p) = (if i < length cs then lookup (cs ! i) p else None)"

fun objectDetails :: "obj3d \<Rightarrow> details option" where
  "objectDetails (Mesh m) = mesh_details m"
| "objectDetails (Sprite s) = None"
| "objectDetails (Group g cs) = group_details g"

text \<open>\<^verbatim>\<open>userData.details?.type\<close> is truthy: the details are a bond tag whose type is not the empty string.\<close>

fun hasType :: "details option \<Rightarrow> bool" where
  "hasType (Some (BondDetails n t e s f)) = (t \<noteq> [])"
| "hasType (Some (FaceDetails a b)) = False"
| "hasType (Some (AtomDetails el ba vs i)) = False"
| "hasType None = False"

text \<open>
  The loop of \<^verbatim>\<open>handleHighlight\<close> that climbs from the clicked mesh while
  the object has a parent and no typed details. The argument is the path of
  the current object, last step first. The root of the model has the scene as
  its parent, and the scene has neither details nor a parent.
\<close>

fun walkUp :: "obj3d \<Rightarrow> path \<Rightarrow> path option" where
  "walkUp model [] =
     (if hasType (objectDetails model) then Some [] else None)"
| "walkUp model (i # rp) =
     (case lookup model (rev (i # rp)) of
        None \<Rightarrow> walkUp model rp
      | Some obj \<Rightarrow> if hasType (objectDetails obj) then Some (rev (i # rp)) else walkUp model rp)"

text \<open>The meshes a traversal of an object visits, as references.\<close>

definition meshRefsUnder :: "nat \<Rightarrow> path \<Rightarrow> obj3d \<Rightarrow> objref list" where
  "meshRefsUnder gen p obj = map (\<lambda>e. (gen, fst e)) (filter (\<lambda>e. isMesh (snd e)) (traverse p obj))"

text \<open>The children of the model that are meshes with the given \<^verbatim>\<open>faceId\<close>.\<close>

fun hasFaceId :: "nat \<Rightarrow> obj3d \<Rightarrow> bool" where
  "hasFaceId fid (Mesh m) = (faceId m = Some fid)"
| "hasFaceId fid (Sprite s) = False"
| "hasFaceId fid (Group g cs) = False"

definition faceMeshRefs :: "nat \<Rightarrow> obj3d \<Rightarrow> nat \<Rightarrow> objref list" where
  "faceMeshRefs gen model fid =
     map (\<lambda>e. (gen, [fst e])) (filter (\<lambda>e. hasFaceId fid (snd e)) (enumerate 0 (children model)))"

text \<open>The meshes of the model whose details carry the given \<^verbatim>\<open>atomIndex\<close>.\<close>

fun hasAtomIndex :: "nat \<Rightarrow> obj3d \<Rightarrow> bool" where
  "hasAtomIndex idx (Mesh m) =
     (case mesh_details m of Some (AtomDetails el ba vs i) \<Rightarrow> i = idx | _ \<Rightarrow> False)"
| "hasAtomIndex idx (Sprite s) = False"
| "hasAtomIndex idx (Group g cs) = False"

definition atomMeshRefs :: "nat \<Rightarrow> obj3d \<Rightarrow> nat \<Rightarrow> objref list" where
  "atomMeshRefs gen model idx =
     map (\<lambda>e. (gen, fst e)) (filter (\<lambda>e. hasAtomIndex idx (snd e)) (traverse [] model))"

text \<open>
  The groups of the model whose details carry the given start and end atom,
  and under each of them the meshes its own traversal visits.
\<close>

fun isBondGroup :: "int \<Rightarrow> int \<Rightarrow> obj3d \<Rightarrow> bool" where
  "isBondGroup s e (Mesh m) = False"
| "isBondGroup s e (Sprite sp) = False"
| "isBondGroup s e (Group g cs) =
     (case group_details g of Some (BondDetails n t en s' e') \<Rightarrow> s' = s \<and> e' = e | _ \<Rightarrow> False)"

definition bondMeshRefs :: "nat \<Rightarrow> obj3d \<Rightarrow> int \<Rightarrow> int \<Rightarrow> objref list" where
  "bondMeshRefs gen model s e =
     concat (map (\<lambda>entry. meshRefsUnder gen (fst entry) (snd entry))
               (filter (\<lambda>entry. isBondGroup s e (snd entry)) (traverse [] model)))"

section \<open>Drawing the angles of an atom\<close>

text \<open>
  \<^verbatim>\<open>finalAtomPositions[i]\<close>: outside the array the result is \<^verbatim>\<open>undefined\<close>.
  The world matrix of the model is the translation by the position the model
  was given when it was put into the scene.
\<close>

definition positionAt :: "vec3 list \<Rightarrow> int \<Rightarrow> vec3 option" where
  "positionAt ps i = (if 0 \<le> i \<and> i < int (length ps) then Some (ps ! nat i) else None)"

fun objectPosition :: "obj3d \<Rightarrow> vec3" where
  "objectPosition (Mesh m) = mesh_position m"
| "objectPosition (Sprite s) = sprite_position s"
| "objectPosition (Group g cs) = group_position g"

fun rootAtomPositions :: "obj3d \<Rightarrow> vec3 list option" where
  "rootAtomPositions (Mesh m) = None"
| "rootAtomPositions (Sprite s) = None"
| "rootAtomPositions (Group g cs) = atomPositions g"

fun detailsBondAngles :: "details \<Rightarrow> bond_angle list option" where
  "detailsBondAngles (AtomDetails el ba vs i) = ba"
| "detailsBondAngles (FaceDetails a b) = None"
| "detailsBondAngles (BondDetails n t e s f) = None"

definition drawAngle :: "engine \<Rightarrow> vec3 list \<Rightarrow> bond_angle \<Rightarrow> app_state \<Rightarrow> app_state" where
  "drawAngle eng finalAtomPositions angleInfo st =
     (let ixs = atomsInvolvedIndices angleInfo
      in if length ixs = 3 then
           (case (positionAt finalAtomPositions (ixs ! 0),
                  positionAt finalAtomPositions (ixs ! 1),
                  positionAt finalAtomPositions (ixs ! 2)) of
              (Some p1, Some pCenter, Some p2) \<Rightarrow>
                st\<lparr>angleVisualizationGroup :=
                     drawAngleVisualization eng p1 pCenter p2 (angle angleInfo)
                       (angleVisualizationGroup st)\<rparr>
            | _ \<Rightarrow> st)
         else st)"

definition drawBondAngles :: "engine \<Rightarrow> obj3d \<Rightarrow> details \<Rightarrow> app_state \<Rightarrow> app_state" where
  "drawBondAngles eng model d st =
     (case rootAtomPositions model of
        None \<Rightarrow> st
      | Some originalAtomPositions \<Rightarrow>
          (let finalAtomPositions =
                 map (\<lambda>p. addVectors p (objectPosition model)) originalAtomPositions
           in case detailsBondAngles d of
                None \<Rightarrow> st
              | Some angles \<Rightarrow> fold (drawAngle eng finalAtomPositions) angles st))"

section \<open>Picking and restoring\<close>

text \<open>
  \<^verbatim>\<open>handleHighlight\<close>, for the object the ray hit first, given by its path. It
  is called with a model in the scene.
\<close>

definition selectBond :: "details option \<Rightarrow> app_state \<Rightarrow> app_state" where
  "selectBond d st =
     (case d of
        Some (BondDetails n t en s e) \<Rightarrow>
          st\<lparr>currentSelectionDetails := Some (chemistry_bond s e (BondDetails n t en s e))\<rparr>
      | _ \<Rightarrow> st)"

definition handleHighlight :: "engine \<Rightarrow> path \<Rightarrow> app_state \<Rightarrow> app_state" where
  "handleHighlight eng hit st =
     (let st0 = st\<lparr>angleVisualizationGroup := []\<rparr>;
          gen = sceneGeneration st
      in case generatedObject st of
           None \<Rightarrow> st0
         | Some model \<Rightarrow>
             (case lookup model hit of
                Some (Mesh clickedMesh) \<Rightarrow>
                  (case currentMode st of
                     None \<Rightarrow> st0
                   | Some GeometryMode \<Rightarrow>
                       (case faceId clickedMesh of
                          None \<Rightarrow> st0
                        | Some fid \<Rightarrow>
                            highlightAll (faceMeshRefs gen model fid)
                              (case mesh_details clickedMesh of
                                 None \<Rightarrow> st0
                               | Some d \<Rightarrow>
                                   st0\<lparr>currentSelectionDetails := Some (geometry_face fid d)\<rparr>))
                   | Some ChemistryMode \<Rightarrow>
                       (case walkUp model (rev hit) of
                          Some q \<Rightarrow>
                            (case lookup model q of
                               None \<Rightarrow> st0
                             | Some bondGroup \<Rightarrow>
                                 highlightAll (meshRefsUnder gen q bondGroup)
                                   (selectBond (objectDetails bondGroup) st0))
                        | None \<Rightarrow>
                            (case mesh_details clickedMesh of
                               Some (AtomDetails el ba vs idx) \<Rightarrow>
                                 if el \<noteq> [] then
                                   drawBondAngles eng model (AtomDetails el ba vs idx)
                                     (highlightMesh (gen, hit)
                                        (st0\<lparr>currentSelectionDetails :=
                                              Some (chemistry_atom idx (AtomDetails el ba vs idx))\<rparr>))
                                 else st0
                             | _ \<Rightarrow> st0)))
              | _ \<Rightarrow> st0))"

text \<open>
  \<^verbatim>\<open>onCanvasClick\<close>: the previous state is cleared, and when there is a model
  and the ray hits an object of it, the hit is handled. \<open>hit\<close> is the path of
  the first object the ray meets, or \<open>None\<close> when it meets none.
\<close>

definition onCanvasClick :: "engine \<Rightarrow> path option \<Rightarrow> app_state \<Rightarrow> app_state" where
  "onCanvasClick eng hit st =
     (let st1 = (clearHighlights st)\<lparr>angleVisualizationGroup := [],
                                      currentSelectionDetails := None\<rparr>
      in case generatedObject st1 of
           None \<Rightarrow> st1
         | Some model \<Rightarrow> (case hit of None \<Rightarrow> st1 | Some p \<Rightarrow> handleHighlight eng p st1))"

fun selectionDetails :: "selection \<Rightarrow> details" where
  "selectionDetails (geometry_face fid d) = d"
| "selectionDetails (chemistry_atom idx d) = d"
| "selectionDetails (chemistry_bond s e d) = d"

definition reHighlightSelection :: "engine \<Rightarrow> selection option \<Rightarrow> app_state \<Rightarrow> app_state" where
  "reHighlightSelection eng selectionContext st =
     (case generatedObject st of
        None \<Rightarrow> st
      | Some model \<Rightarrow>
          (case selectionContext of
             None \<Rightarrow> st
           | Some sel \<Rightarrow>
               (let st1 = (clearHighlights st)\<lparr>angleVisualizationGroup := [],
                                                currentSelectionDetails := Some sel\<rparr>;
                    gen = sceneGeneration st
                in case sel of
                     geometry_face fid d \<Rightarrow> highlightAll (faceMeshRefs gen model fid) st1
                   | chemistry_atom idx d \<Rightarrow>
                       fold (\<lambda>r s. drawBondAngles eng model d (highlightMesh r s))
                         (atomMeshRefs gen model idx) st1
                   | chemistry_bond s e d \<Rightarrow> highlightAll (bondMeshRefs gen model s e) st1)))"

section \<open>Replacing the model\<close>

fun isModelValid :: "obj3d \<Rightarrow> bool" where
  "isModelValid (Mesh m) = True"
| "isModelValid (Sprite s) = False"
| "isModelValid (Group g cs) = (length cs > 0)"

fun positionSubtract :: "vec3 \<Rightarrow> obj3d \<Rightarrow> obj3d" where
  "positionSubtract c (Mesh m) = Mesh (m\<lparr>mesh_position := subVectors (mesh_position m) c\<rparr>)"
| "positionSubtract c (Sprite s) = Sprite (s\<lparr>sprite_position := subVectors (sprite_position s) c\<rparr>)"
| "positionSubtract c (Group g cs) = Group (g\<lparr>group_position := subVectors (group_position g) c\<rparr>) cs"

text \<open>
  The model is centred and put into the scene: \<^verbatim>\<open>generatedObject\<close> is the new
  model, its meshes are the objects of a new generation, and each has the
  colour it was built with.
\<close>

definition installModel :: "engine \<Rightarrow> obj3d \<Rightarrow> app_state \<Rightarrow> app_state" where
  "installModel eng resultObject st =
     (let placed = positionSubtract (boxCenter eng resultObject) resultObject;
          gen = Suc (sceneGeneration st)
      in st\<lparr>generatedObject := Some placed,
            sceneGeneration := gen,
            materialColor :=
              (\<lambda>r. if fst r = gen then
                      (case lookup placed (snd r) of
                         Some (Mesh m) \<Rightarrow> color m
                       | _ \<Rightarrow> materialColor st r)
                    else materialColor st r)\<rparr>)"

definition buildModel :: "engine \<Rightarrow> mode \<Rightarrow> model_data \<Rightarrow> error + obj3d" where
  "buildModel eng m data =
     (case m of
        GeometryMode \<Rightarrow> buildGeometryModel eng data
      | ChemistryMode \<Rightarrow> buildChemistryModel eng data)"

text \<open>
  What the inference service answers: the request fails, or it delivers a
  text together with what \<^verbatim>\<open>JSON.parse\<close> makes of it (\<open>None\<close> when the text
  is not a JSON object).
\<close>

datatype response = Rejected | Answer string "model_data option"

text \<open>
  \<^verbatim>\<open>!rawResponseText || rawResponseText.trim() === ''\<close>: the text is empty or
  has only characters that \<^verbatim>\<open>trim\<close> strips. Of the characters a string has
  here, those are the space, the tabulators, the line feed, the form feed, the
  carriage return and the no-break space.
\<close>

definition isBlank :: "string \<Rightarrow> bool" where
  "isBlank s =
     list_all
       (\<lambda>c. c \<in> set [CHR '' '', CHR 0x09, CHR 0x0A, CHR 0x0B, CHR 0x0C, CHR 0x0D, CHR 0xA0]) s"

definition handleGenerateClick :: "engine \<Rightarrow> response \<Rightarrow> app_state \<Rightarrow> app_state" where
  "handleGenerateClick eng resp st =
     (case (selectedImage st, currentMode st) of
        (Some img, Some m) \<Rightarrow>
          (let st1 = st\<lparr>errorMessage := None,
                        generatedObject := None,
                        generatedModelData := None,
                        currentSelectionDetails := None,
                        angleVisualizationGroup := []\<rparr>
           in case resp of
                Rejected \<Rightarrow> st1\<lparr>errorMessage := Some RequestFailed\<rparr>
              | Answer rawResponseText parsed \<Rightarrow>
                  if isBlank rawResponseText then st1\<lparr>errorMessage := Some EmptyResponse\<rparr>
                  else
                    (let st2 = st1\<lparr>generatedModelData := Some rawResponseText\<rparr>
                     in case parsed of
                          None \<Rightarrow> st2\<lparr>errorMessage := Some ParseFailure\<rparr>
                        | Some data \<Rightarrow>
                            (case buildModel eng m data of
                               Inl err \<Rightarrow> st2\<lparr>errorMessage := Some err\<rparr>
                             | Inr resultObject \<Rightarrow>
                                 if isModelValid resultObject
                                   then installModel eng resultObject st2
                                 else st2\<lparr>errorMessage := Some InvalidModel\<rparr>)))
      | _ \<Rightarrow> st\<lparr>errorMessage := Some MissingInput\<rparr>)"

text \<open>
  \<^verbatim>\<open>resetApp\<close>, and \<^verbatim>\<open>loadSessionState\<close> for a saved session: its mode,
  its model text with what \<^verbatim>\<open>JSON.parse\<close> makes of it, and its image.
\<close>

definition resetApp :: "app_state \<Rightarrow> app_state" where
  "resetApp st =
     (clearHighlights
        (st\<lparr>currentMode := None,
            selectedImage := None,
            generatedModelData := None,
            currentSelectionDetails := None,
            errorMessage := None,
            generatedObject := None\<rparr>))\<lparr>angleVisualizationGroup := []\<rparr>"

record session =
  session_mode :: mode
  session_modelData :: string
  session_parsed :: "model_data option"
  session_image :: "string \<times> string"

definition loadSessionState :: "engine \<Rightarrow> session \<Rightarrow> app_state \<Rightarrow> app_state" where
  "loadSessionState eng s st =
     (let st1 = (resetApp st)\<lparr>currentMode := Some (session_mode s),
                                 generatedModelData := Some (session_modelData s),
                                 selectedImage := Some (session_image s)\<rparr>
      in case session_parsed s of
           None \<Rightarrow> resetApp (st1\<lparr>errorMessage := Some LoadFailed\<rparr>)
         | Some data \<Rightarrow>
             (case buildModel eng (session_mode s) data of
                Inl err \<Rightarrow> resetApp (st1\<lparr>errorMessage := Some LoadFailed\<rparr>)
              | Inr resultObject \<Rightarrow> installModel eng resultObject st1))"

text \<open>
  The objects a click can select: the meshes of the model in the scene. With
  no model, \<^verbatim>\<open>onCanvasClick\<close> returns before it casts a ray.
\<close>

definition pickable :: "app_state \<Rightarrow> objref list" where
  "pickable st =
     (case generatedObject st of
        None \<Rightarrow> []
      | Some model \<Rightarrow> meshRefsUnder (sceneGeneration st) [] model)"

section \<open>Select operations\<close>

text \<open>
  A select operation is a click, with the path of the object the ray hits
  first (or none), or the restoring of a stored selection.
\<close>

datatype select_op = Pick "path option" | Restore selection

definition select :: "engine \<Rightarrow> select_op \<Rightarrow> app_state \<Rightarrow> app_state" where
  "select eng op st =
     (case op of
        Pick hit \<Rightarrow> onCanvasClick eng hit st
      | Restore sel \<Rightarrow> reHighlightSelection eng (Some sel) st)"

text \<open>
  The meshes of the entity an operation resolves in the model of the scene. A
  click resolves, in geometry mode, the meshes that share the face number of
  the clicked mesh; in chemistry mode, the meshes under the nearest object
  with typed details on the way up from the clicked mesh, or else the clicked
  mesh itself when it carries a named element. A stored selection resolves the
  meshes that match its id.
\<close>

definition pickedRefs :: "app_state \<Rightarrow> path \<Rightarrow> objref list" where
  "pickedRefs st hit =
     (case generatedObject st of
        None \<Rightarrow> []
      | Some model \<Rightarrow>
          (case lookup model hit of
             Some (Mesh clickedMesh) \<Rightarrow>
               (case currentMode st of
                  None \<Rightarrow> []
                | Some GeometryMode \<Rightarrow>
                    (case faceId clickedMesh of
                       None \<Rightarrow> []
                     | Some fid \<Rightarrow> faceMeshRefs (sceneGeneration st) model fid)
                | Some ChemistryMode \<Rightarrow>
                    (case walkUp model (rev hit) of
                       Some q \<Rightarrow>
                         (case lookup model q of
                            None \<Rightarrow> []
                          | Some bondGroup \<Rightarrow> meshRefsUnder (sceneGeneration st) q bondGroup)
                     | None \<Rightarrow>
                         (case mesh_details clickedMesh of
                            Some (AtomDetails el ba vs idx) \<Rightarrow>
                              if el \<noteq> [] then [(sceneGeneration st, hit)] else []
                          | _ \<Rightarrow> [])))
           | _ \<Rightarrow> []))"

definition restoredRefs :: "app_state \<Rightarrow> selection \<Rightarrow> objref list" where
  "restoredRefs st sel =
     (case generatedObject st of
        None \<Rightarrow> []
      | Some model \<Rightarrow>
          (case sel of
             geometry_face fid d \<Rightarrow> faceMeshRefs (sceneGeneration st) model fid
           | chemistry_atom idx d \<Rightarrow> atomMeshRefs (sceneGeneration st) model idx
           | chemistry_bond s e d \<Rightarrow> bondMeshRefs (sceneGeneration st) model s e))"

definition entityRefs :: "app_state \<Rightarrow> select_op \<Rightarrow> objref list" where
  "entityRefs st op =
     (case op of
        Pick None \<Rightarrow> []
      | Pick (Some hit) \<Rightarrow> pickedRefs st hit
      | Restore sel \<Rightarrow> restoredRefs st sel)"

text \<open>
  The shape of the models the builders make, as far as bond tags go: no group
  with a bond tag lies under another group with a bond tag.
\<close>

fun hasBondTag :: "obj3d \<Rightarrow> bool" where
  "hasBondTag (Mesh m) = False"
| "hasBondTag (Sprite s) = False"
| "hasBondTag (Group g cs) =
     (case group_details g of Some (BondDetails n t en s e) \<Rightarrow> True | _ \<Rightarrow> False)"

fun bondFree :: "obj3d \<Rightarrow> bool"
  and bondFreeAll :: "obj3d list \<Rightarrow> bool" where
  "bondFree (Mesh m) = True"
| "bondFree (Sprite s) = True"
| "bondFree (Group g cs) = (\<not> hasBondTag (Group g cs) \<and> bondFreeAll cs)"
| "bondFreeAll [] = True"
| "bondFreeAll (c # cs) = (bondFree c \<and> bondFreeAll cs)"

fun bondsNotNested :: "obj3d \<Rightarrow> bool"
  and bondsNotNestedAll :: "obj3d list \<Rightarrow> bool" where
  "bondsNotNested (Mesh m) = True"
| "bondsNotNested (Sprite s) = True"
| "bondsNotNested (Group g cs) =
     (if hasBondTag (Group g cs) then bondFreeAll cs else bondsNotNestedAll cs)"
| "bondsNotNestedAll [] = True"
| "bondsNotNestedAll (c # cs) = (bondsNotNested c \<and> bondsNotNestedAll cs)"

section \<open>Example inputs\<close>

text \<open>
  An engine with a drawing context that measures 45 units per character and
  reports a bounding box of size \<open>(3, 4, 0)\<close> centred at \<open>(1, 1, 0)\<close>; a
  solid on four vertices with nine sound triangles in three face groups, one
  triangle that refers to a vertex 99, and one label; a molecule of three
  atoms with two bonds.
\<close>

definition exampleEngine :: engine where
  "exampleEngine =
     \<lparr>has_context = True, measureText = (\<lambda>s. 45 * real (length s)),
      boxSize = (\<lambda>obj. (3, 4, 0)), boxCenter = (\<lambda>obj. (1, 1, 0))\<rparr>"

definition exampleVertices :: "jvertex list" where
  "exampleVertices =
     [Some [Finite 0, Finite 0, Finite 0], Some [Finite 3, Finite 0, Finite 0],
      Some [Finite 0, Finite 4, Finite 0], Some [Finite 0, Finite 0, Finite 0]]"

definition exampleFaces :: "face_group list" where
  "exampleFaces =
     [\<lparr>face_details = Some (FaceDetails ''6'' ''12''),
       triangles = Some [\<lparr>indices = Some [0, 1, 2]\<rparr>, \<lparr>indices = Some [0, 1, 3]\<rparr>,
                         \<lparr>indices = Some [0, 2, 3]\<rparr>]\<rparr>,
      \<lparr>face_details = Some (FaceDetails ''6'' ''12''),
       triangles = Some [\<lparr>indices = Some [1, 2, 3]\<rparr>, \<lparr>indices = Some [2, 1, 0]\<rparr>,
                         \<lparr>indices = Some [3, 1, 0]\<rparr>]\<rparr>,
      \<lparr>face_details = Some (FaceDetails ''0'' ''8''),
       triangles = Some [\<lparr>indices = Some [3, 2, 0]\<rparr>, \<lparr>indices = Some [3, 2, 1]\<rparr>,
                         \<lparr>indices = Some [1, 0, 2]\<rparr>, \<lparr>indices = Some [0, 1, 99]\<rparr>]\<rparr>]"

definition exampleSolid :: model_data where
  "exampleSolid =
     \<lparr>vertices = Some exampleVertices, faces = Some exampleFaces,
      labels = Some [\<lparr>label_name = ''3cm'', label_position = Some (1, 1, 0)\<rparr>],
      atoms = None, bonds = None\<rparr>"

definition exampleAtoms :: "atom list" where
  "exampleAtoms =
     [\<lparr>element = ''O'', atom_position = Some (0, 0, 0), vseprShape = ''Bent'',
       bondAngles = Some [\<lparr>angle = ''104.5'', atomsInvolved = [''H'', ''O'', ''H''],
                           atomsInvolvedIndices = [1, 0, 2]\<rparr>]\<rparr>,
      \<lparr>element = ''H'', atom_position = Some (1, 0, 0), vseprShape = ''N/A'',
       bondAngles = Some []\<rparr>,
      \<lparr>element = ''H'', atom_position = Some (0, 1, 0), vseprShape = ''N/A'',
       bondAngles = Some []\<rparr>]"

definition exampleMolecule :: model_data where
  "exampleMolecule =
     \<lparr>vertices = None, faces = None, labels = None,
      atoms = Some exampleAtoms,
      bonds = Some [\<lparr>bond_start = 0, bond_end = 1, bond_type = ''single'', energy = ''463''\<rparr>,
                    \<lparr>bond_start = 0, bond_end = 2, bond_type = ''single'', energy = ''463''\<rparr>]\<rparr>"

text \<open>
  The state the page starts in, and that state after a mode has been chosen,
  an image has been selected and the example molecule, or the example solid,
  has been generated.
\<close>

definition initialState :: app_state where
  "initialState =
     \<lparr>currentMode = None, selectedImage = None, highlightedObjects = [],
      generatedModelData = None, currentSelectionDetails = None,
      generatedObject = None, sceneGeneration = 0, materialColor = (\<lambda>r. 0),
      angleVisualizationGroup = [], errorMessage = None\<rparr>"

definition exampleMoleculeState :: app_state where
  "exampleMoleculeState =
     handleGenerateClick exampleEngine (Answer ''molecule'' (Some exampleMolecule))
       (initialState\<lparr>currentMode := Some ChemistryMode,
                      selectedImage := Some (''data'', ''image/png'')\<rparr>)"

definition exampleSolidState :: app_state where
  "exampleSolidState =
     handleGenerateClick exampleEngine (Answer ''solid'' (Some exampleSolid))
       (initialState\<lparr>currentMode := Some GeometryMode,
                      selectedImage := Some (''data'', ''image/png'')\<rparr>)"

text \<open>The model of the example molecule as it stands in the scene.\<close>

definition exampleScene :: obj3d where
  "exampleScene = positionSubtract (1, 1, 0)
     (scaleSprites (4 / 30) (chemistryGroup exampleEngine exampleAtoms (bonds exampleMolecule)))"

text \<open>
  A molecule of one atom whose element is the empty string, and the state
  after it has been generated.
\<close>

definition unnamedMolecule :: model_data where
  "unnamedMolecule =
     \<lparr>vertices = None, faces = None, labels = None,
      atoms = Some [\<lparr>element = [], atom_position = Some (0, 0, 0), vseprShape = ''N/A'',
                     bondAngles = Some []\<rparr>],
      bonds = None\<rparr>"

definition unnamedMoleculeState :: app_state where
  "unnamedMoleculeState =
     handleGenerateClick exampleEngine (Answer ''molecule'' (Some unnamedMolecule))
       (initialState\<lparr>currentMode := Some ChemistryMode,
                      selectedImage := Some (''data'', ''image/png'')\<rparr>)"

section \<open>Notions used in the proofs\<close>

text \<open>
  The effect of highlighting the meshes \<open>rs\<close> from the state \<open>st\<close>: they
  are painted, they are remembered with the colours they had, and the scene
  stays. \<open>selected\<close> is the same effect measured from the colours that
  clearing the state gives. \<open>bondRefsIn\<close> collects the meshes under the
  bond groups among some visited objects.
\<close>

definition effectOf :: "app_state \<Rightarrow> objref list \<Rightarrow> app_state \<Rightarrow> bool" where
  "effectOf st rs st' \<longleftrightarrow>
     materialColor st' =
       (\<lambda>x. if x \<in> set rs then highlightColor else materialColor st x) \<and>
     (distinct rs \<longrightarrow>
        highlightedObjects st' =
          highlightedObjects st @ map (\<lambda>r. (r, materialColor st r)) rs) \<and>
     generatedObject st' = generatedObject st \<and>
     sceneGeneration st' = sceneGeneration st \<and>
     currentMode st' = currentMode st"

definition selected :: "app_state \<Rightarrow> objref list \<Rightarrow> app_state \<Rightarrow> bool" where
  "selected st rs st' \<longleftrightarrow>
     materialColor st' =
       (\<lambda>x. if x \<in> set rs then highlightColor else materialColor (clearHighlights st) x) \<and>
     (distinct rs \<longrightarrow>
        highlightedObjects st' = map (\<lambda>r. (r, materialColor (clearHighlights st) r)) rs) \<and>
     generatedObject st' = generatedObject st \<and>
     sceneGeneration st' = sceneGeneration st \<and>
     currentMode st' = currentMode st"

definition bondRefsIn :: "nat \<Rightarrow> int \<Rightarrow> int \<Rightarrow> (path \<times> obj3d) list \<Rightarrow> objref list" where
  "bondRefsIn gen s e entries =
     concat (map (\<lambda>entry. meshRefsUnder gen (fst entry) (snd entry))
               (filter (\<lambda>entry. isBondGroup s e (snd entry)) entries))"

section \<open>Notions of the specification\<close>

text \<open>
  The specification's valid triangle: exactly three indices, each of which
  resolves to a vertex of three finite numbers. \<open>spec_validCount\<close> counts the
  valid triangles of a face group, \<open>spec_totalValid\<close> those of all groups.
\<close>

fun spec_finiteNumber :: "jcoord \<Rightarrow> bool" where
  "spec_finiteNumber (Finite x) = True"
| "spec_finiteNumber Infinite = False"
| "spec_finiteNumber NonNumeric = False"

definition spec_finiteVertex :: "jvertex list \<Rightarrow> int \<Rightarrow> bool" where
  "spec_finiteVertex allVertices i =
     (0 \<le> i \<and> i < int (length allVertices) \<and>
      (case allVertices ! nat i of
         Some cs \<Rightarrow> length cs = 3 \<and> list_all spec_finiteNumber cs
       | None \<Rightarrow> False))"

definition spec_validTriangle :: "jvertex list \<Rightarrow> triangle \<Rightarrow> bool" where
  "spec_validTriangle allVertices t =
     (case indices t of
        Some ixs \<Rightarrow> length ixs = 3 \<and> list_all (spec_finiteVertex allVertices) ixs
      | None \<Rightarrow> False)"

definition spec_validCount :: "jvertex list \<Rightarrow> face_group \<Rightarrow> nat" where
  "spec_validCount allVertices faceGroup =
     (case triangles faceGroup of
        None \<Rightarrow> 0
      | Some ts \<Rightarrow> length (filter (spec_validTriangle allVertices) ts))"

definition spec_totalValid :: "jvertex list \<Rightarrow> face_group list \<Rightarrow> nat" where
  "spec_totalValid allVertices fs = sum_list (map (spec_validCount allVertices) fs)"

definition spec_defectiveCount :: "jvertex list \<Rightarrow> face_group \<Rightarrow> nat" where
  "spec_defectiveCount allVertices faceGroup =
     (case triangles faceGroup of
        None \<Rightarrow> 0
      | Some ts \<Rightarrow> length (filter (\<lambda>t. \<not> spec_validTriangle allVertices t) ts))"

definition spec_triangleCount :: "face_group \<Rightarrow> nat" where
  "spec_triangleCount faceGroup =
     (case triangles faceGroup of None \<Rightarrow> 0 | Some ts \<Rightarrow> length ts)"

text \<open>The diagonal of a bounding box of the given size.\<close>

definition spec_boxDiagonal :: "vec3 \<Rightarrow> real" where
  "spec_boxDiagonal modelSize = vlength modelSize"

section \<open>Facts about vectors and traversals\<close>

lemma vlength_nonneg: "0 \<le> vlength v"
  by (cases v) (simp add: vlength_def)

lemma vlength_zero_iff: "vlength (x, y, z) = 0 \<longleftrightarrow> x = 0 \<and> y = 0 \<and> z = 0"
  unfolding vlength_def by (auto simp: add_nonneg_eq_0_iff)

lemma map_filter_append:
  "List.map_filter f (xs @ ys) = List.map_filter f xs @ List.map_filter f ys"
  by (simp add: List.map_filter_def)

section \<open>The bond builder\<close>

lemma length_bondCylinders:
  "length (bondCylinders b s e) =
     (if toLowerCase (bond_type b) = ''double'' then 2
      else if toLowerCase (bond_type b) = ''triple'' then 3 else 1)"
  by (simp add: bondCylinders_def Let_def)

lemma meshes_cylinderGroups:
  "List.map_filter (\<lambda>(p, n). theMesh n)
     (traverseChildren p i (map (\<lambda>c. Group (g c) [Mesh c]) cs)) = cs"
  by (induction cs arbitrary: i) (simp_all add: map_filter_append List.map_filter_simps)

lemma meshesOf_createBond: "meshesOf (createBond b s e n) = bondCylinders b s e"
  by (simp add: meshesOf_def createBond_def Let_def List.map_filter_simps meshes_cylinderGroups)

lemma children_createBond: "length (children (createBond b s e n)) = length (bondCylinders b s e)"
  by (simp add: createBond_def Let_def)

lemma lower_DOUBLE: "toLowerCase ''DOUBLE'' = ''double''"
  by code_simp

lemma lower_Triple: "toLowerCase ''Triple'' = ''triple''"
  by code_simp

lemma lower_doubel: "toLowerCase ''doubel'' = ''doubel''"
  by code_simp

lemma lower_double: "toLowerCase ''double'' = ''double''"
  by code_simp

lemma lower_triple: "toLowerCase ''triple'' = ''triple''"
  by code_simp

text \<open>
  C10. The number of cylinders of a bond is decided by the lower-cased type of
  the bond: two cylinders when it reads \<^verbatim>\<open>double\<close>, three when it reads
  \<^verbatim>\<open>triple\<close>, and one for every other text, so a type the builder does not
  know is drawn as a single bond. Each cylinder is the one mesh of a group of
  its own under the bond group.
\<close>

theorem createBond_cylinder_count:
  "length (meshesOf (createBond bondData startPos endPos bondName)) =
     (if toLowerCase (bond_type bondData) = ''double'' then 2
      else if toLowerCase (bond_type bondData) = ''triple'' then 3 else 1) \<and>
   length (children (createBond bondData startPos endPos bondName)) =
     length (meshesOf (createBond bondData startPos endPos bondName))"
  by (simp only: meshesOf_createBond children_createBond length_bondCylinders)

theorem createBond_cylinder_count_witness:
  "length (meshesOf (createBond
      \<lparr>bond_start = 0, bond_end = 1, bond_type = ''DOUBLE'', energy = ''614 kJ/mol''\<rparr>
      (0, 0, 0) (3, 0, 0) ''C-C'')) = 2 \<and>
   length (meshesOf (createBond
      \<lparr>bond_start = 0, bond_end = 1, bond_type = ''Triple'', energy = ''839 kJ/mol''\<rparr>
      (0, 0, 0) (3, 0, 0) ''C-C'')) = 3 \<and>
   length (meshesOf (createBond
      \<lparr>bond_start = 0, bond_end = 1, bond_type = ''doubel'', energy = ''614 kJ/mol''\<rparr>
      (0, 0, 0) (3, 0, 0) ''C-C'')) = 1"
  using
    createBond_cylinder_count
      [of "\<lparr>bond_start = 0, bond_end = 1, bond_type = ''DOUBLE'', energy = ''614 kJ/mol''\<rparr>"
          "(0, 0, 0)" "(3, 0, 0)" "''C-C''"]
    createBond_cylinder_count
      [of "\<lparr>bond_start = 0, bond_end = 1, bond_type = ''Triple'', energy = ''839 kJ/mol''\<rparr>"
          "(0, 0, 0)" "(3, 0, 0)" "''C-C''"]
    createBond_cylinder_count
      [of "\<lparr>bond_start = 0, bond_end = 1, bond_type = ''doubel'', energy = ''614 kJ/mol''\<rparr>"
          "(0, 0, 0)" "(3, 0, 0)" "''C-C''"]
  by (simp add: lower_DOUBLE lower_Triple lower_doubel)

subsection \<open>The offsets of the cylinders\<close>

lemma lateral_multiplyScalar:
  "spec_lateralDistance (multiplyScalar v s) = \<bar>s\<bar> * spec_lateralDistance v"
proof (cases v)
  case (fields x y z)
  have "x * s * (x * s) + z * s * (z * s) = s\<^sup>2 * (x * x + z * z)"
    by (simp add: power2_eq_square algebra_simps)
  then show ?thesis using fields by (simp add: real_sqrt_mult)
qed

lemma lateral_neg:
  "spec_lateralDistance (subVectors (0, 0, 0) v) = spec_lateralDistance v"
  by (cases v) simp

lemma lateral_normalizeVec:
  "spec_lateralDistance (normalizeVec v) =
     spec_lateralDistance v / (if vlength v = 0 then 1 else vlength v)"
proof -
  have "0 \<le> 1 / (if vlength v = 0 then 1 else vlength v)"
    using vlength_nonneg [of v] by simp
  then have "\<bar>1 / (if vlength v = 0 then 1 else vlength v)\<bar> =
             1 / (if vlength v = 0 then 1 else vlength v)"
    by (rule abs_of_nonneg)
  then show ?thesis
    unfolding normalizeVec_def lateral_multiplyScalar by simp
qed

lemma lateral_scaled_normalizeVec:
  assumes "0 \<le> r"
  shows "spec_lateralDistance (multiplyScalar (normalizeVec v) r) =
           r * (spec_lateralDistance v / (if vlength v = 0 then 1 else vlength v))"
  using assms by (simp only: lateral_multiplyScalar lateral_normalizeVec abs_of_nonneg)

text \<open>
  The distance of the offset from the bond axis. The first cross product,
  with the Y axis, is \<open>(- pz, 0, px)\<close>; when it is shorter than 0.01 the
  second, with the X axis, is \<open>(0, pz, - py)\<close>.
\<close>

lemma lateral_offsetDirection:
  "spec_lateralDistance (offsetDirection (px, py, pz)) =
     (if 0.01 \<le> vlength (- pz, 0, px) then bondRadius * 1.5
      else if py = 0 then 0
      else bondRadius * 1.5 * (\<bar>py\<bar> / vlength (0, pz, - py)))"
proof -
  define R where "R = bondRadius * 1.5"
  have R: "0 \<le> R" by (simp add: R_def bondRadius_def CHEM_MODEL_SCALE_def)
  have o: "offsetDirection (px, py, pz) =
             multiplyScalar
               (normalizeVec
                  (if vlength (- pz, 0, px) < 0.01 then (0, pz, - py) else (- pz, 0, px))) R"
    by (simp add: offsetDirection_def Let_def R_def)
  have l1: "spec_lateralDistance (- pz, 0, px) = vlength (- pz, 0, px)"
    by (simp add: vlength_def)
  have l2: "spec_lateralDistance (0, pz, - py) = \<bar>py\<bar>"
    by simp
  have goal: "spec_lateralDistance (offsetDirection (px, py, pz)) =
     (if 0.01 \<le> vlength (- pz, 0, px) then R
      else if py = 0 then 0 else R * (\<bar>py\<bar> / vlength (0, pz, - py)))"
  proof (cases "0.01 \<le> vlength (- pz, 0, px)")
    case True
    then have "offsetDirection (px, py, pz) = multiplyScalar (normalizeVec (- pz, 0, px)) R"
      using o by simp
    then have "spec_lateralDistance (offsetDirection (px, py, pz)) =
        R * (spec_lateralDistance (- pz, 0, px) /
             (if vlength (- pz, 0, px) = 0 then 1 else vlength (- pz, 0, px)))"
      using lateral_scaled_normalizeVec [OF R] by simp
    also have "\<dots> = R" unfolding l1 using True by simp
    finally show ?thesis using True by simp
  next
    case False
    then have "offsetDirection (px, py, pz) = multiplyScalar (normalizeVec (0, pz, - py)) R"
      using o by simp
    then have e: "spec_lateralDistance (offsetDirection (px, py, pz)) =
        R * (\<bar>py\<bar> / (if vlength (0, pz, - py) = 0 then 1 else vlength (0, pz, - py)))"
      using lateral_scaled_normalizeVec [OF R, of "(0, pz, - py)"] unfolding l2 by simp
    show ?thesis
    proof (cases "py = 0")
      case True
      then show ?thesis using False e by simp
    next
      case py: False
      then have "vlength (0, pz, - py) \<noteq> 0" by (simp add: vlength_zero_iff)
      then show ?thesis using False py e by simp
    qed
  qed
  then show ?thesis by (simp only: R_def)
qed

lemma lateral_offsetDirection_pos:
  "0 < spec_lateralDistance (offsetDirection (px, py, pz)) \<longleftrightarrow>
     0.01 \<le> vlength (- pz, 0, px) \<or> py \<noteq> 0"
proof -
  have R: "0 < bondRadius * 1.5" by (simp add: bondRadius_def CHEM_MODEL_SCALE_def)
  show ?thesis
  proof (cases "0.01 \<le> vlength (- pz, 0, px)")
    case True
    then show ?thesis using R by (simp only: lateral_offsetDirection if_True simp_thms)
  next
    case False
    show ?thesis
    proof (cases "py = 0")
      case True
      then show ?thesis using False by (simp add: lateral_offsetDirection)
    next
      case py: False
      then have "0 < vlength (0, pz, - py)"
        using vlength_nonneg [of "(0, pz, - py)"] vlength_zero_iff [of 0 pz "- py"] by simp
      then have "0 < \<bar>py\<bar> / vlength (0, pz, - py)" using py by simp
      then have "0 < bondRadius * 1.5 * (\<bar>py\<bar> / vlength (0, pz, - py))"
        using R by (rule mult_pos_pos [rotated])
      then show ?thesis using False py by (simp only: lateral_offsetDirection if_False simp_thms)
    qed
  qed
qed

lemma map_position_bondCylinders:
  "map mesh_position (bondCylinders b s e) =
     (if toLowerCase (bond_type b) = ''double''
        then [offsetDirection (subVectors e s),
              subVectors (0, 0, 0) (offsetDirection (subVectors e s))]
      else if toLowerCase (bond_type b) = ''triple''
        then [(0, 0, 0), offsetDirection (subVectors e s),
              subVectors (0, 0, 0) (offsetDirection (subVectors e s))]
      else [(0, 0, 0)])"
  by (cases "offsetDirection (subVectors e s)")
     (simp add: bondCylinders_def Let_def createCylinder_def positionAdd_def positionSub_def)

lemma cross_Y: "crossVectors (px, py, pz) (0, 1, 0) = (- pz, 0, px)"
  by simp

text \<open>
  C6, as the code has it. A bond whose lower-cased type is \<^verbatim>\<open>double\<close> gets two
  cylinders, placed at the offset and at its negative; one whose type is
  \<^verbatim>\<open>triple\<close> gets three, placed on the axis, at the offset and at its
  negative. The two offset cylinders are equally far from the bond axis. That
  distance is positive exactly when the cross product of the bond path with the
  Y axis is at least 0.01 long or the path has a Y component, and it is
  \<open>1.5 * bondRadius\<close> in the first case. For a bond between two atoms at
  the same position the offset is the zero vector.
\<close>

theorem createBond_offsets:
  assumes multi: "toLowerCase (bond_type bondData) = ''double'' \<or>
                  toLowerCase (bond_type bondData) = ''triple''"
    and path: "subVectors endPos startPos = (px, py, pz)"
  shows "map mesh_position (meshesOf (createBond bondData startPos endPos bondName)) =
           (if toLowerCase (bond_type bondData) = ''double''
              then [offsetDirection (px, py, pz), subVectors (0, 0, 0) (offsetDirection (px, py, pz))]
            else [(0, 0, 0), offsetDirection (px, py, pz),
                  subVectors (0, 0, 0) (offsetDirection (px, py, pz))]) \<and>
         spec_lateralDistance (subVectors (0, 0, 0) (offsetDirection (px, py, pz))) =
           spec_lateralDistance (offsetDirection (px, py, pz)) \<and>
         (0 < spec_lateralDistance (offsetDirection (px, py, pz)) \<longleftrightarrow>
            0.01 \<le> vlength (crossVectors (px, py, pz) (0, 1, 0)) \<or> py \<noteq> 0) \<and>
         (0.01 \<le> vlength (crossVectors (px, py, pz) (0, 1, 0)) \<longrightarrow>
            spec_lateralDistance (offsetDirection (px, py, pz)) = bondRadius * 1.5)"
proof -
  have a: "map mesh_position (meshesOf (createBond bondData startPos endPos bondName)) =
           (if toLowerCase (bond_type bondData) = ''double''
              then [offsetDirection (px, py, pz), subVectors (0, 0, 0) (offsetDirection (px, py, pz))]
            else [(0, 0, 0), offsetDirection (px, py, pz),
                  subVectors (0, 0, 0) (offsetDirection (px, py, pz))])"
    using multi by (auto simp only: meshesOf_createBond map_position_bondCylinders path if_True if_False split: if_splits)
  have b: "spec_lateralDistance (subVectors (0, 0, 0) (offsetDirection (px, py, pz))) =
           spec_lateralDistance (offsetDirection (px, py, pz))"
    by (rule lateral_neg)
  have c: "0 < spec_lateralDistance (offsetDirection (px, py, pz)) \<longleftrightarrow>
            0.01 \<le> vlength (crossVectors (px, py, pz) (0, 1, 0)) \<or> py \<noteq> 0"
    unfolding cross_Y by (rule lateral_offsetDirection_pos)
  have d: "0.01 \<le> vlength (crossVectors (px, py, pz) (0, 1, 0)) \<longrightarrow>
            spec_lateralDistance (offsetDirection (px, py, pz)) = bondRadius * 1.5"
    unfolding cross_Y by (simp add: lateral_offsetDirection)
  from a b c d show ?thesis by (intro conjI)
qed

lemma vlength_003: "vlength (0, 0, 3) = 3"
proof -
  have "sqrt ((3::real) * 3) = \<bar>3\<bar>" by (rule real_sqrt_abs2)
  then show ?thesis by (simp add: vlength_def)
qed

theorem createBond_offsets_witness:
  "map mesh_position (meshesOf (createBond
      \<lparr>bond_start = 0, bond_end = 1, bond_type = ''double'', energy = ''614 kJ/mol''\<rparr>
      (0, 0, 0) (3, 0, 0) ''C-C'')) =
     [offsetDirection (3, 0, 0), subVectors (0, 0, 0) (offsetDirection (3, 0, 0))] \<and>
   spec_lateralDistance (offsetDirection (3, 0, 0)) = bondRadius * 1.5 \<and>
   0 < spec_lateralDistance (offsetDirection (3, 0, 0))"
  using createBond_offsets
      [of "\<lparr>bond_start = 0, bond_end = 1, bond_type = ''double'', energy = ''614 kJ/mol''\<rparr>"
          "(3, 0, 0)" "(0, 0, 0)" 3 0 0 "''C-C''"]
  by (simp add: lower_double vlength_003)

text \<open>
  A double bond whose start and end atom are the same atom: both cylinders lie
  on the bond axis.
\<close>

theorem double_bond_zero_offset_counterexample:
  "map spec_lateralDistance (map mesh_position
     (meshesOf (createBond
        \<lparr>bond_start = 0, bond_end = 0, bond_type = ''double'', energy = ''614 kJ/mol''\<rparr>
        (0, 0, 0) (0, 0, 0) ''C-C''))) = [0, 0]"
  by (simp add: meshesOf_createBond map_position_bondCylinders lower_double
        offsetDirection_def normalizeVec_def vlength_def Let_def)

section \<open>The angle overlay, examined\<close>

lemma angleTo_zero_left: "angleTo (0, 0, 0) w = pi / 2"
  by (simp add: angleTo_def)

lemma angleTo_zero_right: "angleTo v (0, 0, 0) = pi / 2"
  by (simp add: angleTo_def)

lemma subVectors_self: "subVectors p p = (0, 0, 0)"
  by (cases p) simp

lemma half_pi_not_small: "\<not> pi / 2 < (0.01::real)"
  using pi_gt_zero pi_ge_two by simp

lemma draw_angle_ge:
  assumes "\<not> angleTo (subVectors p1 pCenter) (subVectors p2 pCenter) < 0.01"
  shows "drawAngleVisualization eng p1 pCenter p2 angleText grp =
       grp @ [ArcPivot pCenter
                (FromBasis (pivotXAxis (subVectors p1 pCenter))
                   (pivotYAxis (subVectors p1 pCenter) (subVectors p2 pCenter))
                   (planeNormal (subVectors p1 pCenter) (subVectors p2 pCenter)))
                (getPoints (0.4 * CHEM_MODEL_SCALE)
                   (angleTo (subVectors p1 pCenter) (subVectors p2 pCenter)) 32)] @
       (if has_context eng
        then [AngleLabel
               \<lparr>sprite_label = angleText,
                sprite_position =
                  addVectors pCenter
                    (multiplyScalar
                       (labelDirection (subVectors p1 pCenter) (subVectors p2 pCenter))
                       ((0.4 * CHEM_MODEL_SCALE + 0.15) * 1.5)),
                sprite_scale = (0.5, 0.5, 0.5)\<rparr>]
        else [])"
  using assms
  by (simp add: drawAngleVisualization_def Let_def createLabelSprite_def)

lemma draw_angle_lt:
  assumes "angleTo (subVectors p1 pCenter) (subVectors p2 pCenter) < 0.01"
  shows "drawAngleVisualization eng p1 pCenter p2 angleText grp = grp"
  using assms by (simp add: drawAngleVisualization_def Let_def)

text \<open>
  C7, as the code has it. When \<open>p1\<close> or \<open>p2\<close> is the centre, one ray is the
  zero vector and the engine gives the angle \<open>pi / 2\<close>. That is not below
  the threshold 0.01, so the overlay is drawn: a pivot at the centre with an
  arc from 0 to \<open>pi / 2\<close> is added, and a label when a label sprite can be
  made. Nothing in the computation can fail. The overlay is left out only for
  an angle below 0.01.
\<close>

theorem zero_ray_overlay:
  assumes "p1 = pCenter \<or> p2 = pCenter"
  shows "drawAngleVisualization eng p1 pCenter p2 angleText grp =
       grp @ [ArcPivot pCenter
                (FromBasis (pivotXAxis (subVectors p1 pCenter))
                   (pivotYAxis (subVectors p1 pCenter) (subVectors p2 pCenter))
                   (planeNormal (subVectors p1 pCenter) (subVectors p2 pCenter)))
                (getPoints (0.4 * CHEM_MODEL_SCALE) (pi / 2) 32)] @
       (if has_context eng
        then [AngleLabel
               \<lparr>sprite_label = angleText,
                sprite_position =
                  addVectors pCenter
                    (multiplyScalar
                       (labelDirection (subVectors p1 pCenter) (subVectors p2 pCenter))
                       ((0.4 * CHEM_MODEL_SCALE + 0.15) * 1.5)),
                sprite_scale = (0.5, 0.5, 0.5)\<rparr>]
        else [])"
proof -
  have a: "angleTo (subVectors p1 pCenter) (subVectors p2 pCenter) = pi / 2"
    using assms by (auto simp: subVectors_self angleTo_zero_left angleTo_zero_right)
  then have "\<not> angleTo (subVectors p1 pCenter) (subVectors p2 pCenter) < 0.01"
    using half_pi_not_small by simp
  from draw_angle_ge [OF this] show ?thesis unfolding a .
qed

lemma angleTo_straight: "angleTo (1, 0, 0) (- 1, 0, 0) = pi"
  by (simp add: angleTo_def clamp_def)

lemma planeNormal_straight: "planeNormal (1, 0, 0) (- 1, 0, 0) = (0, 0, 1)"
  by (simp add: planeNormal_def normalizeVec_def vlength_def Let_def)

lemma pivotYAxis_straight: "pivotYAxis (1, 0, 0) (- 1, 0, 0) = (0, 1, 0)"
  by (simp add: pivotYAxis_def pivotXAxis_def planeNormal_straight normalizeVec_def vlength_def)

lemma labelDirection_straight: "labelDirection (1, 0, 0) (- 1, 0, 0) = (0, 1, 0)"
  by (simp add: labelDirection_def pivotYAxis_straight normalizeVec_def vlength_def Let_def)

lemma hd_getPoints: "hd (getPoints r a 32) = (r, 0)"
  by (simp add: getPoints_def upt_rec)

lemma last_getPoints_gen:
  "last (getPoints r a n) = (r * cos (real n / real n * a), r * sin (real n / real n * a))"
  by (simp add: getPoints_def)

lemma last_getPoints: "last (getPoints r a 32) = (r * cos a, r * sin a)"
  using last_getPoints_gen [of r a 32] by simp

text \<open>
  C8. For \<open>p1 = (1, 0, 0)\<close>, the centre at the origin and \<open>p2 = (-1, 0, 0)\<close>
  the rays are opposite. With a drawing context for the label, the overlay is
  a pivot that carries an arc from 0 to \<open>pi\<close>, sampled at 33 points from
  \<open>(radius, 0)\<close> to \<open>(- radius, 0)\<close>, and a label that sits at the centre
  moved along the Y axis of the pivot, which is \<open>(0, 1, 0)\<close> and stands in
  for the bisector.
\<close>

theorem straight_angle_overlay:
  assumes "has_context eng"
  shows "drawAngleVisualization eng (1, 0, 0) (0, 0, 0) (- 1, 0, 0) angleText grp =
           grp @ [ArcPivot (0, 0, 0) (FromBasis (1, 0, 0) (0, 1, 0) (0, 0, 1))
                    (getPoints (0.4 * CHEM_MODEL_SCALE) pi 32),
                  AngleLabel
                    \<lparr>sprite_label = angleText,
                     sprite_position =
                       addVectors (0, 0, 0)
                         (multiplyScalar (pivotYAxis (1, 0, 0) (- 1, 0, 0))
                            ((0.4 * CHEM_MODEL_SCALE + 0.15) * 1.5)),
                     sprite_scale = (0.5, 0.5, 0.5)\<rparr>] \<and>
         pivotYAxis (1, 0, 0) (- 1, 0, 0) = (0, 1, 0) \<and>
         length (getPoints (0.4 * CHEM_MODEL_SCALE) pi 32) = 33 \<and>
         hd (getPoints (0.4 * CHEM_MODEL_SCALE) pi 32) = (0.4 * CHEM_MODEL_SCALE, 0) \<and>
         last (getPoints (0.4 * CHEM_MODEL_SCALE) pi 32) = (- (0.4 * CHEM_MODEL_SCALE), 0)"
proof -
  have s1: "subVectors (1, 0, 0) (0, 0, 0) = (1, 0, 0)" by simp
  have s2: "subVectors (- 1, 0, 0) (0, 0, 0) = (- 1, 0, 0)" by simp
  have "\<not> angleTo (subVectors (1, 0, 0) (0, 0, 0)) (subVectors (- 1, 0, 0) (0, 0, 0)) < 0.01"
    unfolding s1 s2 angleTo_straight using pi_ge_two by simp
  from draw_angle_ge [OF this, of eng angleText grp]
  have d: "drawAngleVisualization eng (1, 0, 0) (0, 0, 0) (- 1, 0, 0) angleText grp =
           grp @ [ArcPivot (0, 0, 0) (FromBasis (1, 0, 0) (0, 1, 0) (0, 0, 1))
                    (getPoints (0.4 * CHEM_MODEL_SCALE) pi 32),
                  AngleLabel
                    \<lparr>sprite_label = angleText,
                     sprite_position =
                       addVectors (0, 0, 0)
                         (multiplyScalar (pivotYAxis (1, 0, 0) (- 1, 0, 0))
                            ((0.4 * CHEM_MODEL_SCALE + 0.15) * 1.5)),
                     sprite_scale = (0.5, 0.5, 0.5)\<rparr>]"
    unfolding s1 s2 angleTo_straight planeNormal_straight labelDirection_straight
    using assms by (simp add: pivotYAxis_straight pivotXAxis_def normalizeVec_def vlength_def)
  have l: "length (getPoints (0.4 * CHEM_MODEL_SCALE) pi 32) = 33"
    by (simp add: getPoints_def)
  show ?thesis
    using d l by (simp only: pivotYAxis_straight hd_getPoints last_getPoints cos_pi sin_pi) simp
qed

lemma planeNormal_zero: "planeNormal (0, 0, 0) (1, 0, 0) = (0, 0, 0)"
  by (simp add: planeNormal_def normalizeVec_def vlength_def Let_def)

lemma pivotYAxis_zero: "pivotYAxis (0, 0, 0) (1, 0, 0) = (0, 0, 0)"
  by (simp add: pivotYAxis_def pivotXAxis_def planeNormal_zero normalizeVec_def vlength_def)

lemma labelDirection_zero: "labelDirection (0, 0, 0) (1, 0, 0) = (1, 0, 0)"
  by (simp add: labelDirection_def normalizeVec_def vlength_def Let_def)

theorem zero_ray_overlay_witness:
  "drawAngleVisualization
     \<lparr>has_context = True, measureText = (\<lambda>s. 50 * real (length s)),
      boxSize = (\<lambda>obj. (0, 0, 0)), boxCenter = (\<lambda>obj. (0, 0, 0))\<rparr>
     (0, 0, 0) (0, 0, 0) (1, 0, 0) ''90'' [] =
   [ArcPivot (0, 0, 0) (FromBasis (0, 0, 0) (0, 0, 0) (0, 0, 0))
      (getPoints (0.4 * CHEM_MODEL_SCALE) (pi / 2) 32),
    AngleLabel \<lparr>sprite_label = ''90'', sprite_position = (2.025, 0, 0),
                sprite_scale = (0.5, 0.5, 0.5)\<rparr>]"
  using zero_ray_overlay
    [of "(0, 0, 0)" "(0, 0, 0)" "(1, 0, 0)"
        "\<lparr>has_context = True, measureText = (\<lambda>s. 50 * real (length s)),
          boxSize = (\<lambda>obj. (0, 0, 0)), boxCenter = (\<lambda>obj. (0, 0, 0))\<rparr>"
        "''90''" "[]"]
  by (simp add: planeNormal_zero pivotYAxis_zero labelDirection_zero pivotXAxis_def
        normalizeVec_def vlength_def CHEM_MODEL_SCALE_def)

text \<open>With \<open>p1\<close> equal to the centre the overlay has its two parts, the arc and the label.\<close>

theorem zero_ray_overlay_counterexample:
  "length (drawAngleVisualization
     \<lparr>has_context = True, measureText = (\<lambda>s. 50 * real (length s)),
      boxSize = (\<lambda>obj. (0, 0, 0)), boxCenter = (\<lambda>obj. (0, 0, 0))\<rparr>
     (0, 0, 0) (0, 0, 0) (1, 0, 0) ''90'' []) = 2"
proof -
  have "\<not> angleTo (subVectors (0, 0, 0) (0, 0, 0)) (subVectors (1, 0, 0) (0, 0, 0)) < 0.01"
    using half_pi_not_small by (simp add: angleTo_zero_left)
  from draw_angle_ge [OF this] show ?thesis by simp
qed

theorem straight_angle_overlay_witness:
  "drawAngleVisualization
     \<lparr>has_context = True, measureText = (\<lambda>s. 50 * real (length s)),
      boxSize = (\<lambda>obj. (0, 0, 0)), boxCenter = (\<lambda>obj. (0, 0, 0))\<rparr>
     (1, 0, 0) (0, 0, 0) (- 1, 0, 0) ''180'' [] =
   [ArcPivot (0, 0, 0) (FromBasis (1, 0, 0) (0, 1, 0) (0, 0, 1))
      (getPoints (0.4 * CHEM_MODEL_SCALE) pi 32),
    AngleLabel \<lparr>sprite_label = ''180'', sprite_position = (0, 2.025, 0),
                sprite_scale = (0.5, 0.5, 0.5)\<rparr>]"
  using straight_angle_overlay
    [of "\<lparr>has_context = True, measureText = (\<lambda>s. 50 * real (length s)),
          boxSize = (\<lambda>obj. (0, 0, 0)), boxCenter = (\<lambda>obj. (0, 0, 0))\<rparr>"
        "''180''" "[]"]
  by (simp add: CHEM_MODEL_SCALE_def)

section \<open>The builders, examined\<close>

lemma list_ex_invalidCoord:
  "list_ex invalidCoord cs \<longleftrightarrow> \<not> list_all spec_finiteNumber cs"
proof (induction cs)
  case Nil
  then show ?case by simp
next
  case (Cons c cs)
  then show ?case by (cases c) simp_all
qed

lemma vertexAt_valid_iff:
  "\<not> invalidVertex (vertexAt vs i) \<longleftrightarrow> spec_finiteVertex vs i"
proof (cases "0 \<le> i \<and> i < int (length vs)")
  case True
  then have v: "vertexAt vs i = vs ! nat i" by (simp add: vertexAt_def)
  show ?thesis
    using True unfolding v
    by (cases "vs ! nat i") (simp_all add: invalidVertex_def spec_finiteVertex_def list_ex_invalidCoord)
next
  case False
  then have "vertexAt vs i = None" by (auto simp: vertexAt_def)
  then show ?thesis using False by (auto simp: invalidVertex_def spec_finiteVertex_def)
qed

lemma list_ex_invalidVertex:
  "list_ex invalidVertex (map (vertexAt vs) ixs) \<longleftrightarrow> \<not> list_all (spec_finiteVertex vs) ixs"
  by (induction ixs) (simp_all add: vertexAt_valid_iff [symmetric])

lemma buildTriangle_None_iff:
  "buildTriangle vs fg i t = None \<longleftrightarrow> \<not> spec_validTriangle vs t"
  by (cases "indices t")
     (simp_all add: buildTriangle_def spec_validTriangle_def Let_def list_ex_invalidVertex)

lemma buildTriangle_faceId:
  "buildTriangle vs fg i t = Some m \<Longrightarrow> faceId m = Some i \<and> mesh_details m = face_details fg"
  by (auto simp: buildTriangle_def Let_def split: option.splits if_splits)

lemma map_filter_faceId:
  "map faceId (List.map_filter (buildTriangle vs fg i) ts) =
     replicate (length (filter (spec_validTriangle vs) ts)) (Some i)"
proof (induction ts)
  case Nil
  then show ?case by (simp add: List.map_filter_simps)
next
  case (Cons t ts)
  show ?case
  proof (cases "buildTriangle vs fg i t")
    case None
    then have "\<not> spec_validTriangle vs t" by (simp add: buildTriangle_None_iff)
    then show ?thesis using None Cons by (simp add: List.map_filter_simps)
  next
    case (Some m)
    then have "spec_validTriangle vs t" using buildTriangle_None_iff [of vs fg i t] by simp
    then show ?thesis using Some Cons buildTriangle_faceId [OF Some]
      by (simp add: List.map_filter_simps)
  qed
qed

lemma faceIds_faceMeshes:
  "map faceId (faceMeshes vs (i, fg)) = replicate (spec_validCount vs fg) (Some i)"
  by (simp add: faceMeshes_def spec_validCount_def map_filter_faceId split: option.splits)

lemma faceIds_enumerate:
  "map faceId (concat (map (faceMeshes vs) (enumerate n fs))) =
     concat (map (\<lambda>e. replicate (spec_validCount vs (snd e)) (Some (fst e))) (enumerate n fs))"
  by (induction fs arbitrary: n) (simp_all add: faceIds_faceMeshes)

lemma faceIds_buildFaceMeshes:
  "map faceId (buildFaceMeshes vs fs) =
     concat (map (\<lambda>e. replicate (spec_validCount vs (snd e)) (Some (fst e))) (enumerate 0 fs))"
  by (simp add: buildFaceMeshes_def faceIds_enumerate)

lemma length_replicates_enumerate:
  "length (concat (map (\<lambda>e. replicate (f (snd e)) (g (fst e))) (enumerate n fs))) =
     sum_list (map f fs)"
  by (induction fs arbitrary: n) simp_all

lemma length_buildFaceMeshes: "length (buildFaceMeshes vs fs) = spec_totalValid vs fs"
proof -
  have "length (buildFaceMeshes vs fs) = length (map faceId (buildFaceMeshes vs fs))" by simp
  also have "\<dots> = spec_totalValid vs fs"
    unfolding faceIds_buildFaceMeshes spec_totalValid_def by (rule length_replicates_enumerate)
  finally show ?thesis .
qed

lemma traverseChildren_append:
  "traverseChildren p i (xs @ ys) = traverseChildren p i xs @ traverseChildren p (i + length xs) ys"
  by (induction xs arbitrary: i) simp_all

lemma meshes_of_Mesh_children:
  "List.map_filter (\<lambda>(p, n). theMesh n) (traverseChildren p i (map Mesh ms)) = ms"
  by (induction ms arbitrary: i) (simp_all add: List.map_filter_simps)

lemma meshes_of_Sprite_children:
  "List.map_filter (\<lambda>(p, n). theMesh n) (traverseChildren p i (map Sprite ss)) = []"
  by (induction ss arbitrary: i) (simp_all add: List.map_filter_simps)

lemma sprites_of_Mesh_children:
  "List.map_filter (\<lambda>(p, n). theSprite n) (traverseChildren p i (map Mesh ms)) = []"
  by (induction ms arbitrary: i) (simp_all add: List.map_filter_simps)

lemma sprites_of_Sprite_children:
  "List.map_filter (\<lambda>(p, n). theSprite n) (traverseChildren p i (map Sprite ss)) = ss"
  by (induction ss arbitrary: i) (simp_all add: List.map_filter_simps)

lemma meshesOf_flat:
  "meshesOf (Group g (map Mesh ms @ map Sprite ss)) = ms"
  by (simp add: meshesOf_def List.map_filter_simps traverseChildren_append map_filter_append
        meshes_of_Mesh_children meshes_of_Sprite_children)

lemma spritesOf_flat:
  "spritesOf (Group g (map Mesh ms @ map Sprite ss)) = ss"
  by (simp add: spritesOf_def List.map_filter_simps traverseChildren_append map_filter_append
        sprites_of_Mesh_children sprites_of_Sprite_children)

lemma scaleIfSprite_flat:
  "map (scaleIfSprite k) (map Mesh ms @ map Sprite ss) =
     map Mesh ms @ map Sprite (map (multiplySpriteScale k) ss)"
  by simp

lemma filter_isMesh_Mesh: "filter isMesh (map Mesh ms) = map Mesh ms"
  by (induction ms) simp_all

lemma buildGeometryModel_result:
  assumes "vertices data = Some vs" and "vs \<noteq> []" and "faces data = Some fs" and "fs \<noteq> []"
  shows "buildGeometryModel eng data =
     (if spec_totalValid vs fs = 0 then Inl NoValidShapes
      else Inr (Group emptyGroup
             (map Mesh (buildFaceMeshes vs fs) @
              map Sprite
                (case geometryLabelScale
                        (boxSize eng (geometryGroup eng vs fs (labels data))) of
                   None \<Rightarrow> geometryLabels eng (labels data)
                 | Some k \<Rightarrow> map (multiplySpriteScale k) (geometryLabels eng (labels data))))))"
  using assms
  by (simp add: buildGeometryModel_def filter_isMesh_Mesh length_buildFaceMeshes Let_def
        geometryChildren_def geometryGroup_def split: option.splits)

text \<open>
  C4. For a solid whose \<^verbatim>\<open>vertices\<close> and \<^verbatim>\<open>faces\<close> are present and not empty:
  when it has a valid triangle, the build succeeds, the model has as many
  meshes as there are valid triangles in all face groups together, and, group
  after group, each mesh carries as \<^verbatim>\<open>faceId\<close> the position of the group its
  triangle came from; when it has none, the build fails and no mesh is made.
\<close>

theorem geometry_primitives:
  assumes "vertices data = Some vs" and "vs \<noteq> []" and "faces data = Some fs" and "fs \<noteq> []"
  shows "(spec_totalValid vs fs = 0 \<longrightarrow> buildGeometryModel eng data = Inl NoValidShapes) \<and>
         (0 < spec_totalValid vs fs \<longrightarrow>
            (\<exists>g. buildGeometryModel eng data = Inr g \<and>
                 length (meshesOf g) = spec_totalValid vs fs \<and>
                 map faceId (meshesOf g) =
                   concat (map (\<lambda>e. replicate (spec_validCount vs (snd e)) (Some (fst e)))
                             (enumerate 0 fs))))"
  using buildGeometryModel_result [OF assms, of eng]
  by (simp add: meshesOf_flat length_buildFaceMeshes faceIds_buildFaceMeshes)

lemma valid_plus_defective:
  "spec_validCount vs fg + spec_defectiveCount vs fg = spec_triangleCount fg"
  by (simp add: spec_validCount_def spec_defectiveCount_def spec_triangleCount_def
        sum_length_filter_compl split: option.splits)

lemma total_plus_defective:
  "spec_totalValid vs fs + sum_list (map (spec_defectiveCount vs) fs) =
     sum_list (map spec_triangleCount fs)"
  unfolding spec_totalValid_def
proof (induction fs)
  case Nil
  then show ?case by simp
next
  case (Cons a fs)
  then show ?case using valid_plus_defective [of vs a] by simp
qed

text \<open>
  C5. For a solid whose \<^verbatim>\<open>vertices\<close> and \<^verbatim>\<open>faces\<close> are present and not empty:
  the build fails for want of shapes exactly when no triangle is valid; a
  triangle that is not valid yields no mesh, whatever its group; and when some
  triangle is valid the build succeeds with one mesh for each valid triangle,
  so that the meshes and the defective triangles together are all the
  triangles of the description.
\<close>

theorem defective_triangles_dropped:
  assumes "vertices data = Some vs" and "vs \<noteq> []" and "faces data = Some fs" and "fs \<noteq> []"
  shows "(buildGeometryModel eng data = Inl NoValidShapes \<longleftrightarrow> spec_totalValid vs fs = 0) \<and>
         (\<forall>fg i t. \<not> spec_validTriangle vs t \<longrightarrow> buildTriangle vs fg i t = None) \<and>
         (0 < spec_totalValid vs fs \<longrightarrow>
            (\<exists>g. buildGeometryModel eng data = Inr g \<and>
                 length (meshesOf g) = spec_totalValid vs fs \<and>
                 length (meshesOf g) + sum_list (map (spec_defectiveCount vs) fs) =
                   sum_list (map spec_triangleCount fs)))"
  using buildGeometryModel_result [OF assms, of eng] total_plus_defective [of vs fs]
  by (simp add: meshesOf_flat length_buildFaceMeshes buildTriangle_None_iff)

lemma traverse_scaleSprites:
  "traverse p (scaleSprites k t) = map (\<lambda>e. (fst e, scaleSprites k (snd e))) (traverse p t)"
  "traverseChildren p i (map (scaleSprites k) cs) =
     map (\<lambda>e. (fst e, scaleSprites k (snd e))) (traverseChildren p i cs)"
  by (induction p t and p i cs rule: traverse_traverseChildren.induct) simp_all

lemma theSprite_scaleSprites:
  "theSprite (scaleSprites k n) = map_option (multiplySpriteScale k) (theSprite n)"
  by (cases n) simp_all

lemma theMesh_scaleSprites: "theMesh (scaleSprites k n) = theMesh n"
  by (cases n) simp_all

lemma map_filter_map:
  "List.map_filter f (map g xs) = List.map_filter (f \<circ> g) xs"
  by (induction xs) (simp_all add: List.map_filter_simps split: option.splits)

lemma map_filter_map_option:
  "List.map_filter (\<lambda>x. map_option h (f x)) xs = map h (List.map_filter f xs)"
  by (induction xs) (simp_all add: List.map_filter_simps split: option.splits)

lemma spritesOf_scaleSprites:
  "spritesOf (scaleSprites k t) = map (multiplySpriteScale k) (spritesOf t)"
proof -
  have "spritesOf (scaleSprites k t) =
          List.map_filter (\<lambda>e. map_option (multiplySpriteScale k) (theSprite (snd e))) (traverse [] t)"
    by (simp add: spritesOf_def traverse_scaleSprites map_filter_map comp_def
          theSprite_scaleSprites case_prod_unfold)
  also have "\<dots> = map (multiplySpriteScale k) (List.map_filter (\<lambda>e. theSprite (snd e)) (traverse [] t))"
    by (rule map_filter_map_option)
  finally show ?thesis by (simp add: spritesOf_def case_prod_unfold)
qed

lemma meshesOf_scaleSprites: "meshesOf (scaleSprites k t) = meshesOf t"
  by (simp add: meshesOf_def traverse_scaleSprites map_filter_map comp_def
        theMesh_scaleSprites case_prod_unfold)

lemma buildChemistryModel_result:
  assumes "atoms data = Some as" and "as \<noteq> []"
  shows "buildChemistryModel eng data =
     Inr (case chemistryLabelScale (boxSize eng (chemistryGroup eng as (bonds data))) of
            None \<Rightarrow> chemistryGroup eng as (bonds data)
          | Some k \<Rightarrow> scaleSprites k (chemistryGroup eng as (bonds data)))"
  using assms by (simp add: buildChemistryModel_def Let_def split: option.splits)

lemma meshesOf_geometryGroup: "meshesOf (geometryGroup eng vs fs ls) = buildFaceMeshes vs fs"
  by (simp add: geometryGroup_def geometryChildren_def meshesOf_flat)

lemma spritesOf_geometryGroup: "spritesOf (geometryGroup eng vs fs ls) = geometryLabels eng ls"
  by (simp add: geometryGroup_def geometryChildren_def spritesOf_flat)

text \<open>
  C9, as the code has it. The factor comes from the largest side of the
  bounding box, \<open>maxDim\<close>, and is used only when \<open>maxDim\<close> exceeds 0.001.
  A solid that builds has the meshes of its group and the label sprites of its
  group, each scaled by \<open>maxDim / 15\<close>; a molecule that builds has the
  meshes of its group and all its label sprites, each scaled by
  \<open>maxDim / 30\<close>. When \<open>maxDim\<close> is at most 0.001 the sprites keep their
  scale.
\<close>

theorem label_scaling:
  "(vertices data = Some vs \<and> faces data = Some fs \<and> buildGeometryModel eng data = Inr g \<longrightarrow>
      meshesOf g = meshesOf (geometryGroup eng vs fs (labels data)) \<and>
      spritesOf g =
        (if maxDim (boxSize eng (geometryGroup eng vs fs (labels data))) > 0.001
         then map (multiplySpriteScale
                     (maxDim (boxSize eng (geometryGroup eng vs fs (labels data))) / 15))
                (spritesOf (geometryGroup eng vs fs (labels data)))
         else spritesOf (geometryGroup eng vs fs (labels data)))) \<and>
   (atoms data = Some as \<and> buildChemistryModel eng data = Inr m \<longrightarrow>
      meshesOf m = meshesOf (chemistryGroup eng as (bonds data)) \<and>
      spritesOf m =
        (if maxDim (boxSize eng (chemistryGroup eng as (bonds data))) > 0.001
         then map (multiplySpriteScale
                     (maxDim (boxSize eng (chemistryGroup eng as (bonds data))) / 30))
                (spritesOf (chemistryGroup eng as (bonds data)))
         else spritesOf (chemistryGroup eng as (bonds data))))"
proof (intro conjI impI)
  assume a: "vertices data = Some vs \<and> faces data = Some fs \<and> buildGeometryModel eng data = Inr g"
  then have vs: "vs \<noteq> []" and fs: "fs \<noteq> []"
    by (auto simp: buildGeometryModel_def split: if_splits)
  from a have r: "buildGeometryModel eng data = Inr g" by simp
  note res = buildGeometryModel_result [of data vs fs eng, OF _ vs _ fs]
  from a res r have g: "g = Group emptyGroup
             (map Mesh (buildFaceMeshes vs fs) @
              map Sprite
                (case geometryLabelScale (boxSize eng (geometryGroup eng vs fs (labels data))) of
                   None \<Rightarrow> geometryLabels eng (labels data)
                 | Some k \<Rightarrow> map (multiplySpriteScale k) (geometryLabels eng (labels data))))"
    by (simp split: if_splits)
  show "meshesOf g = meshesOf (geometryGroup eng vs fs (labels data))"
    unfolding g by (simp add: meshesOf_flat meshesOf_geometryGroup)
  show "spritesOf g =
        (if maxDim (boxSize eng (geometryGroup eng vs fs (labels data))) > 0.001
         then map (multiplySpriteScale
                     (maxDim (boxSize eng (geometryGroup eng vs fs (labels data))) / 15))
                (spritesOf (geometryGroup eng vs fs (labels data)))
         else spritesOf (geometryGroup eng vs fs (labels data)))"
    unfolding g by (simp add: spritesOf_flat spritesOf_geometryGroup geometryLabelScale_def)
next
  assume a: "atoms data = Some as \<and> buildChemistryModel eng data = Inr m"
  then have as: "as \<noteq> []"
    by (auto simp: buildChemistryModel_def split: if_splits)
  note res = buildChemistryModel_result [of data as eng, OF _ as]
  from a res have m: "m = (case chemistryLabelScale (boxSize eng (chemistryGroup eng as (bonds data))) of
            None \<Rightarrow> chemistryGroup eng as (bonds data)
          | Some k \<Rightarrow> scaleSprites k (chemistryGroup eng as (bonds data)))"
    by simp
  show "meshesOf m = meshesOf (chemistryGroup eng as (bonds data))"
    unfolding m by (simp add: meshesOf_scaleSprites split: option.splits)
  show "spritesOf m =
        (if maxDim (boxSize eng (chemistryGroup eng as (bonds data))) > 0.001
         then map (multiplySpriteScale
                     (maxDim (boxSize eng (chemistryGroup eng as (bonds data))) / 30))
                (spritesOf (chemistryGroup eng as (bonds data)))
         else spritesOf (chemistryGroup eng as (bonds data)))"
    unfolding m
    by (simp add: spritesOf_scaleSprites chemistryLabelScale_def split: option.splits)
qed

lemma exampleSolid_valid: "spec_totalValid exampleVertices exampleFaces = 9"
  by (simp add: spec_totalValid_def spec_validCount_def spec_validTriangle_def
        spec_finiteVertex_def exampleVertices_def exampleFaces_def)

lemma exampleSolid_counts:
  "map (spec_validCount exampleVertices) exampleFaces = [3, 3, 3]"
  by (simp add: spec_validCount_def spec_validTriangle_def
        spec_finiteVertex_def exampleVertices_def exampleFaces_def)

lemma exampleSolid_defective:
  "map (spec_defectiveCount exampleVertices) exampleFaces = [0, 0, 1]"
  by (simp add: spec_defectiveCount_def spec_validTriangle_def
        spec_finiteVertex_def exampleVertices_def exampleFaces_def)

text \<open>
  The example solid: nine meshes, three for each of the groups 0, 1 and 2.
\<close>

theorem geometry_primitives_witness:
  "\<exists>g. buildGeometryModel exampleEngine exampleSolid = Inr g \<and>
       length (meshesOf g) = 9 \<and>
       map faceId (meshesOf g) =
         [Some 0, Some 0, Some 0, Some 1, Some 1, Some 1, Some 2, Some 2, Some 2]"
proof -
  have v: "vertices exampleSolid = Some exampleVertices" "exampleVertices \<noteq> []"
    and f: "faces exampleSolid = Some exampleFaces" "exampleFaces \<noteq> []"
    by (simp_all add: exampleSolid_def exampleVertices_def exampleFaces_def)
  have e: "concat (map (\<lambda>e. replicate (spec_validCount exampleVertices (snd e)) (Some (fst e)))
                     (enumerate 0 exampleFaces)) =
           [Some 0, Some 0, Some 0, Some 1, Some 1, Some 1, Some 2, Some 2, Some 2]"
    by (simp add: spec_validCount_def spec_validTriangle_def spec_finiteVertex_def
          exampleVertices_def exampleFaces_def numeral_3_eq_3)
  show ?thesis
    using geometry_primitives [OF v(1) v(2) f(1) f(2), of exampleEngine]
    by (simp only: exampleSolid_valid e)
qed

text \<open>
  The example solid has ten triangles, one of them on the vertex 99 of a list
  of four vertices: that one is dropped, and the build succeeds with nine
  meshes.
\<close>

theorem defective_triangles_dropped_witness:
  "buildGeometryModel exampleEngine exampleSolid \<noteq> Inl NoValidShapes \<and>
   buildTriangle exampleVertices (exampleFaces ! 2) 2 \<lparr>indices = Some [0, 1, 99]\<rparr> = None \<and>
   (\<exists>g. buildGeometryModel exampleEngine exampleSolid = Inr g \<and>
        length (meshesOf g) = 9 \<and>
        sum_list (map spec_triangleCount exampleFaces) = 10)"
proof -
  have v: "vertices exampleSolid = Some exampleVertices" "exampleVertices \<noteq> []"
    and f: "faces exampleSolid = Some exampleFaces" "exampleFaces \<noteq> []"
    by (simp_all add: exampleSolid_def exampleVertices_def exampleFaces_def)
  have d: "\<not> spec_validTriangle exampleVertices \<lparr>indices = Some [0, 1, 99]\<rparr>"
    by (simp add: spec_validTriangle_def spec_finiteVertex_def exampleVertices_def)
  have t: "sum_list (map spec_triangleCount exampleFaces) = 10"
    by (simp add: spec_triangleCount_def exampleFaces_def)
  show ?thesis
    using defective_triangles_dropped [OF v(1) v(2) f(1) f(2), of exampleEngine] d t
    by (auto simp: exampleSolid_valid)
qed

lemma upper_O: "toUpperCase ''O'' = ''O''"
  by code_simp

lemma upper_H: "toUpperCase ''H'' = ''H''"
  by code_simp

lemma lower_single: "toLowerCase ''single'' = ''single''"
  by code_simp

lemma example_geometry_sprites:
  "spritesOf (geometryGroup exampleEngine exampleVertices exampleFaces (labels exampleSolid)) =
     [\<lparr>sprite_label = ''3cm'', sprite_position = (1, 1, 0), sprite_scale = (1.5, 1, 1)\<rparr>]"
  by (simp add: spritesOf_geometryGroup geometryLabels_def exampleSolid_def labelSprite_def
        createLabelSprite_def exampleEngine_def List.map_filter_simps Let_def)

lemma example_chemistry_sprites:
  "map sprite_scale
     (spritesOf (chemistryGroup exampleEngine exampleAtoms (bonds exampleMolecule))) =
     [(1.125, 2.25, 2.25), (0.75, 1.5, 1.5), (0.75, 1.5, 1.5)]"
  by (simp add: spritesOf_def chemistryGroup_def chemistryChildren_def atomGroups_def
        exampleAtoms_def exampleMolecule_def createAtom_def createLabelSprite_def
        exampleEngine_def List.map_filter_simps Let_def upper_O upper_H lookupOrDefault_def
        ATOM_RADII_def CPK_COLORS_def CHEM_MODEL_SCALE_def multiplySpriteScale_def
        bondGroupOf_def createBond_def bondCylinders_def lower_single)

text \<open>
  The example solid and the example molecule on an engine that reports a box
  of size \<open>(3, 4, 0)\<close>: the factors are \<open>4 / 15\<close> and \<open>4 / 30\<close>.
\<close>

theorem label_scaling_witness:
  "\<exists>g m.
     buildGeometryModel exampleEngine exampleSolid = Inr g \<and>
     map sprite_scale (spritesOf g) = [(0.4, 4 / 15, 4 / 15)] \<and>
     buildChemistryModel exampleEngine exampleMolecule = Inr m \<and>
     map sprite_scale (spritesOf m) = [(0.15, 0.3, 0.3), (0.1, 0.2, 0.2), (0.1, 0.2, 0.2)]"
proof -
  have v: "vertices exampleSolid = Some exampleVertices" "exampleVertices \<noteq> []"
    and f: "faces exampleSolid = Some exampleFaces" "exampleFaces \<noteq> []"
    by (simp_all add: exampleSolid_def exampleVertices_def exampleFaces_def)
  have a: "atoms exampleMolecule = Some exampleAtoms" "exampleAtoms \<noteq> []"
    by (simp_all add: exampleMolecule_def exampleAtoms_def)
  obtain g where g: "buildGeometryModel exampleEngine exampleSolid = Inr g"
    using buildGeometryModel_result [OF v(1) v(2) f(1) f(2), of exampleEngine]
    by (simp add: exampleSolid_valid)
  obtain m where m: "buildChemistryModel exampleEngine exampleMolecule = Inr m"
    using buildChemistryModel_result [OF a, of exampleEngine] by simp
  have b: "boxSize exampleEngine obj = (3, 4, 0)" for obj
    by (simp add: exampleEngine_def)
  have gs: "map sprite_scale (spritesOf g) = [(0.4, 4 / 15, 4 / 15)]"
    using label_scaling [of exampleSolid exampleVertices exampleFaces exampleEngine g exampleAtoms m]
      v f g
    by (simp add: b example_geometry_sprites multiplySpriteScale_def)
  have ms: "map sprite_scale (spritesOf m) =
      [(0.15, 0.3, 0.3), (0.1, 0.2, 0.2), (0.1, 0.2, 0.2)]"
  proof -
    have "spritesOf m =
        map (multiplySpriteScale (4 / 30))
          (spritesOf (chemistryGroup exampleEngine exampleAtoms (bonds exampleMolecule)))"
      using label_scaling [of exampleMolecule exampleVertices exampleFaces exampleEngine g exampleAtoms m]
        a m
      by (simp add: b)
    then have "map sprite_scale (spritesOf m) =
        map (\<lambda>v. multiplyScalar v (4 / 30))
          (map sprite_scale
             (spritesOf (chemistryGroup exampleEngine exampleAtoms (bonds exampleMolecule))))"
      by (simp add: multiplySpriteScale_def comp_def)
    then show ?thesis unfolding example_chemistry_sprites by simp
  qed
  from g gs m ms show ?thesis
    by (intro exI [of _ g] exI [of _ m] conjI)
qed

lemma sqrt_25: "sqrt 25 = 5"
  using real_sqrt_abs [of 5] by simp

lemma sqrt_36: "sqrt 36 = 6"
  using real_sqrt_abs [of 6] by simp

text \<open>
  Two boxes with the diagonals 5 and 6 give the same label factor: the factor
  follows the largest side, which is 4 for both, not the diagonal.
\<close>

theorem label_scaling_counterexample:
  "geometryLabelScale (3, 4, 0) = Some (4 / 15) \<and>
   geometryLabelScale (4, 4, 2) = Some (4 / 15) \<and>
   spec_boxDiagonal (3, 4, 0) = 5 \<and>
   spec_boxDiagonal (4, 4, 2) = 6"
  by (simp add: geometryLabelScale_def spec_boxDiagonal_def vlength_def sqrt_25 sqrt_36)

section \<open>Selecting, examined\<close>

lemma fold_highlight_color:
  assumes "\<And>r s. materialColor (G r s) = materialColor s"
  shows "materialColor (fold (\<lambda>r s. G r (highlightMesh r s)) rs st) x =
           (if x \<in> set rs then highlightColor else materialColor st x)"
  using assms by (induction rs arbitrary: st) (simp_all add: highlightMesh_def)

lemma fold_highlight_list:
  assumes "\<And>r s. materialColor (G r s) = materialColor s"
    and "\<And>r s. highlightedObjects (G r s) = highlightedObjects s"
    and "distinct rs"
  shows "highlightedObjects (fold (\<lambda>r s. G r (highlightMesh r s)) rs st) =
           highlightedObjects st @ map (\<lambda>r. (r, materialColor st r)) rs"
  using assms
proof (induction rs arbitrary: st)
  case Nil
  then show ?case by simp
next
  case (Cons r rs)
  have "map (\<lambda>x. (x, materialColor (G r (highlightMesh r st)) x)) rs =
        map (\<lambda>x. (x, materialColor st x)) rs"
    using Cons.prems by (auto simp: highlightMesh_def)
  then show ?case using Cons by (simp add: highlightMesh_def)
qed

lemma restoreColors_recorded:
  "restoreColors (map (\<lambda>r. (r, f r)) rs) g = (\<lambda>x. if x \<in> set rs then f x else g x)"
proof (induction rs arbitrary: g)
  case Nil
  then show ?case by (simp add: restoreColors_def)
next
  case (Cons r rs)
  have "restoreColors (map (\<lambda>r. (r, f r)) (r # rs)) g =
        restoreColors (map (\<lambda>r. (r, f r)) rs) (g(r := f r))"
    by (simp add: restoreColors_def)
  then show ?case unfolding Cons by auto
qed

lemma highlightAll_color:
  "materialColor (highlightAll rs st) x =
     (if x \<in> set rs then highlightColor else materialColor st x)"
  unfolding highlightAll_def
  using fold_highlight_color [of "\<lambda>r s. s" rs st x] by simp

lemma highlightAll_list:
  "distinct rs \<Longrightarrow>
     highlightedObjects (highlightAll rs st) =
       highlightedObjects st @ map (\<lambda>r. (r, materialColor st r)) rs"
  unfolding highlightAll_def
  using fold_highlight_list [of "\<lambda>r s. s" rs st] by simp

lemma highlightAll_frame:
  "generatedObject (highlightAll rs st) = generatedObject st \<and>
   sceneGeneration (highlightAll rs st) = sceneGeneration st \<and>
   currentMode (highlightAll rs st) = currentMode st \<and>
   currentSelectionDetails (highlightAll rs st) = currentSelectionDetails st"
  unfolding highlightAll_def
  by (induction rs arbitrary: st) (simp_all add: highlightMesh_def)

lemma drawAngle_frame:
  "materialColor (drawAngle eng ps a st) = materialColor st \<and>
   highlightedObjects (drawAngle eng ps a st) = highlightedObjects st \<and>
   generatedObject (drawAngle eng ps a st) = generatedObject st \<and>
   sceneGeneration (drawAngle eng ps a st) = sceneGeneration st \<and>
   currentMode (drawAngle eng ps a st) = currentMode st \<and>
   currentSelectionDetails (drawAngle eng ps a st) = currentSelectionDetails st"
  by (simp add: drawAngle_def Let_def split: option.splits)

lemma fold_drawAngle_frame:
  "materialColor (fold (drawAngle eng ps) as st) = materialColor st \<and>
   highlightedObjects (fold (drawAngle eng ps) as st) = highlightedObjects st \<and>
   generatedObject (fold (drawAngle eng ps) as st) = generatedObject st \<and>
   sceneGeneration (fold (drawAngle eng ps) as st) = sceneGeneration st \<and>
   currentMode (fold (drawAngle eng ps) as st) = currentMode st \<and>
   currentSelectionDetails (fold (drawAngle eng ps) as st) = currentSelectionDetails st"
  by (induction as arbitrary: st) (simp_all add: drawAngle_frame)

lemma drawBondAngles_frame:
  "materialColor (drawBondAngles eng model d st) = materialColor st \<and>
   highlightedObjects (drawBondAngles eng model d st) = highlightedObjects st \<and>
   generatedObject (drawBondAngles eng model d st) = generatedObject st \<and>
   sceneGeneration (drawBondAngles eng model d st) = sceneGeneration st \<and>
   currentMode (drawBondAngles eng model d st) = currentMode st \<and>
   currentSelectionDetails (drawBondAngles eng model d st) = currentSelectionDetails st"
  by (simp add: drawBondAngles_def Let_def fold_drawAngle_frame split: option.splits)

lemma selectBond_frame:
  "materialColor (selectBond d st) = materialColor st \<and>
   highlightedObjects (selectBond d st) = highlightedObjects st \<and>
   generatedObject (selectBond d st) = generatedObject st \<and>
   sceneGeneration (selectBond d st) = sceneGeneration st \<and>
   currentMode (selectBond d st) = currentMode st"
  by (simp add: selectBond_def split: option.splits details.splits)

lemma highlightAll_effect:
  "materialColor (highlightAll rs st) =
     (\<lambda>x. if x \<in> set rs then highlightColor else materialColor st x) \<and>
   (distinct rs \<longrightarrow>
      highlightedObjects (highlightAll rs st) =
        highlightedObjects st @ map (\<lambda>r. (r, materialColor st r)) rs) \<and>
   generatedObject (highlightAll rs st) = generatedObject st \<and>
   sceneGeneration (highlightAll rs st) = sceneGeneration st \<and>
   currentMode (highlightAll rs st) = currentMode st"
  using highlightAll_list [of rs st] highlightAll_frame [of rs st]
  by (auto simp: highlightAll_color)

lemma effectOf_nothing:
  assumes "materialColor st' = materialColor st"
    and "highlightedObjects st' = highlightedObjects st"
    and "generatedObject st' = generatedObject st"
    and "sceneGeneration st' = sceneGeneration st"
    and "currentMode st' = currentMode st"
  shows "effectOf st [] st'"
  using assms by (simp add: effectOf_def)

lemma effectOf_highlightAll:
  assumes "materialColor st0 = materialColor st"
    and "highlightedObjects st0 = highlightedObjects st"
    and "generatedObject st0 = generatedObject st"
    and "sceneGeneration st0 = sceneGeneration st"
    and "currentMode st0 = currentMode st"
  shows "effectOf st rs (highlightAll rs st0)"
  using assms highlightAll_effect [of rs st0] by (simp add: effectOf_def cong: if_cong)

lemma effectOf_draw:
  assumes "effectOf st rs st'"
  shows "effectOf st rs (drawBondAngles eng model d st')"
  using assms drawBondAngles_frame [of eng model d st'] by (simp add: effectOf_def)

lemma highlightMesh_is_highlightAll: "highlightMesh r st = highlightAll [r] st"
  by (simp add: highlightAll_def)

lemma handleHighlight_effect:
  "effectOf st (pickedRefs st hit) (handleHighlight eng hit st)"
proof (cases "generatedObject st")
  case None
  then show ?thesis
    by (simp add: handleHighlight_def pickedRefs_def Let_def effectOf_nothing)
next
  case (Some model)
  note model = Some
  show ?thesis
  proof (cases "lookup model hit")
    case None
    then show ?thesis using model
      by (simp add: handleHighlight_def pickedRefs_def Let_def effectOf_nothing)
  next
    case (Some obj)
    note obj = Some
    show ?thesis
    proof (cases obj)
      case (Sprite sp)
      then show ?thesis using model obj
        by (simp add: handleHighlight_def pickedRefs_def Let_def effectOf_nothing)
    next
      case (Group g cs)
      then show ?thesis using model obj
        by (simp add: handleHighlight_def pickedRefs_def Let_def effectOf_nothing)
    next
      case (Mesh clickedMesh)
      note mesh = Mesh
      show ?thesis
      proof (cases "currentMode st")
        case None
        then show ?thesis using model obj mesh
          by (simp add: handleHighlight_def pickedRefs_def Let_def effectOf_nothing)
      next
        case (Some md)
        note md = Some
        show ?thesis
        proof (cases md)
          case GeometryMode
          show ?thesis
          proof (cases "faceId clickedMesh")
            case None
            then show ?thesis using model obj mesh md GeometryMode
              by (simp add: handleHighlight_def pickedRefs_def Let_def effectOf_nothing)
          next
            case (Some fid)
            then show ?thesis using model obj mesh md GeometryMode
              by (cases "mesh_details clickedMesh")
                 (simp_all add: handleHighlight_def pickedRefs_def Let_def effectOf_highlightAll)
          qed
        next
          case ChemistryMode
          show ?thesis
          proof (cases "walkUp model (rev hit)")
            case (Some q)
            note q = Some
            show ?thesis
            proof (cases "lookup model q")
              case None
              then show ?thesis using model obj mesh md ChemistryMode q
                by (simp add: handleHighlight_def pickedRefs_def Let_def effectOf_nothing)
            next
              case (Some bg)
              then show ?thesis using model obj mesh md ChemistryMode q
                  selectBond_frame [of "objectDetails bg" "st\<lparr>angleVisualizationGroup := []\<rparr>"]
                by (simp add: handleHighlight_def pickedRefs_def Let_def effectOf_highlightAll)
            qed
          next
            case None
            note up = None
            show ?thesis
            proof (cases "mesh_details clickedMesh")
              case None
              then show ?thesis using model obj mesh md ChemistryMode up
                by (simp add: handleHighlight_def pickedRefs_def Let_def effectOf_nothing)
            next
              case (Some d)
              show ?thesis
              proof (cases d)
                case (FaceDetails a b)
                then show ?thesis using model obj mesh md ChemistryMode up Some
                  by (simp add: handleHighlight_def pickedRefs_def Let_def effectOf_nothing)
              next
                case (BondDetails n t en s e)
                then show ?thesis using model obj mesh md ChemistryMode up Some
                  by (simp add: handleHighlight_def pickedRefs_def Let_def effectOf_nothing)
              next
                case (AtomDetails el ba vs idx)
                show ?thesis
                proof (cases "el = []")
                  case True
                  then show ?thesis using model obj mesh md ChemistryMode up Some AtomDetails
                    by (simp add: handleHighlight_def pickedRefs_def Let_def effectOf_nothing)
                next
                  case False
                  then show ?thesis using model obj mesh md ChemistryMode up Some AtomDetails
                    by (simp add: handleHighlight_def pickedRefs_def Let_def
                          highlightMesh_is_highlightAll effectOf_draw effectOf_highlightAll)
                qed
              qed
            qed
          qed
        qed
      qed
    qed
  qed
qed

lemma clearHighlights_frame:
  "highlightedObjects (clearHighlights st) = [] \<and>
   generatedObject (clearHighlights st) = generatedObject st \<and>
   sceneGeneration (clearHighlights st) = sceneGeneration st \<and>
   currentMode (clearHighlights st) = currentMode st"
  by (simp add: clearHighlights_def)

lemma pickedRefs_cong:
  assumes "generatedObject st' = generatedObject st"
    and "sceneGeneration st' = sceneGeneration st"
    and "currentMode st' = currentMode st"
  shows "pickedRefs st' hit = pickedRefs st hit"
  unfolding pickedRefs_def assms ..

lemma restoredRefs_cong:
  assumes "generatedObject st' = generatedObject st"
    and "sceneGeneration st' = sceneGeneration st"
  shows "restoredRefs st' sel = restoredRefs st sel"
  unfolding restoredRefs_def assms ..

lemma entityRefs_cong:
  assumes "generatedObject st' = generatedObject st"
    and "sceneGeneration st' = sceneGeneration st"
    and "currentMode st' = currentMode st"
  shows "entityRefs st' op = entityRefs st op"
  using assms pickedRefs_cong [OF assms] restoredRefs_cong [OF assms(1,2)]
  by (simp add: entityRefs_def split: select_op.splits option.splits)

lemma selected_from_effect:
  assumes "effectOf st1 rs st'"
    and "materialColor st1 = materialColor (clearHighlights st)"
    and "highlightedObjects st1 = []"
    and "generatedObject st1 = generatedObject st"
    and "sceneGeneration st1 = sceneGeneration st"
    and "currentMode st1 = currentMode st"
  shows "selected st rs st'"
  using assms by (simp add: effectOf_def selected_def cong: if_cong)

lemma onCanvasClick_selected:
  "selected st (entityRefs st (Pick hit)) (onCanvasClick eng hit st)"
proof -
  define st1 where
    "st1 = (clearHighlights st)\<lparr>angleVisualizationGroup := [], currentSelectionDetails := None\<rparr>"
  have f: "materialColor st1 = materialColor (clearHighlights st)"
    "highlightedObjects st1 = []"
    "generatedObject st1 = generatedObject st"
    "sceneGeneration st1 = sceneGeneration st"
    "currentMode st1 = currentMode st"
    using clearHighlights_frame [of st] by (simp_all add: st1_def)
  have "effectOf st1 [] st1"
    by (rule effectOf_nothing) simp_all
  then have idle: "selected st [] st1"
    using f by (rule selected_from_effect)
  show ?thesis
  proof (cases "generatedObject st")
    case None
    then have a: "onCanvasClick eng hit st = st1"
      using f by (simp add: onCanvasClick_def Let_def st1_def)
    have b: "entityRefs st (Pick hit) = []"
      using None by (simp add: entityRefs_def pickedRefs_def split: option.splits)
    show ?thesis unfolding a b by (rule idle)
  next
    case (Some model)
    show ?thesis
    proof (cases hit)
      case None
      then have a: "onCanvasClick eng hit st = st1"
        using f Some by (simp add: onCanvasClick_def Let_def st1_def)
      have b: "entityRefs st (Pick hit) = []"
        using None by (simp add: entityRefs_def)
      show ?thesis unfolding a b by (rule idle)
    next
      case (Some p)
      then have c: "onCanvasClick eng hit st = handleHighlight eng p st1"
        using f \<open>generatedObject st = Some model\<close>
        by (simp add: onCanvasClick_def Let_def st1_def)
      have r: "entityRefs st (Pick hit) = pickedRefs st1 p"
        using Some pickedRefs_cong [OF f(3) f(4) f(5)] by (simp add: entityRefs_def)
      show ?thesis
        unfolding c r using handleHighlight_effect [of st1 p eng] f
        by (rule selected_from_effect)
    qed
  qed
qed

lemma fold_atom_effect:
  assumes "materialColor st0 = materialColor st"
    and "highlightedObjects st0 = highlightedObjects st"
    and "generatedObject st0 = generatedObject st"
    and "sceneGeneration st0 = sceneGeneration st"
    and "currentMode st0 = currentMode st"
  shows "effectOf st rs (fold (\<lambda>r s. drawBondAngles eng model d (highlightMesh r s)) rs st0)"
proof -
  let ?G = "\<lambda>r s. drawBondAngles eng model d s"
  have c: "materialColor (fold (\<lambda>r s. ?G r (highlightMesh r s)) rs st0) x =
             (if x \<in> set rs then highlightColor else materialColor st0 x)" for x
    by (rule fold_highlight_color) (simp add: drawBondAngles_frame)
  have l: "distinct rs \<Longrightarrow>
           highlightedObjects (fold (\<lambda>r s. ?G r (highlightMesh r s)) rs st0) =
             highlightedObjects st0 @ map (\<lambda>r. (r, materialColor st0 r)) rs"
    by (rule fold_highlight_list) (simp_all add: drawBondAngles_frame)
  have fr: "generatedObject (fold (\<lambda>r s. ?G r (highlightMesh r s)) rs s0) = generatedObject s0 \<and>
            sceneGeneration (fold (\<lambda>r s. ?G r (highlightMesh r s)) rs s0) = sceneGeneration s0 \<and>
            currentMode (fold (\<lambda>r s. ?G r (highlightMesh r s)) rs s0) = currentMode s0" for s0
    by (induction rs arbitrary: s0) (simp_all add: drawBondAngles_frame highlightMesh_def)
  show ?thesis
    using c l fr [of st0] assms by (simp add: effectOf_def fun_eq_iff)
qed

lemma reHighlightSelection_selected:
  assumes "generatedObject st = Some model"
  shows "selected st (entityRefs st (Restore sel)) (reHighlightSelection eng (Some sel) st)"
proof -
  define st1 where
    "st1 = (clearHighlights st)\<lparr>angleVisualizationGroup := [], currentSelectionDetails := Some sel\<rparr>"
  have f: "materialColor st1 = materialColor (clearHighlights st)"
    "highlightedObjects st1 = []"
    "generatedObject st1 = generatedObject st"
    "sceneGeneration st1 = sceneGeneration st"
    "currentMode st1 = currentMode st"
    using clearHighlights_frame [of st] by (simp_all add: st1_def)
  have same: "materialColor st1 = materialColor st1" "highlightedObjects st1 = highlightedObjects st1"
    "generatedObject st1 = generatedObject st1" "sceneGeneration st1 = sceneGeneration st1"
    "currentMode st1 = currentMode st1"
    by simp_all
  show ?thesis
  proof (cases sel)
    case (geometry_face fid d)
    then have c: "reHighlightSelection eng (Some sel) st =
                    highlightAll (faceMeshRefs (sceneGeneration st) model fid) st1"
      using assms by (simp add: reHighlightSelection_def Let_def st1_def)
    have r: "entityRefs st (Restore sel) = faceMeshRefs (sceneGeneration st) model fid"
      using assms geometry_face by (simp add: entityRefs_def restoredRefs_def)
    show ?thesis unfolding c r
      using effectOf_highlightAll [OF same] f by (rule selected_from_effect)
  next
    case (chemistry_atom idx d)
    then have c: "reHighlightSelection eng (Some sel) st =
                    fold (\<lambda>r s. drawBondAngles eng model d (highlightMesh r s))
                      (atomMeshRefs (sceneGeneration st) model idx) st1"
      using assms by (simp add: reHighlightSelection_def Let_def st1_def)
    have r: "entityRefs st (Restore sel) = atomMeshRefs (sceneGeneration st) model idx"
      using assms chemistry_atom by (simp add: entityRefs_def restoredRefs_def)
    show ?thesis unfolding c r
      using fold_atom_effect [OF same] f by (rule selected_from_effect)
  next
    case (chemistry_bond s e d)
    then have c: "reHighlightSelection eng (Some sel) st =
                    highlightAll (bondMeshRefs (sceneGeneration st) model s e) st1"
      using assms by (simp add: reHighlightSelection_def Let_def st1_def)
    have r: "entityRefs st (Restore sel) = bondMeshRefs (sceneGeneration st) model s e"
      using assms chemistry_bond by (simp add: entityRefs_def restoredRefs_def)
    show ?thesis unfolding c r
      using effectOf_highlightAll [OF same] f by (rule selected_from_effect)
  qed
qed

lemma select_selected:
  assumes "generatedObject st = Some model"
  shows "selected st (entityRefs st op) (select eng op st)"
proof (cases op)
  case (Pick hit)
  then show ?thesis using onCanvasClick_selected [of st hit eng] by (simp add: select_def)
next
  case (Restore sel)
  then show ?thesis using reHighlightSelection_selected [OF assms, of sel eng] by (simp add: select_def)
qed

lemma selected_base:
  assumes "selected st rs st'" and "distinct rs"
  shows "materialColor (clearHighlights st') = materialColor (clearHighlights st)"
proof -
  let ?b = "materialColor (clearHighlights st)"
  from assms have c: "materialColor st' = (\<lambda>x. if x \<in> set rs then highlightColor else ?b x)"
    and l: "highlightedObjects st' = map (\<lambda>r. (r, ?b r)) rs"
    by (simp_all add: selected_def)
  show ?thesis
  proof (cases "rs = []")
    case True
    then show ?thesis using c l by (simp add: clearHighlights_def)
  next
    case False
    then have "materialColor (clearHighlights st') =
                 restoreColors (map (\<lambda>r. (r, ?b r)) rs) (materialColor st')"
      using l by (simp add: clearHighlights_def)
    also have "\<dots> = (\<lambda>x. if x \<in> set rs then ?b x else materialColor st' x)"
      by (rule restoreColors_recorded)
    also have "\<dots> = ?b" unfolding c by auto
    finally show ?thesis .
  qed
qed

lemma prefix_snoc_same:
  assumes "prefix (p @ [i]) q" and "prefix (p @ [j]) q"
  shows "i = j"
proof -
  from assms obtain r r' where "q = (p @ [i]) @ r" and "q = (p @ [j]) @ r'"
    by (auto simp: prefix_def)
  then show ?thesis by simp
qed

lemma prefix_snoc_self: "\<not> prefix (p @ [i]) p"
  by (auto simp: prefix_def)

lemma prefix_snoc_weaken: "prefix (p @ [i]) q \<Longrightarrow> prefix p q"
  by (auto simp: prefix_def)

lemma traverse_prefix:
  "e \<in> set (traverse p t) \<Longrightarrow> prefix p (fst e)"
  "e \<in> set (traverseChildren p i cs) \<Longrightarrow> \<exists>j\<ge>i. prefix (p @ [j]) (fst e)"
proof (induction p t and p i cs arbitrary: e and e rule: traverse_traverseChildren.induct)
  case (3 p g cs)
  from 3(2) consider "e = (p, Group g cs)" | "e \<in> set (traverseChildren p 0 cs)"
    by auto
  then show ?case
  proof cases
    case 1
    then show ?thesis by simp
  next
    case 2
    then obtain j where "prefix (p @ [j]) (fst e)" using 3(1) by blast
    then show ?thesis by (rule prefix_snoc_weaken)
  qed
next
  case (5 p i c cs)
  from 5(3) consider "e \<in> set (traverse (p @ [i]) c)" | "e \<in> set (traverseChildren p (Suc i) cs)"
    by auto
  then show ?case
  proof cases
    case 1
    then have "prefix (p @ [i]) (fst e)" by (rule 5(1))
    then show ?thesis by (intro exI [of _ i]) simp
  next
    case 2
    then obtain j where "Suc i \<le> j" "prefix (p @ [j]) (fst e)" using 5(2) by blast
    then show ?thesis by (intro exI [of _ j]) simp
  qed
qed simp_all

lemma traverse_distinct:
  "distinct (map fst (traverse p t))"
  "distinct (map fst (traverseChildren p i cs))"
proof (induction p t and p i cs rule: traverse_traverseChildren.induct)
  case (3 p g cs)
  have "p \<notin> fst ` set (traverseChildren p 0 cs)"
  proof
    assume "p \<in> fst ` set (traverseChildren p 0 cs)"
    then obtain e where "e \<in> set (traverseChildren p 0 cs)" "fst e = p" by auto
    then show False using traverse_prefix(2) [of e p 0 cs] prefix_snoc_self by auto
  qed
  then show ?case using 3 by simp
next
  case (5 p i c cs)
  have "fst ` set (traverse (p @ [i]) c) \<inter> fst ` set (traverseChildren p (Suc i) cs) = {}"
  proof (rule ccontr)
    assume "\<not> ?thesis"
    then obtain e e' where e: "e \<in> set (traverse (p @ [i]) c)"
      and e': "e' \<in> set (traverseChildren p (Suc i) cs)" and eq: "fst e = fst e'"
      by auto
    from e have "prefix (p @ [i]) (fst e)" by (rule traverse_prefix(1))
    moreover from e' obtain j where "Suc i \<le> j" "prefix (p @ [j]) (fst e')"
      using traverse_prefix(2) by blast
    ultimately show False using eq prefix_snoc_same [of p i "fst e" j] by simp
  qed
  then show ?case using 5 by simp
qed simp_all

lemma distinct_refs_of_filter:
  assumes "distinct (map fst xs)"
  shows "distinct (map (\<lambda>e. (gen, fst e)) (filter P xs))"
proof -
  have "distinct (map fst (filter P xs))" using assms by (rule distinct_map_filter)
  moreover have "map (\<lambda>e. (gen, fst e)) (filter P xs) = map (Pair gen) (map fst (filter P xs))"
    by simp
  ultimately show ?thesis by (simp only: distinct_map) (auto simp: inj_on_def distinct_map)
qed

lemma meshRefsUnder_distinct: "distinct (meshRefsUnder gen p obj)"
  unfolding meshRefsUnder_def by (rule distinct_refs_of_filter) (rule traverse_distinct)

lemma atomMeshRefs_distinct: "distinct (atomMeshRefs gen model idx)"
  unfolding atomMeshRefs_def by (rule distinct_refs_of_filter) (rule traverse_distinct)

lemma faceMeshRefs_distinct: "distinct (faceMeshRefs gen model fid)"
proof -
  have d: "distinct (map fst (filter (\<lambda>e. hasFaceId fid (snd e)) (enumerate 0 (children model))))"
    by (rule distinct_map_filter) simp
  have "faceMeshRefs gen model fid =
          map (\<lambda>i. (gen, [i])) (map fst (filter (\<lambda>e. hasFaceId fid (snd e)) (enumerate 0 (children model))))"
    by (simp add: faceMeshRefs_def)
  then show ?thesis using d by (simp only: distinct_map) (auto simp: inj_on_def)
qed

lemma pickedRefs_distinct: "distinct (pickedRefs st hit)"
  by (simp add: pickedRefs_def faceMeshRefs_distinct meshRefsUnder_distinct
        split: option.splits obj3d.splits mode.splits details.splits)

lemma bondRefsIn_simps:
  "bondRefsIn gen s e [] = []"
  "bondRefsIn gen s e (x # xs) =
     (if isBondGroup s e (snd x) then meshRefsUnder gen (fst x) (snd x) else []) @
     bondRefsIn gen s e xs"
  "bondRefsIn gen s e (xs @ ys) = bondRefsIn gen s e xs @ bondRefsIn gen s e ys"
  by (simp_all add: bondRefsIn_def)

lemma bondMeshRefs_alt: "bondMeshRefs gen model s e = bondRefsIn gen s e (traverse [] model)"
  by (simp add: bondMeshRefs_def bondRefsIn_def)

lemma isBondGroup_hasBondTag: "isBondGroup s e t \<Longrightarrow> hasBondTag t"
  by (cases t) (auto split: option.splits details.splits)

lemma bondFree_no_refs:
  "bondFree t \<Longrightarrow> bondRefsIn gen s e (traverse p t) = []"
  "bondFreeAll cs \<Longrightarrow> bondRefsIn gen s e (traverseChildren p i cs) = []"
proof (induction p t and p i cs rule: traverse_traverseChildren.induct)
  case (3 p g cs)
  then have "\<not> isBondGroup s e (Group g cs)"
    using isBondGroup_hasBondTag [of s e "Group g cs"] by auto
  then show ?case using 3 by (simp add: bondRefsIn_simps del: isBondGroup.simps)
qed (simp_all add: bondRefsIn_simps)

lemma meshRefsUnder_prefix:
  assumes "r \<in> set (meshRefsUnder gen p t)"
  shows "prefix p (snd r)"
proof -
  from assms obtain e where "e \<in> set (traverse p t)" and "r = (gen, fst e)"
    by (auto simp: meshRefsUnder_def)
  then show ?thesis using traverse_prefix(1) [of e p t] by simp
qed

lemma bondRefsIn_prefix:
  "r \<in> set (bondRefsIn gen s e (traverse p t)) \<Longrightarrow> prefix p (snd r)"
  "r \<in> set (bondRefsIn gen s e (traverseChildren p i cs)) \<Longrightarrow> \<exists>j\<ge>i. prefix (p @ [j]) (snd r)"
proof (induction p t and p i cs arbitrary: r and r rule: traverse_traverseChildren.induct)
  case (3 p g cs)
  from 3(2) consider "r \<in> set (meshRefsUnder gen p (Group g cs))"
    | "r \<in> set (bondRefsIn gen s e (traverseChildren p 0 cs))"
    by (auto simp: bondRefsIn_simps split: if_splits simp del: isBondGroup.simps)
  then show ?case
  proof cases
    case 1
    then show ?thesis by (rule meshRefsUnder_prefix)
  next
    case 2
    then obtain j where "prefix (p @ [j]) (snd r)" using 3(1) by blast
    then show ?thesis by (rule prefix_snoc_weaken)
  qed
next
  case (5 p i c cs)
  from 5(3) consider "r \<in> set (bondRefsIn gen s e (traverse (p @ [i]) c))"
    | "r \<in> set (bondRefsIn gen s e (traverseChildren p (Suc i) cs))"
    by (auto simp: bondRefsIn_simps)
  then show ?case
  proof cases
    case 1
    then have "prefix (p @ [i]) (snd r)" by (rule 5(1))
    then show ?thesis by (intro exI [of _ i]) simp
  next
    case 2
    then obtain j where "Suc i \<le> j" "prefix (p @ [j]) (snd r)" using 5(2) by blast
    then show ?thesis by (intro exI [of _ j]) simp
  qed
qed (simp_all add: bondRefsIn_simps)

lemma bondRefsIn_distinct:
  "bondsNotNested t \<Longrightarrow> distinct (bondRefsIn gen s e (traverse p t))"
  "bondsNotNestedAll cs \<Longrightarrow> distinct (bondRefsIn gen s e (traverseChildren p i cs))"
proof (induction p t and p i cs rule: traverse_traverseChildren.induct)
  case (3 p g cs)
  show ?case
  proof (cases "hasBondTag (Group g cs)")
    case True
    then have "bondFreeAll cs" using 3(2) by simp
    then have "bondRefsIn gen s e (traverseChildren p 0 cs) = []"
      by (rule bondFree_no_refs(2))
    then show ?thesis
      by (simp add: bondRefsIn_simps meshRefsUnder_distinct del: isBondGroup.simps)
  next
    case False
    then have n: "\<not> isBondGroup s e (Group g cs)"
      using isBondGroup_hasBondTag [of s e "Group g cs"] by blast
    from False 3(2) have "bondsNotNestedAll cs" by simp
    then have "distinct (bondRefsIn gen s e (traverseChildren p 0 cs))" by (rule 3(1))
    then show ?thesis using n by (simp add: bondRefsIn_simps del: isBondGroup.simps)
  qed
next
  case (5 p i c cs)
  from 5(3) have c: "bondsNotNested c" and cs: "bondsNotNestedAll cs" by simp_all
  have "set (bondRefsIn gen s e (traverse (p @ [i]) c)) \<inter>
        set (bondRefsIn gen s e (traverseChildren p (Suc i) cs)) = {}"
  proof (rule ccontr)
    assume "\<not> ?thesis"
    then obtain r where r: "r \<in> set (bondRefsIn gen s e (traverse (p @ [i]) c))"
      and r': "r \<in> set (bondRefsIn gen s e (traverseChildren p (Suc i) cs))"
      by auto
    from r have "prefix (p @ [i]) (snd r)" by (rule bondRefsIn_prefix(1))
    moreover from r' obtain j where "Suc i \<le> j" "prefix (p @ [j]) (snd r)"
      using bondRefsIn_prefix(2) by blast
    ultimately show False using prefix_snoc_same [of p i "snd r" j] by simp
  qed
  then show ?case using 5(1) [OF c] 5(2) [OF cs] by (simp add: bondRefsIn_simps)
qed (simp_all add: bondRefsIn_simps)

lemma bondMeshRefs_distinct:
  "bondsNotNested model \<Longrightarrow> distinct (bondMeshRefs gen model s e)"
  unfolding bondMeshRefs_alt by (rule bondRefsIn_distinct(1))

lemma restoredRefs_distinct:
  assumes "generatedObject st = Some model" and "bondsNotNested model"
  shows "distinct (restoredRefs st sel)"
  using assms
  by (cases sel)
     (simp_all add: restoredRefs_def faceMeshRefs_distinct atomMeshRefs_distinct bondMeshRefs_distinct)

lemma entityRefs_distinct:
  assumes "generatedObject st = Some model" and "bondsNotNested model"
  shows "distinct (entityRefs st op)"
  using restoredRefs_distinct [OF assms] pickedRefs_distinct
  by (simp add: entityRefs_def split: select_op.splits option.splits)

lemma successive_selects_flat:
  assumes model: "generatedObject st = Some model" and flat: "bondsNotNested model"
  shows "map fst (highlightedObjects (select eng op2 (select eng op1 st))) = entityRefs st op2 \<and>
         map snd (highlightedObjects (select eng op2 (select eng op1 st))) =
           map (materialColor (clearHighlights st)) (entityRefs st op2) \<and>
         (\<forall>r. materialColor (select eng op2 (select eng op1 st)) r =
                (if r \<in> set (entityRefs st op2) then highlightColor
                 else materialColor (clearHighlights st) r)) \<and>
         (\<forall>h \<in> set (highlightedObjects (select eng op1 st)).
            fst h \<notin> set (entityRefs st op2) \<longrightarrow>
            materialColor (select eng op2 (select eng op1 st)) (fst h) = snd h) \<and>
         map fst (highlightedObjects (select eng op1 st)) = entityRefs st op1 \<and>
         generatedObject (select eng op2 (select eng op1 st)) = Some model"
proof -
  let ?st1 = "select eng op1 st"
  let ?st2 = "select eng op2 ?st1"
  let ?b = "materialColor (clearHighlights st)"
  have s1: "selected st (entityRefs st op1) ?st1" using model by (rule select_selected)
  have d1: "distinct (entityRefs st op1)" using model flat by (rule entityRefs_distinct)
  have d2: "distinct (entityRefs st op2)" using model flat by (rule entityRefs_distinct)
  from s1 d1 have l1: "highlightedObjects ?st1 = map (\<lambda>r. (r, ?b r)) (entityRefs st op1)"
    and f1: "generatedObject ?st1 = generatedObject st" "sceneGeneration ?st1 = sceneGeneration st"
      "currentMode ?st1 = currentMode st"
    by (simp_all add: selected_def)
  have model1: "generatedObject ?st1 = Some model" using f1 model by simp
  have e2: "entityRefs ?st1 op2 = entityRefs st op2" using f1 by (rule entityRefs_cong)
  have b1: "materialColor (clearHighlights ?st1) = ?b" using s1 d1 by (rule selected_base)
  have s2: "selected ?st1 (entityRefs st op2) ?st2"
    using select_selected [OF model1, of op2 eng] unfolding e2 .
  from s2 d2 have l2: "highlightedObjects ?st2 = map (\<lambda>r. (r, ?b r)) (entityRefs st op2)"
    and c2: "materialColor ?st2 =
               (\<lambda>x. if x \<in> set (entityRefs st op2) then highlightColor else ?b x)"
    and g2: "generatedObject ?st2 = generatedObject ?st1"
    unfolding selected_def b1 by simp_all
  have a: "map fst (highlightedObjects ?st2) = entityRefs st op2"
    unfolding l2 by (simp add: comp_def)
  have b: "map snd (highlightedObjects ?st2) = map ?b (entityRefs st op2)"
    unfolding l2 by (simp add: comp_def)
  have c: "\<forall>r. materialColor ?st2 r =
                (if r \<in> set (entityRefs st op2) then highlightColor else ?b r)"
    unfolding c2 by simp
  have d: "\<forall>h \<in> set (highlightedObjects ?st1).
            fst h \<notin> set (entityRefs st op2) \<longrightarrow> materialColor ?st2 (fst h) = snd h"
    unfolding l1 c2 by auto
  have e: "map fst (highlightedObjects ?st1) = entityRefs st op1"
    unfolding l1 by (simp add: comp_def)
  have f: "generatedObject ?st2 = Some model" using g2 model1 by simp
  from a b c d e f show ?thesis by (intro conjI)
qed

lemma hasBondTag_scaleSprites: "hasBondTag (scaleSprites k t) = hasBondTag t"
  by (cases t) simp_all

lemma bondFree_scaleSprites:
  "bondFree (scaleSprites k t) = bondFree t"
  "bondFreeAll (map (scaleSprites k) cs) = bondFreeAll cs"
  by (induction t and cs rule: bondFree_bondFreeAll.induct) simp_all

lemma bondsNotNested_scaleSprites:
  "bondsNotNested (scaleSprites k t) = bondsNotNested t"
  "bondsNotNestedAll (map (scaleSprites k) cs) = bondsNotNestedAll cs"
  by (induction t and cs rule: bondsNotNested_bondsNotNestedAll.induct)
     (simp_all add: bondFree_scaleSprites)

lemma bondsNotNested_positionSubtract:
  "bondsNotNested (positionSubtract c t) = bondsNotNested t"
  by (cases t) simp_all

lemma bondsNotNestedAll_append:
  "bondsNotNestedAll (xs @ ys) = (bondsNotNestedAll xs \<and> bondsNotNestedAll ys)"
  by (induction xs) simp_all

lemma bondsNotNestedAll_Mesh: "bondsNotNestedAll (map Mesh ms)"
  by (induction ms) simp_all

lemma bondsNotNestedAll_Sprite: "bondsNotNestedAll (map Sprite ss)"
  by (induction ss) simp_all

lemma bondFreeAll_cylinders:
  assumes "group_details g = None"
  shows "bondFreeAll (map (\<lambda>c. Group g [Mesh c]) cs)"
  using assms by (induction cs) simp_all

lemma bondsNotNested_createBond: "bondsNotNested (createBond b s e n)"
  by (simp add: createBond_def Let_def emptyGroup_def bondFreeAll_cylinders)

lemma bondsNotNested_createAtom: "bondsNotNested (createAtom eng a p i)"
  by (simp add: createAtom_def Let_def emptyGroup_def split: option.splits)

lemma bondsNotNestedAll_atomGroups_gen:
  "bondsNotNestedAll (map (\<lambda>(index, a). createAtom eng a (scaledPosition a) index) xs)"
  by (induction xs) (simp_all add: bondsNotNested_createAtom split: prod.splits)

lemma bondsNotNestedAll_bondGroups:
  "bondsNotNestedAll (List.map_filter (bondGroupOf as) bs)"
  by (induction bs)
     (simp_all add: List.map_filter_simps bondGroupOf_def Let_def bondsNotNested_createBond
        split: option.splits)

lemma bondsNotNested_chemistryGroup: "bondsNotNested (chemistryGroup eng as bs)"
  by (simp add: chemistryGroup_def chemistryChildren_def emptyGroup_def atomGroups_def
        bondsNotNestedAll_append bondsNotNestedAll_atomGroups_gen bondsNotNestedAll_bondGroups
        split: option.splits)

lemma bondsNotNested_geometryGroup: "bondsNotNested (geometryGroup eng vs fs ls)"
  by (simp add: geometryGroup_def geometryChildren_def emptyGroup_def
        bondsNotNestedAll_append bondsNotNestedAll_Mesh bondsNotNestedAll_Sprite)

lemma built_bondsNotNested:
  assumes "buildModel eng m data = Inr g"
  shows "bondsNotNested (positionSubtract c g)"
proof (cases m)
  case GeometryMode
  then have b: "buildGeometryModel eng data = Inr g" using assms by (simp add: buildModel_def)
  then obtain vs fs where v: "vertices data = Some vs" "vs \<noteq> []"
    and f: "faces data = Some fs" "fs \<noteq> []"
    by (auto simp: buildGeometryModel_def split: option.splits if_splits)
  from buildGeometryModel_result [OF v f, of eng] b
  have "g = Group emptyGroup
             (map Mesh (buildFaceMeshes vs fs) @
              map Sprite
                (case geometryLabelScale (boxSize eng (geometryGroup eng vs fs (labels data))) of
                   None \<Rightarrow> geometryLabels eng (labels data)
                 | Some k \<Rightarrow> map (multiplySpriteScale k) (geometryLabels eng (labels data))))"
    by (simp split: if_splits)
  then show ?thesis
    by (simp add: emptyGroup_def bondsNotNestedAll_append bondsNotNestedAll_Mesh
          bondsNotNestedAll_Sprite)
next
  case ChemistryMode
  then have b: "buildChemistryModel eng data = Inr g" using assms by (simp add: buildModel_def)
  then obtain as where a: "atoms data = Some as" "as \<noteq> []"
    by (auto simp: buildChemistryModel_def split: option.splits if_splits)
  from buildChemistryModel_result [OF a, of eng] b
  have "g = (case chemistryLabelScale (boxSize eng (chemistryGroup eng as (bonds data))) of
            None \<Rightarrow> chemistryGroup eng as (bonds data)
          | Some k \<Rightarrow> scaleSprites k (chemistryGroup eng as (bonds data)))"
    by simp
  then show ?thesis
    by (simp add: bondsNotNested_positionSubtract bondsNotNested_scaleSprites
          bondsNotNested_chemistryGroup del: scaleSprites.simps split: option.splits)
qed

text \<open>
  C3. In a state whose model is one the builders made, put into the scene,
  let two select operations follow one another, each a click or the restoring
  of a stored selection. After the second, the highlighted meshes are exactly
  the meshes of the entity the second operation resolves, each remembered
  with the colour it had before anything was highlighted; every mesh outside
  that entity has that colour again, in particular every mesh the first
  operation highlighted and the second did not, whose colour is the one the
  first operation remembered; and after the first operation the highlighted
  meshes were exactly those of the first entity. The scene is the same
  throughout.
\<close>

theorem successive_selects:
  assumes built: "buildModel eng0 m data = Inr g"
    and model: "generatedObject st = Some (positionSubtract c g)"
  shows "map fst (highlightedObjects (select eng op2 (select eng op1 st))) = entityRefs st op2 \<and>
         map snd (highlightedObjects (select eng op2 (select eng op1 st))) =
           map (materialColor (clearHighlights st)) (entityRefs st op2) \<and>
         (\<forall>r. materialColor (select eng op2 (select eng op1 st)) r =
                (if r \<in> set (entityRefs st op2) then highlightColor
                 else materialColor (clearHighlights st) r)) \<and>
         (\<forall>h \<in> set (highlightedObjects (select eng op1 st)).
            fst h \<notin> set (entityRefs st op2) \<longrightarrow>
            materialColor (select eng op2 (select eng op1 st)) (fst h) = snd h) \<and>
         map fst (highlightedObjects (select eng op1 st)) = entityRefs st op1 \<and>
         generatedObject (select eng op2 (select eng op1 st)) = Some (positionSubtract c g)"
proof -
  have "bondsNotNested (positionSubtract c g)" using built by (rule built_bondsNotNested)
  with model show ?thesis by (rule successive_selects_flat)
qed

lemma isBlank_molecule: "\<not> isBlank ''molecule''"
  by (simp add: isBlank_def)

lemma exampleMolecule_built:
  "buildChemistryModel exampleEngine exampleMolecule =
     Inr (scaleSprites (4 / 30) (chemistryGroup exampleEngine exampleAtoms (bonds exampleMolecule)))"
proof -
  have a: "atoms exampleMolecule = Some exampleAtoms" "exampleAtoms \<noteq> []"
    by (simp_all add: exampleMolecule_def exampleAtoms_def)
  show ?thesis
    using buildChemistryModel_result [OF a, of exampleEngine]
    by (simp add: chemistryLabelScale_def exampleEngine_def del: scaleSprites.simps)
qed

lemmas scene_defs = exampleScene_def chemistryGroup_def chemistryChildren_def atomGroups_def
  exampleAtoms_def exampleMolecule_def bondGroupOf_def List.map_filter_simps Let_def
  createAtom_def createBond_def bondCylinders_def lower_single createLabelSprite_def
  exampleEngine_def emptyGroup_def createCylinder_def upper_O upper_H lookupOrDefault_def
  CPK_COLORS_def ATOM_RADII_def

lemma exampleScene_bond_refs: "bondMeshRefs gen exampleScene 0 1 = [(gen, [3, 0, 0])]"
  by (simp add: bondMeshRefs_def meshRefsUnder_def scene_defs)

lemma exampleScene_atom_refs: "atomMeshRefs gen exampleScene 0 = [(gen, [0, 0])]"
  by (simp add: atomMeshRefs_def scene_defs)

lemma exampleMoleculeState_fields:
  "generatedObject exampleMoleculeState = Some exampleScene"
  "sceneGeneration exampleMoleculeState = 1"
  "currentMode exampleMoleculeState = Some ChemistryMode"
  "highlightedObjects exampleMoleculeState = []"
  "materialColor exampleMoleculeState =
     (\<lambda>r. if fst r = 1 then
             (case lookup exampleScene (snd r) of Some (Mesh m) \<Rightarrow> color m | _ \<Rightarrow> 0)
           else 0)"
proof -
  have v: "isModelValid (scaleSprites (4 / 30)
             (chemistryGroup exampleEngine exampleAtoms (bonds exampleMolecule)))"
    by (simp add: chemistryGroup_def chemistryChildren_def atomGroups_def exampleAtoms_def)
  have st: "exampleMoleculeState =
     installModel exampleEngine
       (scaleSprites (4 / 30) (chemistryGroup exampleEngine exampleAtoms (bonds exampleMolecule)))
       (initialState\<lparr>currentMode := Some ChemistryMode,
                      selectedImage := Some (''data'', ''image/png''),
                      errorMessage := None, generatedObject := None,
                      generatedModelData := None, currentSelectionDetails := None,
                      angleVisualizationGroup := [],
                      generatedModelData := Some ''molecule''\<rparr>)"
    using v
    by (simp add: exampleMoleculeState_def handleGenerateClick_def isBlank_molecule Let_def
          buildModel_def exampleMolecule_built del: scaleSprites.simps)
  have c: "boxCenter exampleEngine obj = (1, 1, 0)" for obj by (simp add: exampleEngine_def)
  show "generatedObject exampleMoleculeState = Some exampleScene"
    unfolding st by (simp add: installModel_def Let_def c exampleScene_def del: scaleSprites.simps)
  show "sceneGeneration exampleMoleculeState = 1"
    unfolding st by (simp add: installModel_def Let_def initialState_def)
  show "currentMode exampleMoleculeState = Some ChemistryMode"
    unfolding st by (simp add: installModel_def Let_def)
  show "highlightedObjects exampleMoleculeState = []"
    unfolding st by (simp add: installModel_def Let_def initialState_def)
  show "materialColor exampleMoleculeState =
     (\<lambda>r. if fst r = 1 then
             (case lookup exampleScene (snd r) of Some (Mesh m) \<Rightarrow> color m | _ \<Rightarrow> 0)
           else 0)"
    unfolding st
    by (simp add: installModel_def Let_def c exampleScene_def initialState_def fun_eq_iff
          del: scaleSprites.simps split: option.splits obj3d.splits)
qed

lemma exampleMolecule_buildModel:
  "buildModel exampleEngine ChemistryMode exampleMolecule =
     Inr (scaleSprites (4 / 30) (chemistryGroup exampleEngine exampleAtoms (bonds exampleMolecule)))"
  by (simp add: buildModel_def exampleMolecule_built)

lemma exampleScene_bondsNotNested: "bondsNotNested exampleScene"
  unfolding exampleScene_def
  by (rule built_bondsNotNested [of exampleEngine ChemistryMode exampleMolecule])
     (simp add: buildModel_def exampleMolecule_built)

lemma exampleScene_lookup_atom:
  "\<exists>m. lookup exampleScene [0, 0] = Some (Mesh m) \<and> color m = 16711680 \<and>
       mesh_details m =
         Some (AtomDetails ''O''
                 (Some [\<lparr>angle = ''104.5'', atomsInvolved = [''H'', ''O'', ''H''],
                         atomsInvolvedIndices = [1, 0, 2]\<rparr>]) ''Bent'' 0)"
  by (simp add: scene_defs)

lemma exampleScene_walkUp_atom: "walkUp exampleScene [0, 0] = None"
  by (simp add: scene_defs)

lemma exampleScene_picked: "pickedRefs exampleMoleculeState [0, 0] = [(1, [0, 0])]"
  using exampleScene_lookup_atom
  by (auto simp: pickedRefs_def exampleMoleculeState_fields exampleScene_walkUp_atom
        simp del: walkUp.simps)

lemma exampleMoleculeState_clear: "clearHighlights exampleMoleculeState = exampleMoleculeState"
  by (simp add: clearHighlights_def exampleMoleculeState_fields)

text \<open>
  On the example molecule: a click on the oxygen atom and then the restoring
  of the bond between atoms 0 and 1. The cylinder of the bond is highlighted
  and the oxygen atom is red again.
\<close>

theorem successive_selects_witness:
  "map fst (highlightedObjects
      (select exampleEngine (Restore (chemistry_bond 0 1 (BondDetails ''O-H'' ''single'' ''463'' 0 1)))
         (select exampleEngine (Pick (Some [0, 0])) exampleMoleculeState))) = [(1, [3, 0, 0])] \<and>
   map fst (highlightedObjects
      (select exampleEngine (Pick (Some [0, 0])) exampleMoleculeState)) = [(1, [0, 0])] \<and>
   materialColor
      (select exampleEngine (Restore (chemistry_bond 0 1 (BondDetails ''O-H'' ''single'' ''463'' 0 1)))
         (select exampleEngine (Pick (Some [0, 0])) exampleMoleculeState)) (1, [0, 0]) = 16711680 \<and>
   materialColor
      (select exampleEngine (Restore (chemistry_bond 0 1 (BondDetails ''O-H'' ''single'' ''463'' 0 1)))
         (select exampleEngine (Pick (Some [0, 0])) exampleMoleculeState)) (1, [3, 0, 0]) =
     highlightColor"
proof -
  have r2: "entityRefs exampleMoleculeState
              (Restore (chemistry_bond 0 1 (BondDetails ''O-H'' ''single'' ''463'' 0 1))) =
            [(1, [3, 0, 0])]"
    by (simp add: entityRefs_def restoredRefs_def exampleMoleculeState_fields exampleScene_bond_refs)
  have r1: "entityRefs exampleMoleculeState (Pick (Some [0, 0])) = [(1, [0, 0])]"
    by (simp add: entityRefs_def exampleScene_picked)
  have b: "materialColor (clearHighlights exampleMoleculeState) (1, [0, 0]) = 16711680"
    using exampleScene_lookup_atom
    by (auto simp: exampleMoleculeState_clear exampleMoleculeState_fields)
  show ?thesis
    using successive_selects
      [OF exampleMolecule_buildModel exampleMoleculeState_fields(1) [unfolded exampleScene_def],
       of exampleEngine
          "Restore (chemistry_bond 0 1 (BondDetails ''O-H'' ''single'' ''463'' 0 1))"
          "Pick (Some [0, 0])"]
    unfolding r1 r2 using b by simp
qed

lemma lookup_scaleSprites:
  "lookup (scaleSprites k t) p = map_option (scaleSprites k) (lookup t p)"
proof (induction p arbitrary: t)
  case Nil
  then show ?case by simp
next
  case (Cons j p)
  then show ?case by (cases t) simp_all
qed

lemma lookup_positionSubtract_child:
  "lookup (positionSubtract c t) (j # p) = lookup t (j # p)"
  by (cases t) simp_all

lemma objectDetails_scaleSprites: "objectDetails (scaleSprites k t) = objectDetails t"
  by (cases t) simp_all

lemma objectDetails_positionSubtract: "objectDetails (positionSubtract c t) = objectDetails t"
  by (cases t) simp_all

lemma hasAtomIndex_scaleSprites: "hasAtomIndex idx (scaleSprites k n) = hasAtomIndex idx n"
  by (cases n) simp_all

lemma filter_map_snd:
  assumes "\<And>n. P (f n) = P n"
  shows "map fst (filter (\<lambda>e. P (snd e)) (map (\<lambda>e. (fst e, f (snd e))) xs)) =
         map fst (filter (\<lambda>e. P (snd e)) xs)"
  using assms by (induction xs) simp_all

lemma atom_paths_scaleSprites:
  "map fst (filter (\<lambda>e. hasAtomIndex idx (snd e)) (traverse p (scaleSprites k t))) =
   map fst (filter (\<lambda>e. hasAtomIndex idx (snd e)) (traverse p t))"
  unfolding traverse_scaleSprites
  by (rule filter_map_snd) (rule hasAtomIndex_scaleSprites)

lemma atom_paths_positionSubtract:
  "map fst (filter (\<lambda>e. hasAtomIndex idx (snd e)) (traverse p (positionSubtract c t))) =
   map fst (filter (\<lambda>e. hasAtomIndex idx (snd e)) (traverse p t))"
  by (cases t) simp_all

lemma bondCylinders_details: "c \<in> set (bondCylinders b s e) \<Longrightarrow> mesh_details c = None"
  by (auto simp: bondCylinders_def Let_def createCylinder_def positionAdd_def positionSub_def
        split: if_splits)

lemma no_atoms_in_cylinders:
  assumes "\<And>c. c \<in> set cs \<Longrightarrow> mesh_details c = None"
  shows "filter (\<lambda>e. hasAtomIndex idx (snd e))
           (traverseChildren p j (map (\<lambda>c. Group g [Mesh c]) cs)) = []"
  using assms by (induction cs arbitrary: j) simp_all

lemma no_atoms_in_createBond:
  "filter (\<lambda>e. hasAtomIndex idx (snd e)) (traverse p (createBond b s e n)) = []"
  by (simp add: createBond_def Let_def no_atoms_in_cylinders bondCylinders_details)

lemma no_atoms_in_bondGroupOf:
  assumes "bondGroupOf as b = Some grp"
  shows "filter (\<lambda>e. hasAtomIndex idx (snd e)) (traverse p grp) = []"
proof -
  from assms have "grp = createBond b (scaledPosition (as ! nat (bond_start b)))
                     (scaledPosition (as ! nat (bond_end b)))
                     (element (as ! nat (bond_start b)) @ ''-'' @ element (as ! nat (bond_end b)))"
    by (simp add: bondGroupOf_def Let_def split: if_splits)
  then show ?thesis by (simp only: no_atoms_in_createBond)
qed

lemma no_atoms_in_bondGroups:
  "filter (\<lambda>e. hasAtomIndex idx (snd e))
     (traverseChildren p j (List.map_filter (bondGroupOf as) bs)) = []"
proof (induction bs arbitrary: j)
  case Nil
  then show ?case by (simp add: List.map_filter_simps)
next
  case (Cons b bs)
  show ?case
  proof (cases "bondGroupOf as b")
    case None
    then show ?thesis using Cons by (simp add: List.map_filter_simps)
  next
    case (Some grp)
    then show ?thesis
      using Cons no_atoms_in_bondGroupOf [OF Some]
      by (simp add: List.map_filter_simps)
  qed
qed

lemma atom_paths_createAtom:
  "map fst (filter (\<lambda>e. hasAtomIndex idx (snd e)) (traverse p (createAtom eng a pos k))) =
     (if k = idx then [p @ [0]] else [])"
  by (simp add: createAtom_def Let_def split: option.splits)

lemma atom_paths_atomGroups:
  "map fst (filter (\<lambda>e. hasAtomIndex idx (snd e))
     (traverseChildren p k
        (map (\<lambda>(index, a). createAtom eng a (scaledPosition a) index) (enumerate k as)))) =
     (if k \<le> idx \<and> idx < k + length as then [p @ [idx, 0]] else [])"
proof (induction as arbitrary: k)
  case Nil
  then show ?case by simp
next
  case (Cons a as)
  have "map fst (filter (\<lambda>e. hasAtomIndex idx (snd e))
     (traverseChildren p k
        (map (\<lambda>(index, a). createAtom eng a (scaledPosition a) index) (enumerate k (a # as))))) =
     (if k = idx then [(p @ [k]) @ [0]] else []) @
     (if Suc k \<le> idx \<and> idx < Suc k + length as then [p @ [idx, 0]] else [])"
    using Cons [of "Suc k"] atom_paths_createAtom [of idx "p @ [k]" eng a "scaledPosition a" k]
    by simp
  then show ?case by auto
qed

lemma atom_paths_chemistryGroup:
  "map fst (filter (\<lambda>e. hasAtomIndex idx (snd e)) (traverse [] (chemistryGroup eng as bs))) =
     (if idx < length as then [[idx, 0]] else [])"
proof -
  have "traverse [] (chemistryGroup eng as bs) =
          ([], chemistryGroup eng as bs) #
          traverseChildren [] 0 (atomGroups eng as) @
          traverseChildren [] (length as)
            (case bs of None \<Rightarrow> [] | Some bs' \<Rightarrow> List.map_filter (bondGroupOf as) bs')"
    by (simp add: chemistryGroup_def chemistryChildren_def traverseChildren_append atomGroups_def)
  moreover have "\<not> hasAtomIndex idx (chemistryGroup eng as bs)"
    by (simp add: chemistryGroup_def)
  moreover have "filter (\<lambda>e. hasAtomIndex idx (snd e))
      (traverseChildren [] (length as)
         (case bs of None \<Rightarrow> [] | Some bs' \<Rightarrow> List.map_filter (bondGroupOf as) bs')) = []"
    by (cases bs) (simp_all add: no_atoms_in_bondGroups)
  ultimately show ?thesis
    using atom_paths_atomGroups [of idx "[]" 0 eng as] by (simp add: atomGroups_def)
qed

lemma built_chemistry_cases:
  assumes "buildChemistryModel eng data = Inr scene" and "atoms data = Some as"
  shows "scene = chemistryGroup eng as (bonds data) \<or>
         (\<exists>k. scene = scaleSprites k (chemistryGroup eng as (bonds data)))"
  using assms
  by (auto simp: buildChemistryModel_def Let_def split: if_splits option.splits)

lemma atomMeshRefs_built:
  assumes "buildChemistryModel eng data = Inr scene" and "atoms data = Some as"
  shows "atomMeshRefs gen (positionSubtract c scene) idx =
           (if idx < length as then [(gen, [idx, 0])] else [])"
proof -
  have "map fst (filter (\<lambda>e. hasAtomIndex idx (snd e)) (traverse [] (positionSubtract c scene))) =
        (if idx < length as then [[idx, 0]] else [])"
    using built_chemistry_cases [OF assms]
    by (auto simp only: atom_paths_positionSubtract atom_paths_scaleSprites
          atom_paths_chemistryGroup)
  moreover have "atomMeshRefs gen (positionSubtract c scene) idx =
      map (Pair gen)
        (map fst (filter (\<lambda>e. hasAtomIndex idx (snd e)) (traverse [] (positionSubtract c scene))))"
    by (simp add: atomMeshRefs_def)
  ultimately show ?thesis by simp
qed

lemma atomGroups_nth:
  assumes "i < length as"
  shows "(atomGroups eng as @ rest) ! i = createAtom eng (as ! i) (scaledPosition (as ! i)) i"
  using assms by (simp add: atomGroups_def nth_append nth_enumerate_eq)

lemma chemistryGroup_lookup:
  assumes "i < length as"
  shows "lookup (chemistryGroup eng as bs) (i # p) =
           lookup (createAtom eng (as ! i) (scaledPosition (as ! i)) i) p"
  using assms atomGroups_nth [OF assms]
  by (simp add: chemistryGroup_def chemistryChildren_def atomGroups_def)

lemma createAtom_shape:
  "\<exists>g m rest. createAtom eng a pos i = Group g (Mesh m # rest) \<and> group_details g = None \<and>
       mesh_details m = Some (AtomDetails (element a) (bondAngles a) (vseprShape a) i)"
  by (simp add: createAtom_def Let_def emptyGroup_def)

lemma atom_in_chemistryGroup:
  assumes "i < length as"
  shows "(\<exists>m. lookup (chemistryGroup eng as bs) [i, 0] = Some (Mesh m) \<and>
              mesh_details m =
                Some (AtomDetails (element (as ! i)) (bondAngles (as ! i)) (vseprShape (as ! i)) i)) \<and>
         (\<exists>obj. lookup (chemistryGroup eng as bs) [i] = Some obj \<and> objectDetails obj = None) \<and>
         objectDetails (chemistryGroup eng as bs) = None"
proof -
  obtain g m rest where c: "createAtom eng (as ! i) (scaledPosition (as ! i)) i = Group g (Mesh m # rest)"
    and g: "group_details g = None"
    and m: "mesh_details m =
              Some (AtomDetails (element (as ! i)) (bondAngles (as ! i)) (vseprShape (as ! i)) i)"
    using createAtom_shape [of eng "as ! i" "scaledPosition (as ! i)" i] by blast
  have "lookup (chemistryGroup eng as bs) [i, 0] = Some (Mesh m)"
    unfolding chemistryGroup_lookup [OF assms] c by simp
  moreover have "lookup (chemistryGroup eng as bs) [i] = Some (Group g (Mesh m # rest))"
    unfolding chemistryGroup_lookup [OF assms] c by simp
  moreover have "objectDetails (chemistryGroup eng as bs) = None"
    by (simp add: chemistryGroup_def emptyGroup_def)
  ultimately show ?thesis using g m by simp
qed

lemma theMesh_details_scaleSprites:
  "lookup t p = Some (Mesh m) \<Longrightarrow> lookup (scaleSprites k t) p = Some (Mesh m)"
  by (simp add: lookup_scaleSprites)

lemma atom_in_built:
  assumes built: "buildChemistryModel eng data = Inr scene" and atoms: "atoms data = Some as"
    and i: "i < length as"
  shows "(\<exists>m. lookup (positionSubtract c scene) [i, 0] = Some (Mesh m) \<and>
              mesh_details m =
                Some (AtomDetails (element (as ! i)) (bondAngles (as ! i)) (vseprShape (as ! i)) i)) \<and>
         (\<exists>obj. lookup (positionSubtract c scene) [i] = Some obj \<and> objectDetails obj = None) \<and>
         objectDetails (positionSubtract c scene) = None"
proof -
  note base = atom_in_chemistryGroup [OF i, of eng "bonds data"]
  from built_chemistry_cases [OF built atoms] show ?thesis
  proof
    assume "scene = chemistryGroup eng as (bonds data)"
    then show ?thesis
      using base by (simp only: lookup_positionSubtract_child objectDetails_positionSubtract)
  next
    assume "\<exists>k. scene = scaleSprites k (chemistryGroup eng as (bonds data))"
    then obtain k where s: "scene = scaleSprites k (chemistryGroup eng as (bonds data))" by blast
    from base obtain m obj where
      m: "lookup (chemistryGroup eng as (bonds data)) [i, 0] = Some (Mesh m)"
         "mesh_details m =
            Some (AtomDetails (element (as ! i)) (bondAngles (as ! i)) (vseprShape (as ! i)) i)"
      and o: "lookup (chemistryGroup eng as (bonds data)) [i] = Some obj" "objectDetails obj = None"
      and r: "objectDetails (chemistryGroup eng as (bonds data)) = None"
      by blast
    have "lookup (positionSubtract c scene) [i, 0] = Some (Mesh m)"
      unfolding s lookup_positionSubtract_child lookup_scaleSprites m by simp
    moreover have "lookup (positionSubtract c scene) [i] = Some (scaleSprites k obj)"
      unfolding s lookup_positionSubtract_child lookup_scaleSprites o by simp
    moreover have "objectDetails (scaleSprites k obj) = None"
      using o by (simp only: objectDetails_scaleSprites)
    moreover have "objectDetails (positionSubtract c scene) = None"
      unfolding s using r by (simp only: objectDetails_positionSubtract objectDetails_scaleSprites)
    ultimately show ?thesis using m(2) by simp
  qed
qed

lemma pick_atom_built:
  assumes built: "buildChemistryModel eng data = Inr scene" and atoms: "atoms data = Some as"
    and i: "i < length as"
    and st: "generatedObject st = Some (positionSubtract c scene)"
            "currentMode st = Some ChemistryMode"
  shows "handleHighlight eng' [i, 0] st =
     (if element (as ! i) \<noteq> [] then
        drawBondAngles eng' (positionSubtract c scene)
          (AtomDetails (element (as ! i)) (bondAngles (as ! i)) (vseprShape (as ! i)) i)
          (highlightMesh (sceneGeneration st, [i, 0])
             (st\<lparr>angleVisualizationGroup := [],
                 currentSelectionDetails :=
                   Some (chemistry_atom i
                     (AtomDetails (element (as ! i)) (bondAngles (as ! i))
                        (vseprShape (as ! i)) i))\<rparr>))
      else st\<lparr>angleVisualizationGroup := []\<rparr>)"
proof -
  from atom_in_built [OF built atoms i, of c] obtain m obj where
    m: "lookup (positionSubtract c scene) [i, 0] = Some (Mesh m)"
       "mesh_details m =
          Some (AtomDetails (element (as ! i)) (bondAngles (as ! i)) (vseprShape (as ! i)) i)"
    and o: "lookup (positionSubtract c scene) [i] = Some obj" "objectDetails obj = None"
    and r: "objectDetails (positionSubtract c scene) = None"
    by blast
  have w: "walkUp (positionSubtract c scene) (rev [i, 0]) = None"
    using m o r by simp
  show ?thesis
    unfolding handleHighlight_def Let_def st option.case m(1) obj3d.case w mode.case
    by (simp add: m(2))
qed

lemma highlightMesh_fields:
  "highlightedObjects (highlightMesh r st) = highlightedObjects st @ [(r, materialColor st r)]"
  "currentSelectionDetails (highlightMesh r st) = currentSelectionDetails st"
  by (simp_all add: highlightMesh_def)

lemma pickedRefs_built:
  assumes built: "buildChemistryModel eng data = Inr scene" and atoms: "atoms data = Some as"
    and i: "i < length as"
    and st: "generatedObject st = Some (positionSubtract c scene)"
            "currentMode st = Some ChemistryMode"
  shows "pickedRefs st [i, 0] =
           (if element (as ! i) \<noteq> [] then [(sceneGeneration st, [i, 0])] else [])"
proof -
  from atom_in_built [OF built atoms i, of c] obtain m obj where
    m: "lookup (positionSubtract c scene) [i, 0] = Some (Mesh m)"
       "mesh_details m =
          Some (AtomDetails (element (as ! i)) (bondAngles (as ! i)) (vseprShape (as ! i)) i)"
    and o: "lookup (positionSubtract c scene) [i] = Some obj" "objectDetails obj = None"
    and r: "objectDetails (positionSubtract c scene) = None"
    by blast
  have w: "walkUp (positionSubtract c scene) (rev [i, 0]) = None"
    using m o r by simp
  show ?thesis
    unfolding pickedRefs_def st option.case m(1) obj3d.case w mode.case
    by (simp add: m(2))
qed

lemma selected_single:
  assumes "selected st [r] st'"
  shows "highlightedObjects st' = [(r, materialColor (clearHighlights st) r)]"
    and "materialColor st' x =
           (if x = r then highlightColor else materialColor (clearHighlights st) x)"
  using assms by (simp_all add: selected_def)

text \<open>
  C1, as the code has it. Let a molecule description build, once into the
  model of a state in chemistry mode and once more, from the same description,
  into the model of another state (the engines and the centring may differ),
  and let atom \<open>i\<close> have an element that is not the empty string. A click on
  the mesh of that atom stores the selection \<^verbatim>\<open>chemistry_atom\<close> with the id
  \<open>i\<close> and the details of the atom. It remembers exactly the mesh at the path
  \<open>[i, 0]\<close> of the first model with the colour it had, paints that mesh in
  the highlight colour and leaves every other mesh in the colour it has when
  nothing is highlighted. Restoring the stored selection in the other state
  does the same to the mesh at the same path of the second model and to no
  other mesh, and the selection it keeps is the stored one. The match is made
  on the atom index the selection stores: the two meshes are objects of
  different generations.
\<close>

theorem atom_selection_restored:
  assumes atoms: "atoms data = Some as" and i: "i < length as"
    and named: "element (as ! i) \<noteq> []"
    and builtA: "buildChemistryModel engA data = Inr sceneA"
    and builtB: "buildChemistryModel engB data = Inr sceneB"
    and stA: "generatedObject stA = Some (positionSubtract cA sceneA)"
             "currentMode stA = Some ChemistryMode"
    and stB: "generatedObject stB = Some (positionSubtract cB sceneB)"
  shows "currentSelectionDetails (onCanvasClick eng (Some [i, 0]) stA) =
           Some (chemistry_atom i
                  (AtomDetails (element (as ! i)) (bondAngles (as ! i)) (vseprShape (as ! i)) i)) \<and>
         highlightedObjects (onCanvasClick eng (Some [i, 0]) stA) =
           [((sceneGeneration stA, [i, 0]),
             materialColor (clearHighlights stA) (sceneGeneration stA, [i, 0]))] \<and>
         (\<forall>r. materialColor (onCanvasClick eng (Some [i, 0]) stA) r =
                (if r = (sceneGeneration stA, [i, 0]) then highlightColor
                 else materialColor (clearHighlights stA) r)) \<and>
         highlightedObjects
           (reHighlightSelection eng'
              (currentSelectionDetails (onCanvasClick eng (Some [i, 0]) stA)) stB) =
           [((sceneGeneration stB, [i, 0]),
             materialColor (clearHighlights stB) (sceneGeneration stB, [i, 0]))] \<and>
         (\<forall>r. materialColor
                (reHighlightSelection eng'
                   (currentSelectionDetails (onCanvasClick eng (Some [i, 0]) stA)) stB) r =
                (if r = (sceneGeneration stB, [i, 0]) then highlightColor
                 else materialColor (clearHighlights stB) r)) \<and>
         currentSelectionDetails
           (reHighlightSelection eng'
              (currentSelectionDetails (onCanvasClick eng (Some [i, 0]) stA)) stB) =
           currentSelectionDetails (onCanvasClick eng (Some [i, 0]) stA)"
proof -
  let ?d = "AtomDetails (element (as ! i)) (bondAngles (as ! i)) (vseprShape (as ! i)) i"
  define a1 where
    "a1 = (clearHighlights stA)\<lparr>angleVisualizationGroup := [], currentSelectionDetails := None\<rparr>"
  have fa: "highlightedObjects a1 = []"
    "generatedObject a1 = Some (positionSubtract cA sceneA)"
    "sceneGeneration a1 = sceneGeneration stA"
    "currentMode a1 = Some ChemistryMode"
    using clearHighlights_frame [of stA] stA by (simp_all add: a1_def)
  have clickA: "onCanvasClick eng (Some [i, 0]) stA = handleHighlight eng [i, 0] a1"
    using fa by (simp add: onCanvasClick_def Let_def a1_def)
  have pick: "onCanvasClick eng (Some [i, 0]) stA =
      drawBondAngles eng (positionSubtract cA sceneA) ?d
        (highlightMesh (sceneGeneration stA, [i, 0])
           (a1\<lparr>angleVisualizationGroup := [],
               currentSelectionDetails := Some (chemistry_atom i ?d)\<rparr>))"
    unfolding clickA pick_atom_built [OF builtA atoms i fa(2) fa(4)] fa(3)
    using named by simp
  have c1: "currentSelectionDetails (onCanvasClick eng (Some [i, 0]) stA) =
              Some (chemistry_atom i ?d)"
    unfolding pick by (simp add: drawBondAngles_frame highlightMesh_fields)
  have refsA: "entityRefs stA (Pick (Some [i, 0])) = [(sceneGeneration stA, [i, 0])]"
    using pickedRefs_built [OF builtA atoms i stA] named by (simp add: entityRefs_def)
  have selA: "selected stA [(sceneGeneration stA, [i, 0])] (onCanvasClick eng (Some [i, 0]) stA)"
    using onCanvasClick_selected [of stA "Some [i, 0]" eng] unfolding refsA .
  have refsB: "entityRefs stB (Restore (chemistry_atom i ?d)) = [(sceneGeneration stB, [i, 0])]"
    using atomMeshRefs_built [OF builtB atoms, of "sceneGeneration stB" cB i] i stB
    by (simp add: entityRefs_def restoredRefs_def)
  have selB: "selected stB [(sceneGeneration stB, [i, 0])]
                (reHighlightSelection eng' (Some (chemistry_atom i ?d)) stB)"
    using reHighlightSelection_selected [OF stB, of "chemistry_atom i ?d" eng'] unfolding refsB .
  define b1 where
    "b1 = (clearHighlights stB)\<lparr>angleVisualizationGroup := [],
                                   currentSelectionDetails := Some (chemistry_atom i ?d)\<rparr>"
  have fb: "highlightedObjects b1 = []"
    "currentSelectionDetails b1 = Some (chemistry_atom i ?d)"
    using clearHighlights_frame [of stB] by (simp_all add: b1_def)
  have refs: "atomMeshRefs (sceneGeneration stB) (positionSubtract cB sceneB) i =
                [(sceneGeneration stB, [i, 0])]"
    using atomMeshRefs_built [OF builtB atoms, of "sceneGeneration stB" cB i] i by simp
  have restore: "reHighlightSelection eng' (Some (chemistry_atom i ?d)) stB =
      drawBondAngles eng' (positionSubtract cB sceneB) ?d
        (highlightMesh (sceneGeneration stB, [i, 0]) b1)"
    using stB by (simp add: reHighlightSelection_def Let_def refs b1_def)
  have c4: "currentSelectionDetails (reHighlightSelection eng' (Some (chemistry_atom i ?d)) stB) =
              Some (chemistry_atom i ?d)"
    unfolding restore by (simp add: drawBondAngles_frame highlightMesh_fields fb)
  show ?thesis
    unfolding c1 using selected_single [OF selA] selected_single [OF selB] c4
    by simp
qed

lemma exampleMoleculeState_image:
  "selectedImage exampleMoleculeState = Some (''data'', ''image/png'')"
proof -
  have v: "isModelValid (scaleSprites (4 / 30)
             (chemistryGroup exampleEngine exampleAtoms (bonds exampleMolecule)))"
    by (simp add: chemistryGroup_def chemistryChildren_def atomGroups_def exampleAtoms_def)
  show ?thesis
    using v
    by (simp add: exampleMoleculeState_def handleGenerateClick_def isBlank_molecule Let_def
          buildModel_def exampleMolecule_built installModel_def del: scaleSprites.simps)
qed

lemma regenerated_fields:
  "generatedObject
     (handleGenerateClick exampleEngine (Answer ''molecule'' (Some exampleMolecule))
        exampleMoleculeState) = Some exampleScene"
  "sceneGeneration
     (handleGenerateClick exampleEngine (Answer ''molecule'' (Some exampleMolecule))
        exampleMoleculeState) = 2"
proof -
  have v: "isModelValid (scaleSprites (4 / 30)
             (chemistryGroup exampleEngine exampleAtoms (bonds exampleMolecule)))"
    by (simp add: chemistryGroup_def chemistryChildren_def atomGroups_def exampleAtoms_def)
  have c: "boxCenter exampleEngine obj = (1, 1, 0)" for obj by (simp add: exampleEngine_def)
  show "generatedObject
     (handleGenerateClick exampleEngine (Answer ''molecule'' (Some exampleMolecule))
        exampleMoleculeState) = Some exampleScene"
    using v
    by (simp add: handleGenerateClick_def exampleMoleculeState_image
          exampleMoleculeState_fields isBlank_molecule Let_def buildModel_def
          exampleMolecule_built installModel_def c exampleScene_def del: scaleSprites.simps)
  show "sceneGeneration
     (handleGenerateClick exampleEngine (Answer ''molecule'' (Some exampleMolecule))
        exampleMoleculeState) = 2"
    using v
    by (simp add: handleGenerateClick_def exampleMoleculeState_image
          exampleMoleculeState_fields isBlank_molecule Let_def buildModel_def
          exampleMolecule_built installModel_def del: scaleSprites.simps)
qed

lemma highlightColor_value: "highlightColor = 16777113" by (simp add: highlightColor_def)

lemma exampleScene_lookup_hydrogen:
  "\<exists>m. lookup exampleScene [1, 0] = Some (Mesh m) \<and> color m = 16777215"
  by (simp add: scene_defs)

lemma regenerated_colors:
  "highlightedObjects
     (handleGenerateClick exampleEngine (Answer ''molecule'' (Some exampleMolecule))
        exampleMoleculeState) = []"
  "materialColor
     (handleGenerateClick exampleEngine (Answer ''molecule'' (Some exampleMolecule))
        exampleMoleculeState) (2, p) =
     (case lookup exampleScene p of Some (Mesh m) \<Rightarrow> color m | _ \<Rightarrow> 0)"
proof -
  have v: "isModelValid (scaleSprites (4 / 30)
             (chemistryGroup exampleEngine exampleAtoms (bonds exampleMolecule)))"
    by (simp add: chemistryGroup_def chemistryChildren_def atomGroups_def exampleAtoms_def)
  have c: "boxCenter exampleEngine obj = (1, 1, 0)" for obj by (simp add: exampleEngine_def)
  show "highlightedObjects
     (handleGenerateClick exampleEngine (Answer ''molecule'' (Some exampleMolecule))
        exampleMoleculeState) = []"
    using v
    by (simp add: handleGenerateClick_def exampleMoleculeState_image
          exampleMoleculeState_fields isBlank_molecule Let_def buildModel_def
          exampleMolecule_built installModel_def del: scaleSprites.simps)
  show "materialColor
     (handleGenerateClick exampleEngine (Answer ''molecule'' (Some exampleMolecule))
        exampleMoleculeState) (2, p) =
     (case lookup exampleScene p of Some (Mesh m) \<Rightarrow> color m | _ \<Rightarrow> 0)"
    using v
    by (simp add: handleGenerateClick_def exampleMoleculeState_image
          exampleMoleculeState_fields isBlank_molecule Let_def buildModel_def
          exampleMolecule_built installModel_def c exampleScene_def
          del: scaleSprites.simps split: option.splits obj3d.splits)
qed

text \<open>
  On the example molecule: the oxygen atom is clicked in the first generation
  of the model, the model is generated again, and the selection is restored
  in the second generation. Each time the red mesh of the oxygen atom turns
  light yellow and the white mesh of a hydrogen atom stays white.
\<close>

theorem atom_selection_restored_witness:
  "currentSelectionDetails (onCanvasClick exampleEngine (Some [0, 0]) exampleMoleculeState) =
     Some (chemistry_atom 0
            (AtomDetails ''O''
               (Some [\<lparr>angle = ''104.5'', atomsInvolved = [''H'', ''O'', ''H''],
                       atomsInvolvedIndices = [1, 0, 2]\<rparr>]) ''Bent'' 0)) \<and>
   highlightedObjects (onCanvasClick exampleEngine (Some [0, 0]) exampleMoleculeState) =
     [((1, [0, 0]), 16711680)] \<and>
   materialColor (onCanvasClick exampleEngine (Some [0, 0]) exampleMoleculeState) (1, [0, 0]) =
     16777113 \<and>
   materialColor (onCanvasClick exampleEngine (Some [0, 0]) exampleMoleculeState) (1, [1, 0]) =
     16777215 \<and>
   highlightedObjects
      (reHighlightSelection exampleEngine
         (currentSelectionDetails (onCanvasClick exampleEngine (Some [0, 0]) exampleMoleculeState))
         (handleGenerateClick exampleEngine (Answer ''molecule'' (Some exampleMolecule))
            exampleMoleculeState)) =
     [((2, [0, 0]), 16711680)] \<and>
   materialColor
      (reHighlightSelection exampleEngine
         (currentSelectionDetails (onCanvasClick exampleEngine (Some [0, 0]) exampleMoleculeState))
         (handleGenerateClick exampleEngine (Answer ''molecule'' (Some exampleMolecule))
            exampleMoleculeState)) (2, [0, 0]) = 16777113 \<and>
   materialColor
      (reHighlightSelection exampleEngine
         (currentSelectionDetails (onCanvasClick exampleEngine (Some [0, 0]) exampleMoleculeState))
         (handleGenerateClick exampleEngine (Answer ''molecule'' (Some exampleMolecule))
            exampleMoleculeState)) (2, [1, 0]) = 16777215"
proof -
  let ?regen = "handleGenerateClick exampleEngine (Answer ''molecule'' (Some exampleMolecule))
                  exampleMoleculeState"
  have a: "atoms exampleMolecule = Some exampleAtoms" "0 < length exampleAtoms"
    "element (exampleAtoms ! 0) \<noteq> []"
    by (simp_all add: exampleMolecule_def exampleAtoms_def)
  have d: "AtomDetails (element (exampleAtoms ! 0)) (bondAngles (exampleAtoms ! 0))
             (vseprShape (exampleAtoms ! 0)) 0 =
           AtomDetails ''O''
               (Some [\<lparr>angle = ''104.5'', atomsInvolved = [''H'', ''O'', ''H''],
                       atomsInvolvedIndices = [1, 0, 2]\<rparr>]) ''Bent'' 0"
    by (simp add: exampleAtoms_def)
  have cA: "materialColor (clearHighlights exampleMoleculeState) (1, [0, 0]) = 16711680"
    "materialColor (clearHighlights exampleMoleculeState) (1, [1, 0]) = 16777215"
    using exampleScene_lookup_atom exampleScene_lookup_hydrogen
    by (auto simp: exampleMoleculeState_clear exampleMoleculeState_fields)
  have clr: "clearHighlights ?regen = ?regen"
    by (simp add: clearHighlights_def regenerated_colors(1))
  have cB: "materialColor (clearHighlights ?regen) (2, [0, 0]) = 16711680"
    "materialColor (clearHighlights ?regen) (2, [1, 0]) = 16777215"
    unfolding clr regenerated_colors(2)
    using exampleScene_lookup_atom exampleScene_lookup_hydrogen by auto
  note t = atom_selection_restored
      [OF a exampleMolecule_built exampleMolecule_built
          exampleMoleculeState_fields(1) [unfolded exampleScene_def]
          exampleMoleculeState_fields(3)
          regenerated_fields(1) [unfolded exampleScene_def],
       of exampleEngine exampleEngine,
       unfolded d exampleMoleculeState_fields(2) regenerated_fields(2)]
  note p1 = t [THEN conjunct1]
  note p2 = t [THEN conjunct2, THEN conjunct1]
  note p3 = t [THEN conjunct2, THEN conjunct2, THEN conjunct1, THEN spec]
  note p4 = t [THEN conjunct2, THEN conjunct2, THEN conjunct2, THEN conjunct1]
  note p5 = t [THEN conjunct2, THEN conjunct2, THEN conjunct2, THEN conjunct2, THEN conjunct1,
               THEN spec]
  have w2: "highlightedObjects (onCanvasClick exampleEngine (Some [0, 0]) exampleMoleculeState) =
              [((1, [0, 0]), 16711680)]"
    unfolding p2 cA(1) ..
  have w3: "materialColor (onCanvasClick exampleEngine (Some [0, 0]) exampleMoleculeState)
              (1, [0, 0]) = 16777113"
    unfolding p3 by (simp add: highlightColor_value)
  have w4: "materialColor (onCanvasClick exampleEngine (Some [0, 0]) exampleMoleculeState)
              (1, [1, 0]) = 16777215"
    unfolding p3 using cA(2) by simp
  have w5: "highlightedObjects
      (reHighlightSelection exampleEngine
         (currentSelectionDetails (onCanvasClick exampleEngine (Some [0, 0]) exampleMoleculeState))
         ?regen) = [((2, [0, 0]), 16711680)]"
    unfolding p4 cB(1) ..
  have w6: "materialColor
      (reHighlightSelection exampleEngine
         (currentSelectionDetails (onCanvasClick exampleEngine (Some [0, 0]) exampleMoleculeState))
         ?regen) (2, [0, 0]) = 16777113"
    unfolding p5 by (simp add: highlightColor_value)
  have w7: "materialColor
      (reHighlightSelection exampleEngine
         (currentSelectionDetails (onCanvasClick exampleEngine (Some [0, 0]) exampleMoleculeState))
         ?regen) (2, [1, 0]) = 16777215"
    unfolding p5 using cB(2) by simp
  from p1 w2 w3 w4 w5 w6 w7 show ?thesis by (intro conjI)
qed

text \<open>
  The molecule whose one atom has the empty string for its element is built
  without an error and its atom can be hit. A click on the atom stores no
  selection and highlights nothing, and restoring what the click stored, in
  the model generated again, highlights nothing, while restoring a selection
  of atom 0 there highlights the mesh of the atom.
\<close>

theorem atom_selection_restored_counterexample:
  "errorMessage unnamedMoleculeState = None \<and>
   pickable unnamedMoleculeState = [(1, [0, 0])] \<and>
   currentSelectionDetails (onCanvasClick exampleEngine (Some [0, 0]) unnamedMoleculeState) = None \<and>
   highlightedObjects (onCanvasClick exampleEngine (Some [0, 0]) unnamedMoleculeState) = [] \<and>
   highlightedObjects
      (reHighlightSelection exampleEngine
         (currentSelectionDetails (onCanvasClick exampleEngine (Some [0, 0]) unnamedMoleculeState))
         (handleGenerateClick exampleEngine (Answer ''molecule'' (Some unnamedMolecule))
            unnamedMoleculeState)) = [] \<and>
   map fst (highlightedObjects
      (reHighlightSelection exampleEngine
         (Some (chemistry_atom 0 (AtomDetails [] (Some []) ''N/A'' 0)))
         (handleGenerateClick exampleEngine (Answer ''molecule'' (Some unnamedMolecule))
            unnamedMoleculeState))) = [(2, [0, 0])]"
  by (simp add: unnamedMoleculeState_def unnamedMolecule_def handleGenerateClick_def
          isBlank_molecule Let_def buildModel_def buildChemistryModel_def chemistryLabelScale_def
          installModel_def initialState_def pickable_def meshRefsUnder_def
          onCanvasClick_def clearHighlights_def handleHighlight_def
          reHighlightSelection_def atomMeshRefs_def highlightMesh_def drawBondAngles_def
          chemistryGroup_def chemistryChildren_def atomGroups_def
          createAtom_def createLabelSprite_def exampleEngine_def emptyGroup_def
          lookupOrDefault_def CPK_COLORS_def ATOM_RADII_def toUpperCase_def)

lemma pickable_none: "generatedObject st = None \<Longrightarrow> pickable st = []"
  by (simp add: pickable_def)

text \<open>
  C2, as the code has it. A generation first takes the model out of the scene
  and then builds. When the build fails, the state has no model, nothing can
  be picked, and the error is shown. Loading a session whose model does not
  build resets the application and leaves no model either.
\<close>

theorem failed_build_detaches:
  "(selectedImage st = Some img \<and> currentMode st = Some m \<and> \<not> isBlank rawText \<and>
    buildModel eng m data = Inl err \<longrightarrow>
      generatedObject (handleGenerateClick eng (Answer rawText (Some data)) st) = None \<and>
      pickable (handleGenerateClick eng (Answer rawText (Some data)) st) = [] \<and>
      errorMessage (handleGenerateClick eng (Answer rawText (Some data)) st) = Some err) \<and>
   (session_parsed s = Some data \<and> buildModel eng (session_mode s) data = Inl err \<longrightarrow>
      generatedObject (loadSessionState eng s st) = None \<and>
      pickable (loadSessionState eng s st) = [])"
proof (intro conjI impI)
  assume a: "selectedImage st = Some img \<and> currentMode st = Some m \<and> \<not> isBlank rawText \<and>
    buildModel eng m data = Inl err"
  then have g: "generatedObject (handleGenerateClick eng (Answer rawText (Some data)) st) = None"
    by (simp add: handleGenerateClick_def Let_def)
  then show "generatedObject (handleGenerateClick eng (Answer rawText (Some data)) st) = None" .
  from g show "pickable (handleGenerateClick eng (Answer rawText (Some data)) st) = []"
    by (rule pickable_none)
  from a show "errorMessage (handleGenerateClick eng (Answer rawText (Some data)) st) = Some err"
    by (simp add: handleGenerateClick_def Let_def)
next
  assume a: "session_parsed s = Some data \<and> buildModel eng (session_mode s) data = Inl err"
  then have g: "generatedObject (loadSessionState eng s st) = None"
    by (simp add: loadSessionState_def resetApp_def Let_def clearHighlights_def)
  then show "generatedObject (loadSessionState eng s st) = None" .
  from g show "pickable (loadSessionState eng s st) = []" by (rule pickable_none)
qed

lemma isBlank_solid: "\<not> isBlank ''solid''"
  by (simp add: isBlank_def)

lemma isBlank_braces: "\<not> isBlank ''{}''"
  by (simp add: isBlank_def)

lemma exampleSolid_built:
  "\<exists>g cs. buildGeometryModel exampleEngine exampleSolid = Inr (Group g cs) \<and> cs \<noteq> [] \<and>
          length (meshesOf (Group g cs)) = 9"
proof -
  have v: "vertices exampleSolid = Some exampleVertices" "exampleVertices \<noteq> []"
    and f: "faces exampleSolid = Some exampleFaces" "exampleFaces \<noteq> []"
    by (simp_all add: exampleSolid_def exampleVertices_def exampleFaces_def)
  have n: "buildFaceMeshes exampleVertices exampleFaces \<noteq> []"
    using length_buildFaceMeshes [of exampleVertices exampleFaces] exampleSolid_valid by auto
  show ?thesis
    using buildGeometryModel_result [OF v f, of exampleEngine] n
    by (simp add: exampleSolid_valid meshesOf_flat length_buildFaceMeshes)
qed

lemma length_map_filter:
  "length (List.map_filter f xs) = length (filter (\<lambda>x. f x \<noteq> None) xs)"
  by (simp add: List.map_filter_def)

lemma theMesh_isMesh: "(\<exists>y. theMesh n = Some y) = isMesh n"
  by (cases n) simp_all

lemma length_meshRefsUnder: "length (meshRefsUnder gen [] obj) = length (meshesOf obj)"
  by (simp add: meshRefsUnder_def meshesOf_def length_map_filter case_prod_unfold theMesh_isMesh)

lemma meshesOf_positionSubtract_Group:
  "meshesOf (positionSubtract c (Group g cs)) = meshesOf (Group g cs)"
  by (simp add: meshesOf_def List.map_filter_simps)

lemma exampleSolidState_fields:
  "selectedImage exampleSolidState = Some (''data'', ''image/png'')"
  "currentMode exampleSolidState = Some GeometryMode"
  "length (pickable exampleSolidState) = 9"
proof -
  obtain g cs where b: "buildGeometryModel exampleEngine exampleSolid = Inr (Group g cs)"
    and cs: "cs \<noteq> []" and n: "length (meshesOf (Group g cs)) = 9"
    using exampleSolid_built by blast
  have st: "exampleSolidState =
     installModel exampleEngine (Group g cs)
       (initialState\<lparr>currentMode := Some GeometryMode,
                      selectedImage := Some (''data'', ''image/png''),
                      errorMessage := None, generatedObject := None,
                      generatedModelData := None, currentSelectionDetails := None,
                      angleVisualizationGroup := [],
                      generatedModelData := Some ''solid''\<rparr>)"
    using cs
    by (simp add: exampleSolidState_def handleGenerateClick_def isBlank_solid Let_def
          buildModel_def b)
  show "selectedImage exampleSolidState = Some (''data'', ''image/png'')"
    unfolding st by (simp add: installModel_def Let_def)
  show "currentMode exampleSolidState = Some GeometryMode"
    unfolding st by (simp add: installModel_def Let_def)
  show "length (pickable exampleSolidState) = 9"
    unfolding st pickable_def
    by (simp add: installModel_def Let_def length_meshRefsUnder n
          meshesOf_positionSubtract_Group del: positionSubtract.simps)
qed

text \<open>
  The example solid is in the scene with nine meshes to pick. A generation
  that answers an empty object fails for want of vertices, and afterwards no
  mesh can be picked.
\<close>

theorem failed_build_detaches_counterexample:
  "length (pickable exampleSolidState) = 9 \<and>
   errorMessage
     (handleGenerateClick exampleEngine
        (Answer ''{}'' (Some \<lparr>vertices = None, faces = None, labels = None,
                               atoms = None, bonds = None\<rparr>))
        exampleSolidState) = Some VerticesMissing \<and>
   pickable
     (handleGenerateClick exampleEngine
        (Answer ''{}'' (Some \<lparr>vertices = None, faces = None, labels = None,
                               atoms = None, bonds = None\<rparr>))
        exampleSolidState) = []"
proof -
  have "generatedObject
     (handleGenerateClick exampleEngine
        (Answer ''{}'' (Some \<lparr>vertices = None, faces = None, labels = None,
                               atoms = None, bonds = None\<rparr>))
        exampleSolidState) = None"
    by (simp add: exampleSolidState_fields handleGenerateClick_def isBlank_braces Let_def
          buildModel_def buildGeometryModel_def)
  then have "pickable
     (handleGenerateClick exampleEngine
        (Answer ''{}'' (Some \<lparr>vertices = None, faces = None, labels = None,
                               atoms = None, bonds = None\<rparr>))
        exampleSolidState) = []"
    by (rule pickable_none)
  moreover have "errorMessage
     (handleGenerateClick exampleEngine
        (Answer ''{}'' (Some \<lparr>vertices = None, faces = None, labels = None,
                               atoms = None, bonds = None\<rparr>))
        exampleSolidState) = Some VerticesMissing"
    by (simp add: exampleSolidState_fields handleGenerateClick_def isBlank_braces Let_def
          buildModel_def buildGeometryModel_def)
  ultimately show ?thesis using exampleSolidState_fields(3) by (intro conjI)
qed

text \<open>
  The example molecule is in the scene; a generation that answers an empty
  object fails for want of atoms and leaves no model.
\<close>

theorem failed_build_detaches_witness:
  "generatedObject exampleMoleculeState = Some
     (positionSubtract (1, 1, 0)
        (scaleSprites (4 / 30)
           (chemistryGroup exampleEngine exampleAtoms (bonds exampleMolecule)))) \<and>
   generatedObject
     (handleGenerateClick exampleEngine
        (Answer ''{}'' (Some \<lparr>vertices = None, faces = None, labels = None,
                               atoms = None, bonds = None\<rparr>))
        exampleMoleculeState) = None \<and>
   pickable
     (handleGenerateClick exampleEngine
        (Answer ''{}'' (Some \<lparr>vertices = None, faces = None, labels = None,
                               atoms = None, bonds = None\<rparr>))
        exampleMoleculeState) = [] \<and>
   errorMessage
     (handleGenerateClick exampleEngine
        (Answer ''{}'' (Some \<lparr>vertices = None, faces = None, labels = None,
                               atoms = None, bonds = None\<rparr>))
        exampleMoleculeState) = Some AtomsNotFound"
  using failed_build_detaches
    [of exampleMoleculeState "(''data'', ''image/png'')" ChemistryMode "''{}''" exampleEngine
        "\<lparr>vertices = None, faces = None, labels = None, atoms = None, bonds = None\<rparr>"
        AtomsNotFound]
  by (simp add: exampleMoleculeState_image exampleMoleculeState_fields isBlank_braces
        buildModel_def buildChemistryModel_def exampleScene_def del: scaleSprites.simps)

end
